theory Spec2Isabelle
  imports Main
begin

section \<open>Strings, truthiness and the store's string comparison\<close>

text \<open>
  Wallet addresses and referral codes are ASCII strings. \<open>toLowerCase\<close> and
  \<open>toUpperCase\<close> are JavaScript's \<open>String.prototype.toLowerCase\<close> and
  \<open>toUpperCase\<close> on that range: the 26 letters change case, every other character
  stays.
\<close>

definition upper_letters :: string where
  "upper_letters = ''ABCDEFGHIJKLMNOPQRSTUVWXYZ''"

definition lower_letters :: string where
  "lower_letters = ''abcdefghijklmnopqrstuvwxyz''"

definition toLowerCase_char :: "char \<Rightarrow> char" where
  "toLowerCase_char c =
     (case map_of (zip upper_letters lower_letters) c of Some l \<Rightarrow> l | None \<Rightarrow> c)"

definition toUpperCase_char :: "char \<Rightarrow> char" where
  "toUpperCase_char c =
     (case map_of (zip lower_letters upper_letters) c of Some u \<Rightarrow> u | None \<Rightarrow> c)"

definition toLowerCase :: "string \<Rightarrow> string" where
  "toLowerCase s = map toLowerCase_char s"

definition toUpperCase :: "string \<Rightarrow> string" where
  "toUpperCase s = map toUpperCase_char s"

text \<open>
  JavaScript truthiness of a nullable string (\<open>if (profile.referredBy)\<close>,
  \<open>!profile.discordId\<close>, \<open>discordId || null\<close>): \<open>null\<close>, \<open>undefined\<close> and the
  empty string are falsy.
\<close>

definition truthy :: "string option \<Rightarrow> bool" where
  "truthy v = (case v of None \<Rightarrow> False | Some s \<Rightarrow> s \<noteq> [])"

text \<open>
  The relational store compares \<open>varchar\<close> columns under the collation of the
  database, which the schema leaves to the server: MySQL's default compares without
  regard to case, TiDB's default compares bytes. The collation is therefore a field of
  the store (\<open>ci_collation\<close>), and \<open>sql_eq\<close> is drizzle's \<open>eq(column, value)\<close> under it.
\<close>

definition sql_eq :: "bool \<Rightarrow> string \<Rightarrow> string \<Rightarrow> bool" where
  "sql_eq ci a b = (if ci then toLowerCase a = toLowerCase b else a = b)"

section \<open>JavaScript numbers\<close>

text \<open>
  Points are JavaScript numbers, IEEE 754 doubles. The model covers the integer-valued
  ones and represents each by the integer it denotes. Every integer of magnitude up to
  \<open>2^53\<close> is a double; beyond, a double is a multiple of a power of two (of \<open>2^k\<close>
  between \<open>2^(52+k)\<close> and \<open>2^(53+k)\<close>), and the result of an arithmetic operation is
  the exact result rounded to the nearest double, a tie going to the one with the even
  significand. Fractional amounts, \<open>NaN\<close> and the infinities (a result whose magnitude
  reaches \<open>2^1024\<close>), which \<open>z.number()\<close> and the arithmetic also admit, are outside
  the model.

  \<open>exponent x\<close>, for \<open>x \<ge> 0\<close>, is the least \<open>k\<close> with \<open>x < 2^(53+k)\<close>: the spacing of
  the doubles around \<open>x\<close> is \<open>2^k\<close>.
\<close>

function exponent :: "int \<Rightarrow> nat" where
  "exponent x = (if x < 2 ^ 53 then 0 else Suc (exponent (x div 2)))"
  by auto
termination
  by (relation "measure nat") auto

declare exponent.simps [simp del]

text \<open>\<open>x \<ge> 0\<close> rounded to a multiple of \<open>2^k\<close>, \<open>k \<ge> 1\<close>, ties to the even multiple.\<close>

definition roundTiesToEven :: "nat \<Rightarrow> int \<Rightarrow> int" where
  "roundTiesToEven k x =
     (let q = x div 2 ^ k; r = x mod 2 ^ k; half = 2 ^ (k - 1)
      in if r < half \<or> (r = half \<and> even q) then q * 2 ^ k else (q + 1) * 2 ^ k)"

definition toDouble :: "int \<Rightarrow> int" where
  "toDouble x =
     (if \<bar>x\<bar> < 2 ^ 53 then x else sgn x * roundTiesToEven (exponent \<bar>x\<bar>) \<bar>x\<bar>)"

text \<open>The operator \<open>+\<close> on two numbers, and \<open>Number.isSafeInteger\<close>.\<close>

definition js_add :: "int \<Rightarrow> int \<Rightarrow> int" where
  "js_add a b = toDouble (a + b)"

definition isSafeInteger :: "int \<Rightarrow> bool" where
  "isSafeInteger x = (\<bar>x\<bar> \<le> 2 ^ 53 - 1)"

section \<open>The relational store (drizzle schema)\<close>

text \<open>
  Timestamps are natural numbers (\<open>new Date()\<close> is the parameter \<open>now\<close> of each
  operation). The free-text \<open>description\<close> of a history row and the text of success
  messages are left out: nothing reads them back. Every function is modelled with the
  database available (\<open>getDb()\<close> returns a connection), so the \<open>if (!db)\<close> returns of
  the source are not branches of the model; a statement that the database rejects for a
  unique key is the result \<open>Threw\<close>.

  The columns \<open>total_points\<close>, \<open>points_change\<close> and \<open>balance_after\<close> are MySQL \<open>INT\<close>
  (\<open>int_column\<close> is their range). What the server does with a value outside that range,
  an error under a strict \<open>sql_mode\<close> and the clipped value otherwise, is not in the
  repository. The functions on the relational store describe the executions in which
  every statement is accepted and stores the value it is given; there the balance read,
  the amount and the new balance are integers within the range, on which the addition
  of the source is exact. The ledger identity, which depends on it, carries the range
  as a hypothesis.
\<close>

definition int_column :: "int \<Rightarrow> bool" where
  "int_column x = (- (2 ^ 31) \<le> x \<and> x \<le> 2 ^ 31 - 1)"

record walletProfile =
  walletAddress :: string
  chainType :: string
  totalPoints :: int
  connectBonusClaimed :: bool
  xConnected :: bool
  xUsername :: "string option"
  xConnectedAt :: "nat option"
  discordConnected :: bool
  discordUsername :: "string option"
  discordId :: "string option"
  discordConnectedAt :: "nat option"
  discordVerified :: bool
  discordVerifiedAt :: "nat option"
  referralCode :: "string option"
  referredBy :: "string option"
  referralCount :: int
  referralPointsEarned :: int
  createdAt :: nat
  updatedAt :: nat

record pointsHistoryRow =
  h_id :: nat
  h_walletAddress :: string
  transactionType :: string
  pointsChange :: int
  balanceAfter :: int
  h_createdAt :: nat

datatype taskStatus = Active | Revoked

record taskCompletion =
  t_id :: nat
  t_walletAddress :: string
  taskType :: string
  pointsAwarded :: int
  completionDate :: "string option"
  metadata :: "string option"
  status :: taskStatus
  completedAt :: nat
  revokedAt :: "nat option"

record referral =
  r_id :: nat
  referrerWallet :: string
  referredWallet :: string
  r_referralCode :: string
  referrerPoints :: int
  referredPoints :: int
  referrerClaimed :: bool
  referredClaimed :: bool
  r_createdAt :: nat
  claimedAt :: "nat option"

text \<open>
  A table is the list of its rows in insertion order; the \<open>serial\<close> primary keys come
  from one counter per table.
\<close>

record db =
  ci_collation :: bool
  walletProfiles :: "walletProfile list"
  pointsHistory :: "pointsHistoryRow list"
  taskCompletions :: "taskCompletion list"
  referrals :: "referral list"
  nextHistoryId :: nat
  nextTaskId :: nat
  nextReferralId :: nat

definition empty_db :: "bool \<Rightarrow> db" where
  "empty_db ci = \<lparr>ci_collation = ci, walletProfiles = [], pointsHistory = [],
     taskCompletions = [], referrals = [], nextHistoryId = 1, nextTaskId = 1,
     nextReferralId = 1\<rparr>"

text \<open>
  What an exported operation hands back: \<open>{success: true, ...}\<close> with the numbers it
  carries (points granted or deducted, or \<open>referrerPoints\<close> and \<open>referredPoints\<close>),
  \<open>{success: false, message}\<close>, or an exception of the store (a unique constraint
  refused a write) that nothing catches.
\<close>

datatype result = Succeeded "int list" | Failed string | Threw

section \<open>Wallet profiles\<close>

definition getWalletProfile :: "db \<Rightarrow> string \<Rightarrow> walletProfile option" where
  "getWalletProfile d w =
     find (\<lambda>p. sql_eq (ci_collation d) (walletAddress p) w) (walletProfiles d)"

text \<open>
  \<open>db.update(walletProfiles).set({..., updatedAt: new Date()}).where(eq(walletAddress, w))\<close>:
  every row the condition selects is changed.
\<close>

definition updateProfiles ::
  "string \<Rightarrow> (walletProfile \<Rightarrow> walletProfile) \<Rightarrow> nat \<Rightarrow> db \<Rightarrow> db" where
  "updateProfiles w f now d =
     d\<lparr>walletProfiles :=
         map (\<lambda>p. if sql_eq (ci_collation d) (walletAddress p) w
                   then (f p)\<lparr>updatedAt := now\<rparr> else p)
             (walletProfiles d)\<rparr>"

definition newProfile :: "string \<Rightarrow> string \<Rightarrow> nat \<Rightarrow> walletProfile" where
  "newProfile w chain now =
     \<lparr>walletAddress = w, chainType = chain, totalPoints = 0,
      connectBonusClaimed = False, xConnected = False, xUsername = None,
      xConnectedAt = None, discordConnected = False, discordUsername = None,
      discordId = None, discordConnectedAt = None, discordVerified = False,
      discordVerifiedAt = None, referralCode = None, referredBy = None,
      referralCount = 0, referralPointsEarned = 0, createdAt = now, updatedAt = now\<rparr>"

definition getOrCreateWalletProfile ::
  "string \<Rightarrow> string \<Rightarrow> nat \<Rightarrow> db \<Rightarrow> walletProfile option \<times> db" where
  "getOrCreateWalletProfile w chain now d =
     (case getWalletProfile d w of
        Some existing \<Rightarrow> (Some existing, d)
      | None \<Rightarrow>
          let d1 = d\<lparr>walletProfiles := walletProfiles d @ [newProfile w chain now]\<rparr>
          in (getWalletProfile d1 w, d1))"

section \<open>Points engine\<close>

text \<open>
  \<open>addPoints\<close> reads the profile, updates its balance and then inserts the history row;
  the \<open>UPDATE\<close> and the \<open>INSERT\<close> are two statements outside any transaction. Both
  are accepted in the executions described here, where \<open>profile.totalPoints + points\<close>
  adds integers of the \<open>INT\<close> range.
\<close>

definition addPoints :: "string \<Rightarrow> int \<Rightarrow> string \<Rightarrow> nat \<Rightarrow> db \<Rightarrow> int option \<times> db" where
  "addPoints w points ttype now d =
     (case getWalletProfile d w of
        None \<Rightarrow> (None, d)
      | Some profile \<Rightarrow>
          let newTotal = totalPoints profile + points;
              d1 = updateProfiles w (\<lambda>p. p\<lparr>totalPoints := newTotal\<rparr>) now d;
              d2 = d1\<lparr>pointsHistory := pointsHistory d1 @
                        [\<lparr>h_id = nextHistoryId d1, h_walletAddress = w,
                          transactionType = ttype, pointsChange = points,
                          balanceAfter = newTotal, h_createdAt = now\<rparr>],
                      nextHistoryId := Suc (nextHistoryId d1)\<rparr>
          in (Some newTotal, d2))"

text \<open>
  \<open>orderBy(desc(createdAt)).limit(1)\<close>: a row with the greatest timestamp. Among rows
  of one timestamp the store may return any; the model returns the one inserted last.
\<close>

fun latest :: "pointsHistoryRow list \<Rightarrow> pointsHistoryRow option" where
  "latest [] = None"
| "latest (r # rs) =
     (case latest rs of
        None \<Rightarrow> Some r
      | Some r' \<Rightarrow> if h_createdAt r \<le> h_createdAt r' then Some r' else Some r)"

definition getOriginalBonusPoints :: "db \<Rightarrow> string \<Rightarrow> string \<Rightarrow> int \<Rightarrow> int" where
  "getOriginalBonusPoints d w ttype fallback =
     (case latest (filter (\<lambda>h. sql_eq (ci_collation d) (h_walletAddress h) w \<and>
                               sql_eq (ci_collation d) (transactionType h) ttype)
                          (pointsHistory d)) of
        Some record \<Rightarrow> if pointsChange record > 0 then pointsChange record else fallback
      | None \<Rightarrow> fallback)"

section \<open>Task completions\<close>

definition hasCompletedTask :: "db \<Rightarrow> string \<Rightarrow> string \<Rightarrow> string option \<Rightarrow> bool" where
  "hasCompletedTask d w ttype date =
     (let ci = ci_collation d;
          base = (\<lambda>t. sql_eq ci (t_walletAddress t) w \<and> sql_eq ci (taskType t) ttype \<and>
                      status t = Active);
          dated = (\<lambda>dt t. case completionDate t of
                             Some cd \<Rightarrow> sql_eq ci cd dt | None \<Rightarrow> False)
      in case date of
           Some dt \<Rightarrow>
             if dt \<noteq> []
             then find (\<lambda>t. base t \<and> dated dt t) (taskCompletions d) \<noteq> None
             else find base (taskCompletions d) \<noteq> None
         | None \<Rightarrow> find base (taskCompletions d) \<noteq> None)"

text \<open>The inserted row takes the column default \<open>status = 'active'\<close>.\<close>

definition completeTask ::
  "string \<Rightarrow> string \<Rightarrow> int \<Rightarrow> string option \<Rightarrow> string option \<Rightarrow> nat \<Rightarrow> db \<Rightarrow> db" where
  "completeTask w ttype awarded meta cdate now d =
     d\<lparr>taskCompletions := taskCompletions d @
          [\<lparr>t_id = nextTaskId d, t_walletAddress = w, taskType = ttype,
            pointsAwarded = awarded, completionDate = cdate, metadata = meta,
            status = Active, completedAt = now, revokedAt = None\<rparr>],
       nextTaskId := Suc (nextTaskId d)\<rparr>"

section \<open>Connect bonus\<close>

definition claimConnectBonus :: "string \<Rightarrow> nat \<Rightarrow> db \<Rightarrow> result \<times> db" where
  "claimConnectBonus w now d =
     (case getWalletProfile d w of
        None \<Rightarrow> (Failed ''Profile not found'', d)
      | Some profile \<Rightarrow>
          if connectBonusClaimed profile then (Failed ''Connect bonus already claimed'', d)
          else
            let d1 = updateProfiles w (\<lambda>p. p\<lparr>connectBonusClaimed := True\<rparr>) now d;
                d2 = snd (addPoints w 300 ''connect_bonus'' now d1)
            in (Succeeded [300], d2))"

section \<open>Referral bonus and referral code helpers\<close>

definition findReferral :: "db \<Rightarrow> string \<Rightarrow> referral option" where
  "findReferral d w =
     find (\<lambda>r. sql_eq (ci_collation d) (referredWallet r) w) (referrals d)"

definition claimReferralBonus :: "string \<Rightarrow> nat \<Rightarrow> db \<Rightarrow> result \<times> db" where
  "claimReferralBonus referred now d =
     (case findReferral d referred of
        None \<Rightarrow> (Failed ''No referral found for this wallet'', d)
      | Some referral \<Rightarrow>
          if referrerClaimed referral then (Failed ''Referral bonus already claimed'', d)
          else
            let d1 = snd (addPoints (referrerWallet referral) 50 ''referral_bonus'' now d);
                d2 = snd (addPoints referred 50 ''referral_bonus'' now d1);
                d3 = (case getWalletProfile d2 (referrerWallet referral) of
                        Some referrerProfile \<Rightarrow>
                          updateProfiles (referrerWallet referral)
                            (\<lambda>p. p\<lparr>referralCount := referralCount referrerProfile + 1,
                                   referralPointsEarned :=
                                     referralPointsEarned referrerProfile + 50\<rparr>) now d2
                      | None \<Rightarrow> d2);
                d4 = d3\<lparr>referrals :=
                          map (\<lambda>r. if r_id r = r_id referral
                                    then r\<lparr>referrerClaimed := True, referredClaimed := True,
                                           claimedAt := Some now, referrerPoints := 50,
                                           referredPoints := 50\<rparr>
                                    else r) (referrals d3)\<rparr>
            in (Succeeded [50, 50], d4))"

definition maybeClaimReferralBonus :: "string \<Rightarrow> nat \<Rightarrow> db \<Rightarrow> db" where
  "maybeClaimReferralBonus w now d =
     (case getWalletProfile d w of
        None \<Rightarrow> d
      | Some profile \<Rightarrow>
          if \<not> truthy (referredBy profile) then d
          else (case findReferral d w of
                  Some referral \<Rightarrow>
                    if \<not> referrerClaimed referral then snd (claimReferralBonus w now d)
                    else d
                | None \<Rightarrow> d))"

text \<open>
  \<open>nanoid(8)\<close> is the parameter \<open>token\<close>. \<open>referral_code\<close> is a unique column: the
  store refuses the update (the result \<open>None\<close>, an exception in the source) when the
  code is already the code of another row.
\<close>

definition codeTaken :: "db \<Rightarrow> string \<Rightarrow> string \<Rightarrow> bool" where
  "codeTaken d w code =
     (find (\<lambda>p. \<not> sql_eq (ci_collation d) (walletAddress p) w \<and>
                 (case referralCode p of
                    Some c \<Rightarrow> sql_eq (ci_collation d) c code | None \<Rightarrow> False))
           (walletProfiles d) \<noteq> None)"

definition canGenerateCode :: "walletProfile \<Rightarrow> bool" where
  "canGenerateCode p = (xConnected p \<and> discordConnected p \<and> discordVerified p)"

definition maybeGenerateReferralCode :: "string \<Rightarrow> string \<Rightarrow> nat \<Rightarrow> db \<Rightarrow> db option" where
  "maybeGenerateReferralCode w token now d =
     (case getWalletProfile d w of
        None \<Rightarrow> Some d
      | Some profile \<Rightarrow>
          if canGenerateCode profile \<and> \<not> truthy (referralCode profile)
          then (if codeTaken d w (toUpperCase token) then None
                else Some (updateProfiles w
                             (\<lambda>p. p\<lparr>referralCode := Some (toUpperCase token)\<rparr>) now d))
          else Some d)"

section \<open>Social connections\<close>

definition connectXAccount :: "string \<Rightarrow> string \<Rightarrow> string \<Rightarrow> nat \<Rightarrow> db \<Rightarrow> result \<times> db" where
  "connectXAccount w xUser token now d =
     (case getWalletProfile d w of
        None \<Rightarrow> (Failed ''Profile not found'', d)
      | Some profile \<Rightarrow>
          if xConnected profile then (Failed ''X account already connected'', d)
          else
            let d1 = updateProfiles w
                       (\<lambda>p. p\<lparr>xConnected := True, xUsername := Some xUser,
                              xConnectedAt := Some now\<rparr>) now d;
                d2 = snd (addPoints w 100 ''x_connect'' now d1)
            in (case maybeGenerateReferralCode w token now d2 of
                  None \<Rightarrow> (Threw, d2)
                | Some d3 \<Rightarrow> (Succeeded [100], maybeClaimReferralBonus w now d3)))"

definition disconnectXAccount :: "string \<Rightarrow> nat \<Rightarrow> db \<Rightarrow> result \<times> db" where
  "disconnectXAccount w now d =
     (case getWalletProfile d w of
        None \<Rightarrow> (Failed ''Profile not found'', d)
      | Some profile \<Rightarrow>
          if \<not> xConnected profile then (Failed ''X account not connected'', d)
          else
            let d1 = updateProfiles w
                       (\<lambda>p. p\<lparr>xConnected := False, xUsername := None,
                              xConnectedAt := None\<rparr>) now d;
                originalBonus = getOriginalBonusPoints d1 w ''x_connect'' 100;
                d2 = snd (addPoints w (- originalBonus) ''x_disconnect'' now d1)
            in (Succeeded [originalBonus], d2))"

definition connectDiscordAccount ::
  "string \<Rightarrow> string \<Rightarrow> string option \<Rightarrow> string \<Rightarrow> nat \<Rightarrow> db \<Rightarrow> result \<times> db" where
  "connectDiscordAccount w dUser dId token now d =
     (case getWalletProfile d w of
        None \<Rightarrow> (Failed ''Profile not found'', d)
      | Some profile \<Rightarrow>
          if discordConnected profile then (Failed ''Discord account already connected'', d)
          else
            let d1 = updateProfiles w
                       (\<lambda>p. p\<lparr>discordConnected := True, discordUsername := Some dUser,
                              discordId := (if truthy dId then dId else None),
                              discordConnectedAt := Some now\<rparr>) now d;
                d2 = snd (addPoints w 50 ''discord_connect'' now d1)
            in (case maybeGenerateReferralCode w token now d2 of
                  None \<Rightarrow> (Threw, d2)
                | Some d3 \<Rightarrow> (Succeeded [50], maybeClaimReferralBonus w now d3)))"

definition disconnectDiscordAccount :: "string \<Rightarrow> nat \<Rightarrow> db \<Rightarrow> result \<times> db" where
  "disconnectDiscordAccount w now d =
     (case getWalletProfile d w of
        None \<Rightarrow> (Failed ''Profile not found'', d)
      | Some profile \<Rightarrow>
          if \<not> discordConnected profile then (Failed ''Discord account not connected'', d)
          else
            let wasVerified = discordVerified profile;
                d1 = updateProfiles w
                       (\<lambda>p. p\<lparr>discordConnected := False, discordUsername := None,
                              discordId := None, discordConnectedAt := None,
                              discordVerified := False, discordVerifiedAt := None\<rparr>) now d;
                connectBonus = getOriginalBonusPoints d1 w ''discord_connect'' 50;
                d2 = snd (addPoints w (- connectBonus) ''discord_disconnect'' now d1)
            in if wasVerified
               then
                 let verifyBonus = getOriginalBonusPoints d2 w ''discord_verify'' 50;
                     d3 = snd (addPoints w (- verifyBonus) ''discord_verify_revoked'' now d2)
                 in (Succeeded [connectBonus + verifyBonus], d3)
               else (Succeeded [connectBonus], d2))"

section \<open>Daily post\<close>

text \<open>\<open>today\<close> is the UTC date string of \<open>new Date()\<close>.\<close>

definition completeDailyPost ::
  "string \<Rightarrow> string option \<Rightarrow> string \<Rightarrow> nat \<Rightarrow> db \<Rightarrow> result \<times> db" where
  "completeDailyPost w tweetUrl today now d =
     (case getWalletProfile d w of
        None \<Rightarrow> (Failed ''Profile not found'', d)
      | Some profile \<Rightarrow>
          if \<not> xConnected profile then (Failed ''X account must be connected first'', d)
          else if hasCompletedTask d w ''daily_post'' (Some today)
          then (Failed ''Daily post already completed today. Try again tomorrow!'', d)
          else
            let d1 = completeTask w ''daily_post'' 100 tweetUrl (Some today) now d;
                d2 = snd (addPoints w 100 ''daily_post'' now d1);
                d3 = (if truthy (referredBy profile)
                      then (case findReferral d2 w of
                              Some referral \<Rightarrow>
                                if \<not> referrerClaimed referral
                                then snd (claimReferralBonus w now d2) else d2
                            | None \<Rightarrow> d2)
                      else d2)
            in (Succeeded [100], d3))"

section \<open>Referral codes\<close>

datatype codeResult = Code string | NoCode | CodeThrew

definition getOrCreateReferralCode ::
  "string \<Rightarrow> string \<Rightarrow> nat \<Rightarrow> db \<Rightarrow> codeResult \<times> db" where
  "getOrCreateReferralCode w token now d =
     (case getWalletProfile d w of
        None \<Rightarrow> (NoCode, d)
      | Some profile \<Rightarrow>
          if \<not> xConnected profile \<or> \<not> discordConnected profile \<or> \<not> discordVerified profile
          then (NoCode, d)
          else (case referralCode profile of
                  Some c \<Rightarrow>
                    if c \<noteq> [] then (Code c, d)
                    else if codeTaken d w (toUpperCase token) then (CodeThrew, d)
                    else (Code (toUpperCase token),
                          updateProfiles w
                            (\<lambda>p. p\<lparr>referralCode := Some (toUpperCase token)\<rparr>) now d)
                | None \<Rightarrow>
                    if codeTaken d w (toUpperCase token) then (CodeThrew, d)
                    else (Code (toUpperCase token),
                          updateProfiles w
                            (\<lambda>p. p\<lparr>referralCode := Some (toUpperCase token)\<rparr>) now d)))"

definition findReferrer :: "db \<Rightarrow> string \<Rightarrow> walletProfile option" where
  "findReferrer d code =
     find (\<lambda>p. case referralCode p of
                  Some c \<Rightarrow> sql_eq (ci_collation d) c (toUpperCase code) | None \<Rightarrow> False)
          (walletProfiles d)"

text \<open>
  \<open>referred_wallet\<close> is a unique column of \<open>referrals\<close>: the insert is refused when the
  wallet already has a row.
\<close>

definition applyReferralCode :: "string \<Rightarrow> string \<Rightarrow> nat \<Rightarrow> db \<Rightarrow> result \<times> db" where
  "applyReferralCode w code now d =
     (case getWalletProfile d w of
        None \<Rightarrow> (Failed ''Profile not found'', d)
      | Some profile \<Rightarrow>
          if truthy (referredBy profile)
          then (Failed ''You have already used a referral code'', d)
          else (case findReferrer d code of
                  None \<Rightarrow> (Failed ''Invalid referral code'', d)
                | Some referrer \<Rightarrow>
                    if walletAddress referrer = w
                    then (Failed ''You cannot use your own referral code'', d)
                    else if \<not> xConnected referrer \<or> \<not> discordConnected referrer \<or>
                            \<not> discordVerified referrer
                    then (Failed ''This referral code is currently inactive'', d)
                    else if findReferral d w \<noteq> None then (Threw, d)
                    else
                      let d1 = d\<lparr>referrals := referrals d @
                                   [\<lparr>r_id = nextReferralId d,
                                     referrerWallet = walletAddress referrer,
                                     referredWallet = w,
                                     r_referralCode = toUpperCase code,
                                     referrerPoints = 0, referredPoints = 0,
                                     referrerClaimed = False, referredClaimed = False,
                                     r_createdAt = now, claimedAt = None\<rparr>],
                                 nextReferralId := Suc (nextReferralId d)\<rparr>;
                          d2 = updateProfiles w
                                 (\<lambda>p. p\<lparr>referredBy := Some (toUpperCase code)\<rparr>) now d1
                      in (Succeeded [], d2)))"

section \<open>Admin: adjustment and revocation\<close>

definition adjustUserPoints :: "string \<Rightarrow> int \<Rightarrow> nat \<Rightarrow> db \<Rightarrow> result \<times> db" where
  "adjustUserPoints w pointsChg now d =
     (case getWalletProfile d w of
        None \<Rightarrow> (Failed ''Profile not found'', d)
      | Some profile \<Rightarrow>
          (case addPoints w pointsChg ''admin_adjustment'' now d of
             (Some newTotal, d1) \<Rightarrow> (Succeeded [newTotal], d1)
           | (None, d1) \<Rightarrow> (Succeeded [0], d1)))"

definition revokeTweetPoints :: "nat \<Rightarrow> nat \<Rightarrow> db \<Rightarrow> result \<times> db" where
  "revokeTweetPoints completionId now d =
     (case find (\<lambda>t. t_id t = completionId) (taskCompletions d) of
        None \<Rightarrow> (Failed ''Task completion not found'', d)
      | Some task \<Rightarrow>
          if status task = Revoked then (Failed ''Already revoked'', d)
          else
            let d1 = d\<lparr>taskCompletions :=
                         map (\<lambda>t. if t_id t = completionId
                                   then t\<lparr>status := Revoked, revokedAt := Some now\<rparr> else t)
                             (taskCompletions d)\<rparr>;
                d2 = snd (addPoints (t_walletAddress task) (- pointsAwarded task)
                            ''tweet_revoked'' now d1)
            in (Succeeded [pointsAwarded task], d2))"

section \<open>Discord server verification and membership checks\<close>

text \<open>
  What \<open>fetch\<close> gives: a response with its HTTP status, or a rejected promise (network
  failure, timeout). \<open>configured\<close> says that both \<open>DISCORD_BOT_TOKEN\<close> and
  \<open>DISCORD_GUILD_ID\<close> are set.
\<close>

datatype response = Status nat | FetchError

definition response_ok :: "nat \<Rightarrow> bool" where
  "response_ok st = (200 \<le> st \<and> st \<le> 299)"

definition verifyDiscordServer ::
  "string \<Rightarrow> bool \<Rightarrow> response \<Rightarrow> string \<Rightarrow> nat \<Rightarrow> db \<Rightarrow> result \<times> db" where
  "verifyDiscordServer w configured resp token now d =
     (if \<not> configured then (Failed ''Discord verification not configured'', d)
      else case getWalletProfile d w of
        None \<Rightarrow> (Failed ''Profile not found'', d)
      | Some profile \<Rightarrow>
          if \<not> discordConnected profile
          then (Failed ''Discord account must be connected first'', d)
          else if discordVerified profile
          then (Failed ''Discord server already verified'', d)
          else if \<not> truthy (discordId profile)
          then (Failed ''Discord ID not found. Please reconnect your Discord account.'', d)
          else (case resp of
                  FetchError \<Rightarrow>
                    (Failed ''Failed to verify Discord membership. Please try again later.'', d)
                | Status st \<Rightarrow>
                    if st = 404
                    then (Failed ''You are not a member of the PerpX Discord server. Please join first and then try again.'', d)
                    else if \<not> response_ok st
                    then (Failed ''Failed to verify Discord membership. Please try again later.'', d)
                    else
                      let d1 = updateProfiles w
                                 (\<lambda>p. p\<lparr>discordVerified := True,
                                        discordVerifiedAt := Some now\<rparr>) now d;
                          d2 = snd (addPoints w 50 ''discord_verify'' now d1)
                      in (case maybeGenerateReferralCode w token now d2 of
                            None \<Rightarrow>
                              (Failed ''Failed to verify Discord membership. Please try again later.'', d2)
                          | Some d3 \<Rightarrow>
                              (Succeeded [50], maybeClaimReferralBonus w now d3))))"

text \<open>The pair returned is \<open>(stillMember, revoked)\<close>.\<close>

definition checkUserDiscordMembership ::
  "string \<Rightarrow> bool \<Rightarrow> response \<Rightarrow> nat \<Rightarrow> db \<Rightarrow> (bool \<times> bool) \<times> db" where
  "checkUserDiscordMembership w configured resp now d =
     (case getWalletProfile d w of
        None \<Rightarrow> ((True, False), d)
      | Some profile \<Rightarrow>
          if \<not> discordVerified profile \<or> \<not> truthy (discordId profile)
          then ((True, False), d)
          else if \<not> configured then ((True, False), d)
          else (case resp of
                  FetchError \<Rightarrow> ((True, False), d)
                | Status st \<Rightarrow>
                    if st = 404
                    then
                      let d1 = updateProfiles w
                                 (\<lambda>p. p\<lparr>discordVerified := False,
                                        discordVerifiedAt := None\<rparr>) now d;
                          verifyBonus = getOriginalBonusPoints d1 w ''discord_verify'' 50;
                          d2 = snd (addPoints w (- verifyBonus)
                                      ''discord_verify_revoked'' now d1)
                      in ((False, True), d2)
                    else if response_ok st then ((True, False), d)
                    else ((True, False), d)))"

text \<open>
  The batch sweep. \<open>fetch i\<close> is the outcome of the \<open>i\<close>-th request of the run; the
  counters are \<open>(checked, revoked, errors)\<close>. The pause every 40 checks has no effect on
  the store.
\<close>

fun membershipSweep ::
  "(nat \<Rightarrow> response) \<Rightarrow> nat \<Rightarrow> walletProfile list \<Rightarrow> nat \<Rightarrow> nat \<times> nat \<times> nat \<Rightarrow> db
     \<Rightarrow> (nat \<times> nat \<times> nat) \<times> db" where
  "membershipSweep fetch i [] now acc d = (acc, d)"
| "membershipSweep fetch i (user # users) now (checked, revoked, errors) d =
     (if \<not> truthy (discordId user)
      then membershipSweep fetch i users now (checked, revoked, errors) d
      else (case fetch i of
              FetchError \<Rightarrow>
                membershipSweep fetch (Suc i) users now (checked, revoked, Suc errors) d
            | Status st \<Rightarrow>
                if st = 404
                then
                  let d1 = updateProfiles (walletAddress user)
                             (\<lambda>p. p\<lparr>discordVerified := False,
                                    discordVerifiedAt := None\<rparr>) now d;
                      d2 = snd (addPoints (walletAddress user) (- 50)
                                  ''discord_verify_revoked'' now d1)
                  in membershipSweep fetch (Suc i) users now
                       (Suc checked, Suc revoked, errors) d2
                else if \<not> response_ok st
                then membershipSweep fetch (Suc i) users now
                       (Suc checked, revoked, Suc errors) d
                else membershipSweep fetch (Suc i) users now
                       (Suc checked, revoked, errors) d))"

definition checkDiscordServerMemberships ::
  "bool \<Rightarrow> (nat \<Rightarrow> response) \<Rightarrow> nat \<Rightarrow> db \<Rightarrow> (nat \<times> nat \<times> nat) \<times> db" where
  "checkDiscordServerMemberships configured fetch now d =
     (if \<not> configured then ((0, 0, 0), d)
      else membershipSweep fetch 0
             (filter (\<lambda>p. discordVerified p \<and> discordId p \<noteq> None) (walletProfiles d))
             now (0, 0, 0) d)"

section \<open>Tweet existence checks\<close>

definition checkTweetExists :: "response \<Rightarrow> bool" where
  "checkTweetExists resp =
     (case resp of
        FetchError \<Rightarrow> True
      | Status st \<Rightarrow>
          if response_ok st then True
          else if st = 404 \<or> st = 403 then False
          else True)"

definition startsWithHttp :: "string option \<Rightarrow> bool" where
  "startsWithHttp m = (case m of Some s \<Rightarrow> s \<noteq> [] \<and> take 4 s = ''http'' | None \<Rightarrow> False)"

definition getActiveTweetCompletions :: "string option \<Rightarrow> db \<Rightarrow> taskCompletion list" where
  "getActiveTweetCompletions wallet d =
     (let ci = ci_collation d;
          rows = filter (\<lambda>t. sql_eq ci (taskType t) ''daily_post'' \<and> status t = Active \<and>
                             metadata t \<noteq> None \<and>
                             (case wallet of
                                Some w \<Rightarrow> w = [] \<or> sql_eq ci (t_walletAddress t) w
                              | None \<Rightarrow> True))
                        (taskCompletions d);
          ordered = rev (sort_key completedAt rows)
      in filter (\<lambda>r. startsWithHttp (metadata r)) ordered)"

text \<open>
  The loop of \<open>checkAndRevokeDeletedTweets\<close> and of \<open>cronCheckAllTweets\<close>; the
  accumulator is \<open>(checked, revoked, revokedIds)\<close>, the pacing delays are left out.
\<close>

fun tweetSweep ::
  "(nat \<Rightarrow> response) \<Rightarrow> nat \<Rightarrow> taskCompletion list \<Rightarrow> nat \<Rightarrow> nat \<times> nat \<times> nat list \<Rightarrow> db
     \<Rightarrow> (nat \<times> nat \<times> nat list) \<times> db" where
  "tweetSweep fetch i [] now acc d = (acc, d)"
| "tweetSweep fetch i (completion # rest) now (checked, revoked, revokedIds) d =
     (if \<not> truthy (metadata completion)
      then tweetSweep fetch i rest now (checked, revoked, revokedIds) d
      else if \<not> checkTweetExists (fetch i)
      then (case revokeTweetPoints (t_id completion) now d of
              (Succeeded v, d1) \<Rightarrow>
                tweetSweep fetch (Suc i) rest now
                  (Suc checked, Suc revoked, revokedIds @ [t_id completion]) d1
            | (r, d1) \<Rightarrow>
                tweetSweep fetch (Suc i) rest now (Suc checked, revoked, revokedIds) d1)
      else tweetSweep fetch (Suc i) rest now (Suc checked, revoked, revokedIds) d)"

definition checkAndRevokeDeletedTweets ::
  "string \<Rightarrow> (nat \<Rightarrow> response) \<Rightarrow> nat \<Rightarrow> db \<Rightarrow> (nat \<times> nat \<times> nat list) \<times> db" where
  "checkAndRevokeDeletedTweets w fetch now d =
     tweetSweep fetch 0 (getActiveTweetCompletions (Some w) d) now (0, 0, []) d"

text \<open>The counters of the cron job are \<open>(totalChecked, totalRevoked, errors)\<close>.\<close>

definition cronCheckAllTweets ::
  "(nat \<Rightarrow> response) \<Rightarrow> nat \<Rightarrow> db \<Rightarrow> (nat \<times> nat \<times> nat) \<times> db" where
  "cronCheckAllTweets fetch now d =
     (case tweetSweep fetch 0 (getActiveTweetCompletions None d) now (0, 0, []) d of
        ((checked, revoked, ids), d1) \<Rightarrow> ((checked, revoked, 0), d1))"

text \<open>
  The completions of a sweep whose own lookup was answered 404 or 403, in the order of
  the sweep; \<open>i\<close> counts the requests as the loop does.
\<close>

fun confirmedDeleted :: "(nat \<Rightarrow> response) \<Rightarrow> nat \<Rightarrow> taskCompletion list \<Rightarrow> taskCompletion list" where
  "confirmedDeleted fetch i [] = []"
| "confirmedDeleted fetch i (completion # rest) =
     (if \<not> truthy (metadata completion) then confirmedDeleted fetch i rest
      else if fetch i = Status 404 \<or> fetch i = Status 403
      then completion # confirmedDeleted fetch (Suc i) rest
      else confirmedDeleted fetch (Suc i) rest)"

section \<open>The in-memory store (mockStore.ts)\<close>

text \<open>
  The router serves the rewards API from this store instead of the database when
  \<open>REWARDS_MOCK\<close> is \<open>1\<close>. \<open>profiles\<close> is a \<open>Map\<close> from the normalized address to the
  profile object, kept as the list of its entries in insertion order; the three arrays
  are lists. A \<open>MockReferral\<close> has neither \<open>referredClaimed\<close> nor \<open>claimedAt\<close>.
\<close>

record mockReferral =
  m_id :: nat
  m_referrerWallet :: string
  m_referredWallet :: string
  m_referrerClaimed :: bool
  m_referrerPoints :: int
  m_referredPoints :: int
  m_createdAt :: nat

record mockStore =
  profiles :: "(string \<times> walletProfile) list"
  m_pointsHistory :: "pointsHistoryRow list"
  m_taskCompletions :: "taskCompletion list"
  m_referrals :: "mockReferral list"
  pointsId :: nat
  taskId :: nat
  referralId :: nat

definition empty_mock :: mockStore where
  "empty_mock = \<lparr>profiles = [], m_pointsHistory = [], m_taskCompletions = [],
     m_referrals = [], pointsId = 1, taskId = 1, referralId = 1\<rparr>"

definition normalizeAddress :: "string \<Rightarrow> string" where
  "normalizeAddress address = toLowerCase address"

definition mock_getWalletProfile :: "mockStore \<Rightarrow> string \<Rightarrow> walletProfile option" where
  "mock_getWalletProfile s w = map_of (profiles s) (normalizeAddress w)"

text \<open>
  \<open>ensureProfile\<close> returns the profile object of the key, creating it first when the
  key is new. The callers then assign to fields of that object: \<open>modifyProfile\<close> is such
  an assignment to the object stored under the key.
\<close>

definition ensureProfile ::
  "string \<Rightarrow> string \<Rightarrow> nat \<Rightarrow> mockStore \<Rightarrow> walletProfile \<times> mockStore" where
  "ensureProfile w chain now s =
     (case map_of (profiles s) (normalizeAddress w) of
        Some existing \<Rightarrow> (existing, s)
      | None \<Rightarrow>
          (newProfile w chain now,
           s\<lparr>profiles := profiles s @ [(normalizeAddress w, newProfile w chain now)]\<rparr>))"

definition modifyProfile ::
  "string \<Rightarrow> (walletProfile \<Rightarrow> walletProfile) \<Rightarrow> mockStore \<Rightarrow> mockStore" where
  "modifyProfile key f s =
     s\<lparr>profiles := map (\<lambda>(k, p). if k = key then (k, f p) else (k, p)) (profiles s)\<rparr>"

definition mock_maybeGenerateReferralCode ::
  "string \<Rightarrow> string \<Rightarrow> nat \<Rightarrow> mockStore \<Rightarrow> mockStore" where
  "mock_maybeGenerateReferralCode key token now s =
     (case map_of (profiles s) key of
        None \<Rightarrow> s
      | Some profile \<Rightarrow>
          if truthy (referralCode profile) then s
          else if xConnected profile \<and> discordConnected profile \<and> discordVerified profile
          then modifyProfile key
                 (\<lambda>p. p\<lparr>referralCode := Some (toUpperCase token), updatedAt := now\<rparr>) s
          else s)"

text \<open>
  \<open>referrerPoints\<close> is 0 or 50 in every row, so the \<open>reduce\<close> below adds small integers.
\<close>

definition updateReferralStats :: "string \<Rightarrow> nat \<Rightarrow> mockStore \<Rightarrow> mockStore" where
  "updateReferralStats referrer now s =
     (let key = normalizeAddress referrer in
      case map_of (profiles s) key of
        None \<Rightarrow> s
      | Some profile \<Rightarrow>
          let walletReferrals =
                filter (\<lambda>r. normalizeAddress (m_referrerWallet r) = key) (m_referrals s)
          in modifyProfile key
               (\<lambda>p. p\<lparr>referralCount := int (length walletReferrals),
                      referralPointsEarned := sum_list (map m_referrerPoints walletReferrals),
                      updatedAt := now\<rparr>) s)"

text \<open>
  \<open>profile.totalPoints += points\<close> is an addition of doubles: nothing bounds the amount
  that \<open>adjustPoints\<close> passes on (\<open>pointsChange: z.number()\<close>) or the balance.
\<close>

definition mock_addPoints ::
  "string \<Rightarrow> int \<Rightarrow> string \<Rightarrow> nat \<Rightarrow> mockStore \<Rightarrow> int \<times> mockStore" where
  "mock_addPoints w points ttype now s =
     (case ensureProfile w ''evm'' now s of
        (profile, s1) \<Rightarrow>
          let newTotal = js_add (totalPoints profile) points;
              s2 = modifyProfile (normalizeAddress w)
                     (\<lambda>p. p\<lparr>totalPoints := newTotal, updatedAt := now\<rparr>) s1;
              s3 = s2\<lparr>m_pointsHistory := m_pointsHistory s2 @
                        [\<lparr>h_id = pointsId s2, h_walletAddress = walletAddress profile,
                          transactionType = ttype, pointsChange = points,
                          balanceAfter = newTotal, h_createdAt = now\<rparr>],
                      pointsId := Suc (pointsId s2)\<rparr>
          in (newTotal, s3))"

text \<open>An assignment to the first element of an array that satisfies \<open>P\<close> (\<open>find\<close>).\<close>

fun modifyFirst :: "('a \<Rightarrow> bool) \<Rightarrow> ('a \<Rightarrow> 'a) \<Rightarrow> 'a list \<Rightarrow> 'a list" where
  "modifyFirst P f [] = []"
| "modifyFirst P f (x # xs) = (if P x then f x # xs else x # modifyFirst P f xs)"

definition mock_findReferral :: "mockStore \<Rightarrow> string \<Rightarrow> mockReferral option" where
  "mock_findReferral s w =
     find (\<lambda>r. normalizeAddress (m_referredWallet r) = normalizeAddress w) (m_referrals s)"

definition markClaimed :: "string \<Rightarrow> mockStore \<Rightarrow> mockStore" where
  "markClaimed w s =
     s\<lparr>m_referrals :=
         modifyFirst (\<lambda>r. normalizeAddress (m_referredWallet r) = normalizeAddress w)
           (\<lambda>r. r\<lparr>m_referrerClaimed := True, m_referrerPoints := 50,
                  m_referredPoints := 50\<rparr>) (m_referrals s)\<rparr>"

definition mock_maybeClaimReferralBonus :: "string \<Rightarrow> nat \<Rightarrow> mockStore \<Rightarrow> mockStore" where
  "mock_maybeClaimReferralBonus w now s =
     (case ensureProfile w ''evm'' now s of
        (profile, s0) \<Rightarrow>
          if \<not> truthy (referredBy profile) then s0
          else (case mock_findReferral s0 w of
                  None \<Rightarrow> s0
                | Some referral \<Rightarrow>
                    if m_referrerClaimed referral then s0
                    else
                      let s1 = markClaimed w s0;
                          s2 = snd (mock_addPoints (m_referrerWallet referral) 50
                                      ''referral_bonus'' now s1);
                          s3 = snd (mock_addPoints w 50 ''referral_bonus'' now s2)
                      in updateReferralStats (m_referrerWallet referral) now s3))"

definition mock_getOrCreateWalletProfile ::
  "string \<Rightarrow> string \<Rightarrow> nat \<Rightarrow> mockStore \<Rightarrow> walletProfile \<times> mockStore" where
  "mock_getOrCreateWalletProfile w chain now s = ensureProfile w chain now s"

definition mock_claimConnectBonus :: "string \<Rightarrow> nat \<Rightarrow> mockStore \<Rightarrow> result \<times> mockStore" where
  "mock_claimConnectBonus w now s =
     (case ensureProfile w ''evm'' now s of
        (profile, s0) \<Rightarrow>
          if connectBonusClaimed profile then (Failed ''Connect bonus already claimed'', s0)
          else
            let s1 = modifyProfile (normalizeAddress w)
                       (\<lambda>p. p\<lparr>connectBonusClaimed := True, updatedAt := now\<rparr>) s0;
                s2 = snd (mock_addPoints w 300 ''connect_bonus'' now s1)
            in (Succeeded [300], mock_maybeClaimReferralBonus w now s2))"

text \<open>\<open>xUsername.replace(/^@/, "")\<close>: one leading \<open>@\<close> is dropped.\<close>

fun stripAt :: "string \<Rightarrow> string" where
  "stripAt [] = []"
| "stripAt (c # cs) = (if c = CHR ''@'' then cs else c # cs)"

definition mock_connectXAccount ::
  "string \<Rightarrow> string \<Rightarrow> string \<Rightarrow> nat \<Rightarrow> mockStore \<Rightarrow> result \<times> mockStore" where
  "mock_connectXAccount w xUser token now s =
     (case ensureProfile w ''evm'' now s of
        (profile, s0) \<Rightarrow>
          if xConnected profile then (Failed ''X account already connected'', s0)
          else
            let s1 = modifyProfile (normalizeAddress w)
                       (\<lambda>p. p\<lparr>xConnected := True, xUsername := Some (stripAt xUser),
                              xConnectedAt := Some now, updatedAt := now\<rparr>) s0;
                s2 = snd (mock_addPoints w 100 ''x_connect'' now s1);
                s3 = mock_maybeGenerateReferralCode (normalizeAddress w) token now s2
            in (Succeeded [100], mock_maybeClaimReferralBonus w now s3))"

definition mock_disconnectXAccount :: "string \<Rightarrow> nat \<Rightarrow> mockStore \<Rightarrow> result \<times> mockStore" where
  "mock_disconnectXAccount w now s =
     (case ensureProfile w ''evm'' now s of
        (profile, s0) \<Rightarrow>
          if \<not> xConnected profile then (Failed ''X account not connected'', s0)
          else
            let s1 = modifyProfile (normalizeAddress w)
                       (\<lambda>p. p\<lparr>xConnected := False, xUsername := None,
                              xConnectedAt := None, updatedAt := now\<rparr>) s0
            in (Succeeded [100], snd (mock_addPoints w (- 100) ''x_disconnect'' now s1)))"

definition mock_connectDiscordAccount ::
  "string \<Rightarrow> string \<Rightarrow> string \<Rightarrow> nat \<Rightarrow> mockStore \<Rightarrow> result \<times> mockStore" where
  "mock_connectDiscordAccount w dUser token now s =
     (case ensureProfile w ''evm'' now s of
        (profile, s0) \<Rightarrow>
          if discordConnected profile then (Failed ''Discord account already connected'', s0)
          else
            let s1 = modifyProfile (normalizeAddress w)
                       (\<lambda>p. p\<lparr>discordConnected := True, discordUsername := Some dUser,
                              discordConnectedAt := Some now, updatedAt := now\<rparr>) s0;
                s2 = snd (mock_addPoints w 50 ''discord_connect'' now s1);
                s3 = mock_maybeGenerateReferralCode (normalizeAddress w) token now s2
            in (Succeeded [50], mock_maybeClaimReferralBonus w now s3))"

definition mock_disconnectDiscordAccount ::
  "string \<Rightarrow> nat \<Rightarrow> mockStore \<Rightarrow> result \<times> mockStore" where
  "mock_disconnectDiscordAccount w now s =
     (case ensureProfile w ''evm'' now s of
        (profile, s0) \<Rightarrow>
          if \<not> discordConnected profile then (Failed ''Discord account not connected'', s0)
          else
            let s1 = modifyProfile (normalizeAddress w)
                       (\<lambda>p. p\<lparr>discordConnected := False, discordUsername := None,
                              discordId := None, discordConnectedAt := None,
                              discordVerified := False, discordVerifiedAt := None,
                              updatedAt := now\<rparr>) s0
            in (Succeeded [50],
                snd (mock_addPoints w (- 50) ''discord_disconnect'' now s1)))"

definition mock_verifyDiscordServer ::
  "string \<Rightarrow> string \<Rightarrow> nat \<Rightarrow> mockStore \<Rightarrow> result \<times> mockStore" where
  "mock_verifyDiscordServer w token now s =
     (case ensureProfile w ''evm'' now s of
        (profile, s0) \<Rightarrow>
          if \<not> discordConnected profile
          then (Failed ''Discord account must be connected first'', s0)
          else if discordVerified profile
          then (Failed ''Discord server already verified'', s0)
          else
            let s1 = modifyProfile (normalizeAddress w)
                       (\<lambda>p. p\<lparr>discordVerified := True, discordVerifiedAt := Some now,
                              updatedAt := now\<rparr>) s0;
                s2 = snd (mock_addPoints w 50 ''discord_verify'' now s1);
                s3 = mock_maybeGenerateReferralCode (normalizeAddress w) token now s2
            in (Succeeded [50], mock_maybeClaimReferralBonus w now s3))"

text \<open>
  \<open>JSON.stringify({ tweetUrl })\<close>, for a URL without characters that JSON escapes.
\<close>

definition jsonTweetUrl :: "string \<Rightarrow> string" where
  "jsonTweetUrl url =
     ''{'' @ [CHR 0x22] @ ''tweetUrl'' @ [CHR 0x22] @ '':'' @ [CHR 0x22] @ url @ [CHR 0x22] @ ''}''"

definition mock_completeDailyPost ::
  "string \<Rightarrow> string option \<Rightarrow> string \<Rightarrow> nat \<Rightarrow> mockStore \<Rightarrow> result \<times> mockStore" where
  "mock_completeDailyPost w tweetUrl today now s =
     (case ensureProfile w ''evm'' now s of
        (profile, s0) \<Rightarrow>
          if find (\<lambda>t. normalizeAddress (t_walletAddress t) = normalizeAddress w \<and>
                        taskType t = ''daily_post'' \<and> completionDate t = Some today \<and>
                        status t = Active) (m_taskCompletions s0) \<noteq> None
          then (Failed ''Daily post already completed'', s0)
          else
            let s1 = s0\<lparr>m_taskCompletions := m_taskCompletions s0 @
                          [\<lparr>t_id = taskId s0, t_walletAddress = walletAddress profile,
                            taskType = ''daily_post'', pointsAwarded = 100,
                            completionDate = Some today,
                            metadata = (case tweetUrl of
                                          Some url \<Rightarrow>
                                            if url \<noteq> [] then Some (jsonTweetUrl url) else None
                                        | None \<Rightarrow> None),
                            status = Active, completedAt = now, revokedAt = None\<rparr>],
                        taskId := Suc (taskId s0)\<rparr>;
                s2 = snd (mock_addPoints w 100 ''daily_post'' now s1)
            in (Succeeded [100], mock_maybeClaimReferralBonus w now s2))"

definition mock_revokeTweetPoints :: "nat \<Rightarrow> nat \<Rightarrow> mockStore \<Rightarrow> result \<times> mockStore" where
  "mock_revokeTweetPoints completionId now s =
     (case find (\<lambda>t. t_id t = completionId) (m_taskCompletions s) of
        None \<Rightarrow> (Failed ''Completion not found'', s)
      | Some completion \<Rightarrow>
          if status completion = Revoked then (Failed ''Already revoked'', s)
          else
            let s1 = s\<lparr>m_taskCompletions :=
                         modifyFirst (\<lambda>t. t_id t = completionId)
                           (\<lambda>t. t\<lparr>status := Revoked, revokedAt := Some now\<rparr>)
                           (m_taskCompletions s)\<rparr>
            in (Succeeded [],
                snd (mock_addPoints (t_walletAddress completion) (- pointsAwarded completion)
                       ''tweet_revoked'' now s1)))"

definition mock_findReferrer :: "mockStore \<Rightarrow> string \<Rightarrow> walletProfile option" where
  "mock_findReferrer s code =
     find (\<lambda>p. referralCode p = Some (toUpperCase code)) (map snd (profiles s))"

definition mock_applyReferralCode ::
  "string \<Rightarrow> string \<Rightarrow> nat \<Rightarrow> mockStore \<Rightarrow> result \<times> mockStore" where
  "mock_applyReferralCode w code now s =
     (case ensureProfile w ''evm'' now s of
        (profile, s0) \<Rightarrow>
          if truthy (referredBy profile) then (Failed ''Referral code already applied'', s0)
          else (case mock_findReferrer s0 code of
                  None \<Rightarrow> (Failed ''Referral code not found'', s0)
                | Some referrer \<Rightarrow>
                    if normalizeAddress (walletAddress referrer) = normalizeAddress w
                    then (Failed ''You cannot refer yourself'', s0)
                    else
                      let s1 = modifyProfile (normalizeAddress w)
                                 (\<lambda>p. p\<lparr>referredBy := Some (walletAddress referrer),
                                        updatedAt := now\<rparr>) s0;
                          s2 = s1\<lparr>m_referrals := m_referrals s1 @
                                    [\<lparr>m_id = referralId s1,
                                      m_referrerWallet = walletAddress referrer,
                                      m_referredWallet = walletAddress profile,
                                      m_referrerClaimed = False, m_referrerPoints = 0,
                                      m_referredPoints = 0, m_createdAt = now\<rparr>],
                                  referralId := Suc (referralId s1)\<rparr>
                      in (Succeeded [],
                          updateReferralStats (walletAddress referrer) now s2)))"

definition mock_claimReferralBonus :: "string \<Rightarrow> nat \<Rightarrow> mockStore \<Rightarrow> result \<times> mockStore" where
  "mock_claimReferralBonus referred now s =
     (case mock_findReferral s referred of
        None \<Rightarrow> (Failed ''Referral not found'', s)
      | Some referral \<Rightarrow>
          if m_referrerClaimed referral then (Failed ''Referral bonus already claimed'', s)
          else
            let s1 = markClaimed referred s;
                s2 = snd (mock_addPoints (m_referrerWallet referral) 50
                            ''referral_bonus'' now s1);
                s3 = snd (mock_addPoints referred 50 ''referral_bonus'' now s2)
            in (Succeeded [50, 50],
                updateReferralStats (m_referrerWallet referral) now s3))"

definition mock_adjustUserPoints ::
  "string \<Rightarrow> int \<Rightarrow> nat \<Rightarrow> mockStore \<Rightarrow> int \<times> mockStore" where
  "mock_adjustUserPoints w pointsChg now s =
     (let s1 = snd (mock_addPoints w pointsChg ''admin_adjustment'' now s)
      in (case mock_getWalletProfile s1 w of
            Some profile \<Rightarrow> (totalPoints profile, s1)
          | None \<Rightarrow> (0, s1)))"

section \<open>Sequences of operations on the relational store\<close>

text \<open>
  One constructor per exported mutation, with the arguments of the call and what the
  outside world contributes to it (the \<open>nanoid\<close> token, the HTTP responses, whether the
  Discord bot is configured, the UTC date).
\<close>

datatype op =
    GetOrCreateWalletProfile string string
  | ClaimConnectBonus string
  | ConnectXAccount string string string
  | DisconnectXAccount string
  | ConnectDiscordAccount string string "string option" string
  | DisconnectDiscordAccount string
  | VerifyDiscordServer string bool response string
  | CompleteDailyPost string "string option" string
  | GetOrCreateReferralCode string string
  | ApplyReferralCode string string
  | ClaimReferralBonus string
  | AdjustUserPoints string int
  | RevokeTweetPoints nat
  | CheckUserDiscordMembership string bool response
  | CheckDiscordServerMemberships bool "nat \<Rightarrow> response"
  | CheckAndRevokeDeletedTweets string "nat \<Rightarrow> response"
  | CronCheckAllTweets "nat \<Rightarrow> response"

fun step :: "nat \<Rightarrow> op \<Rightarrow> db \<Rightarrow> db" where
  "step now (GetOrCreateWalletProfile w chain) d = snd (getOrCreateWalletProfile w chain now d)"
| "step now (ClaimConnectBonus w) d = snd (claimConnectBonus w now d)"
| "step now (ConnectXAccount w xUser token) d = snd (connectXAccount w xUser token now d)"
| "step now (DisconnectXAccount w) d = snd (disconnectXAccount w now d)"
| "step now (ConnectDiscordAccount w dUser dId token) d =
     snd (connectDiscordAccount w dUser dId token now d)"
| "step now (DisconnectDiscordAccount w) d = snd (disconnectDiscordAccount w now d)"
| "step now (VerifyDiscordServer w configured resp token) d =
     snd (verifyDiscordServer w configured resp token now d)"
| "step now (CompleteDailyPost w tweetUrl today) d =
     snd (completeDailyPost w tweetUrl today now d)"
| "step now (GetOrCreateReferralCode w token) d = snd (getOrCreateReferralCode w token now d)"
| "step now (ApplyReferralCode w code) d = snd (applyReferralCode w code now d)"
| "step now (ClaimReferralBonus w) d = snd (claimReferralBonus w now d)"
| "step now (AdjustUserPoints w pointsChg) d = snd (adjustUserPoints w pointsChg now d)"
| "step now (RevokeTweetPoints completionId) d = snd (revokeTweetPoints completionId now d)"
| "step now (CheckUserDiscordMembership w configured resp) d =
     snd (checkUserDiscordMembership w configured resp now d)"
| "step now (CheckDiscordServerMemberships configured fetch) d =
     snd (checkDiscordServerMemberships configured fetch now d)"
| "step now (CheckAndRevokeDeletedTweets w fetch) d =
     snd (checkAndRevokeDeletedTweets w fetch now d)"
| "step now (CronCheckAllTweets fetch) d = snd (cronCheckAllTweets fetch now d)"

text \<open>A run: the operations in order, each with the time at which it executes.\<close>

fun run :: "(nat \<times> op) list \<Rightarrow> db \<Rightarrow> db" where
  "run [] d = d"
| "run ((now, a) # rest) d = run rest (step now a d)"

section \<open>Sequences of operations on the in-memory store\<close>

datatype mock_op =
    MockGetOrCreateWalletProfile string string
  | MockClaimConnectBonus string
  | MockConnectXAccount string string string
  | MockDisconnectXAccount string
  | MockConnectDiscordAccount string string string
  | MockDisconnectDiscordAccount string
  | MockVerifyDiscordServer string string
  | MockCompleteDailyPost string "string option" string
  | MockApplyReferralCode string string
  | MockClaimReferralBonus string
  | MockAdjustUserPoints string int
  | MockRevokeTweetPoints nat

fun mock_step :: "nat \<Rightarrow> mock_op \<Rightarrow> mockStore \<Rightarrow> mockStore" where
  "mock_step now (MockGetOrCreateWalletProfile w chain) s =
     snd (mock_getOrCreateWalletProfile w chain now s)"
| "mock_step now (MockClaimConnectBonus w) s = snd (mock_claimConnectBonus w now s)"
| "mock_step now (MockConnectXAccount w xUser token) s =
     snd (mock_connectXAccount w xUser token now s)"
| "mock_step now (MockDisconnectXAccount w) s = snd (mock_disconnectXAccount w now s)"
| "mock_step now (MockConnectDiscordAccount w dUser token) s =
     snd (mock_connectDiscordAccount w dUser token now s)"
| "mock_step now (MockDisconnectDiscordAccount w) s =
     snd (mock_disconnectDiscordAccount w now s)"
| "mock_step now (MockVerifyDiscordServer w token) s =
     snd (mock_verifyDiscordServer w token now s)"
| "mock_step now (MockCompleteDailyPost w tweetUrl today) s =
     snd (mock_completeDailyPost w tweetUrl today now s)"
| "mock_step now (MockApplyReferralCode w code) s = snd (mock_applyReferralCode w code now s)"
| "mock_step now (MockClaimReferralBonus w) s = snd (mock_claimReferralBonus w now s)"
| "mock_step now (MockAdjustUserPoints w pointsChg) s =
     snd (mock_adjustUserPoints w pointsChg now s)"
| "mock_step now (MockRevokeTweetPoints completionId) s =
     snd (mock_revokeTweetPoints completionId now s)"

fun mock_run :: "(nat \<times> mock_op) list \<Rightarrow> mockStore \<Rightarrow> mockStore" where
  "mock_run [] s = s"
| "mock_run ((now, a) # rest) s = mock_run rest (mock_step now a s)"

section \<open>The ledger identity\<close>

text \<open>
  \<open>sumHistory d w\<close> is the sum of \<open>pointsChange\<close> over the history rows of wallet \<open>w\<close>
  (\<open>SELECT SUM(points_change) ... WHERE wallet_address = w\<close>).
\<close>

definition sumHistory :: "db \<Rightarrow> string \<Rightarrow> int" where
  "sumHistory d w =
     sum_list (map pointsChange
       (filter (\<lambda>h. sql_eq (ci_collation d) (h_walletAddress h) w) (pointsHistory d)))"

definition mock_sumHistory :: "mockStore \<Rightarrow> string \<Rightarrow> int" where
  "mock_sumHistory s w =
     sum_list (map pointsChange
       (filter (\<lambda>h. normalizeAddress (h_walletAddress h) = normalizeAddress w) (m_pointsHistory s)))"

text \<open>
  The ledger identity of a store: the history of every wallet sums to the balance of its
  profile, and a wallet without a profile has an empty history.
\<close>

definition ledger_ok :: "db \<Rightarrow> bool" where
  "ledger_ok d = (\<forall>w. sumHistory d w =
      (case getWalletProfile d w of Some p \<Rightarrow> totalPoints p | None \<Rightarrow> 0))"

text \<open>
  On the in-memory store every profile is stored under the normalized form of its own
  address.
\<close>

definition keys_ok :: "mockStore \<Rightarrow> bool" where
  "keys_ok s = list_all (\<lambda>(k, p). k = normalizeAddress (walletAddress p)) (profiles s)"

text \<open>
  The range in which the stores compute exactly. The history is never rewritten and
  every balance that \<open>addPoints\<close> writes is the \<open>balanceAfter\<close> of a row, so these are
  statements about all the balances and amounts written in a run: on the relational
  store they are values of \<open>INT\<close> columns, on the in-memory store the balances of the
  wallet are safe integers.
\<close>

definition history_in_range :: "db \<Rightarrow> bool" where
  "history_in_range d =
     list_all (\<lambda>h. int_column (pointsChange h) \<and> int_column (balanceAfter h)) (pointsHistory d)"

definition balances_safe :: "mockStore \<Rightarrow> string \<Rightarrow> bool" where
  "balances_safe s w =
     list_all (\<lambda>h. isSafeInteger (balanceAfter h))
       (filter (\<lambda>h. normalizeAddress (h_walletAddress h) = normalizeAddress w) (m_pointsHistory s))"

text \<open>
  What every operation of the in-memory store preserves: the keys, and the ledger
  identity of every wallet whose balances have been safe integers.
\<close>

definition mock_ledger_ok :: "mockStore \<Rightarrow> bool" where
  "mock_ledger_ok s = (\<forall>w. balances_safe s w \<longrightarrow> mock_sumHistory s w =
      (case mock_getWalletProfile s w of Some p \<Rightarrow> totalPoints p | None \<Rightarrow> 0))"

definition mock_inv :: "mockStore \<Rightarrow> bool" where
  "mock_inv s = (keys_ok s \<and> mock_ledger_ok s)"

section \<open>Example runs\<close>

text \<open>
  Wallet \<open>0xAa\<close> connects X and Discord and verifies (a referral code is issued),
  wallet \<open>0xBb\<close> applies the code, connects X (the referral bonus is claimed on the way)
  and disconnects X again.
\<close>

definition scenario_ops :: "(nat \<times> op) list" where
  "scenario_ops =
     [(1, GetOrCreateWalletProfile ''0xAa'' ''evm''),
      (2, ConnectXAccount ''0xAa'' ''alice'' ''t1''),
      (3, ConnectDiscordAccount ''0xAa'' ''alice#1'' (Some ''42'') ''t2''),
      (4, VerifyDiscordServer ''0xAa'' True (Status 200) ''abcd1234''),
      (5, GetOrCreateWalletProfile ''0xBb'' ''evm''),
      (6, ApplyReferralCode ''0xBb'' ''abcd1234''),
      (7, ConnectXAccount ''0xBb'' ''bob'' ''t3''),
      (8, DisconnectXAccount ''0xBb'')]"

definition mock_scenario_ops :: "(nat \<times> mock_op) list" where
  "mock_scenario_ops =
     [(1, MockConnectXAccount ''0xAa'' ''@alice'' ''t1''),
      (2, MockConnectDiscordAccount ''0xAa'' ''alice#1'' ''t2''),
      (3, MockVerifyDiscordServer ''0xAa'' ''abcd1234''),
      (4, MockApplyReferralCode ''0xBb'' ''abcd1234''),
      (5, MockConnectXAccount ''0xBb'' ''bob'' ''t3''),
      (6, MockAdjustUserPoints ''0XBB'' (- 7))]"

text \<open>
  Three admin adjustments of one wallet on the in-memory store, as \<open>adjustPoints\<close>
  passes them on: \<open>2^53\<close>, 1 and \<open>-2^53\<close>.
\<close>

definition unsafe_ops :: "(nat \<times> mock_op) list" where
  "unsafe_ops =
     [(1, MockAdjustUserPoints ''0xAa'' 9007199254740992),
      (2, MockAdjustUserPoints ''0xAa'' 1),
      (3, MockAdjustUserPoints ''0xAa'' (- 9007199254740992))]"

text \<open>
  A store that already holds history: the wallet was granted 75 points for verifying its
  Discord membership (the bonus amounts are configuration and have changed over time;
  \<open>getOriginalBonusPoints\<close> exists to refund what was granted).
\<close>

definition legacy_db :: db where
  "legacy_db =
     \<lparr>ci_collation = True,
      walletProfiles =
        [(newProfile ''0xAa'' ''evm'' 1)
           \<lparr>totalPoints := 75, discordConnected := True, discordUsername := Some ''alice'',
            discordId := Some ''42'', discordConnectedAt := Some 1,
            discordVerified := True, discordVerifiedAt := Some 2\<rparr>],
      pointsHistory =
        [\<lparr>h_id = 1, h_walletAddress = ''0xAa'', transactionType = ''discord_verify'',
          pointsChange = 75, balanceAfter = 75, h_createdAt = 2\<rparr>],
      taskCompletions = [], referrals = [], nextHistoryId = 2, nextTaskId = 1,
      nextReferralId = 1\<rparr>"

text \<open>
  Wallet \<open>0xaa\<close> becomes eligible and is issued the referral code \<open>ABCD1234\<close>; in
  \<open>inactive_ops\<close> it then disconnects X. The same on the in-memory store, and a wallet
  that connects and verifies Discord there.
\<close>

definition eligible_ops :: "(nat \<times> op) list" where
  "eligible_ops =
     [(1, GetOrCreateWalletProfile ''0xaa'' ''evm''),
      (2, ConnectXAccount ''0xaa'' ''alice'' ''t1''),
      (3, ConnectDiscordAccount ''0xaa'' ''alice#1'' (Some ''42'') ''t2''),
      (4, VerifyDiscordServer ''0xaa'' True (Status 200) ''abcd1234'')]"

definition mock_discord_ops :: "(nat \<times> mock_op) list" where
  "mock_discord_ops =
     [(1, MockConnectDiscordAccount ''0xAa'' ''alice#1'' ''t1''),
      (2, MockVerifyDiscordServer ''0xAa'' ''t2'')]"

definition mock_inactive_ops :: "(nat \<times> mock_op) list" where
  "mock_inactive_ops =
     [(1, MockConnectXAccount ''0xAa'' ''alice'' ''t1''),
      (2, MockConnectDiscordAccount ''0xAa'' ''alice#1'' ''t2''),
      (3, MockVerifyDiscordServer ''0xAa'' ''abcd1234''),
      (4, MockDisconnectXAccount ''0xAa'')]"

definition inactive_ops :: "(nat \<times> op) list" where
  "inactive_ops =
     eligible_ops @
     [(5, DisconnectXAccount ''0xaa''),
      (6, GetOrCreateWalletProfile ''0xBb'' ''evm'')]"

text \<open>
  Every completion was awarded 100 points (and, on the relational store, belongs to a
  wallet with a profile): what \<open>completeDailyPost\<close> writes, in every reachable store.
\<close>

definition tasks_ok :: "db \<Rightarrow> bool" where
  "tasks_ok d =
     list_all (\<lambda>t. getWalletProfile d (t_walletAddress t) \<noteq> None \<and> pointsAwarded t = 100)
       (taskCompletions d)"




text \<open>
  A wallet with two daily posts, and a sweep in which the first lookup is answered 404
  and every later one 500.
\<close>

definition two_posts_ops :: "(nat \<times> op) list" where
  "two_posts_ops =
     [(1, GetOrCreateWalletProfile ''0xAa'' ''evm''),
      (2, ConnectXAccount ''0xAa'' ''alice'' ''t1''),
      (3, CompleteDailyPost ''0xAa'' (Some ''https://x.com/alice/status/1'') ''2026-01-01''),
      (4, CompleteDailyPost ''0xAa'' (Some ''https://x.com/alice/status/2'') ''2026-01-02'')]"

definition mixed_responses :: "nat \<Rightarrow> response" where
  "mixed_responses i = (if i = 0 then Status 404 else Status 500)"

text \<open>
  The spec's recomputation of a referrer's aggregates, in its words: derived from all
  referral rows of that referrer (the count of the rows, the sum of their
  \<open>referrerPoints\<close>), as \<open>updateReferralStats\<close> of the in-memory store does.
\<close>

definition recomputedReferralCount :: "db \<Rightarrow> string \<Rightarrow> int" where
  "recomputedReferralCount d referrer =
     int (length (filter (\<lambda>r. sql_eq (ci_collation d) (referrerWallet r) referrer) (referrals d)))"

definition recomputedReferralPoints :: "db \<Rightarrow> string \<Rightarrow> int" where
  "recomputedReferralPoints d referrer =
     sum_list (map referrerPoints
       (filter (\<lambda>r. sql_eq (ci_collation d) (referrerWallet r) referrer) (referrals d)))"

text \<open>
  Two wallets apply the code of \<open>0xaa\<close>; and a store whose aggregates have drifted from
  its referral rows.
\<close>

definition two_referred_ops :: "(nat \<times> op) list" where
  "two_referred_ops =
     eligible_ops @
     [(5, GetOrCreateWalletProfile ''0xbb'' ''evm''),
      (6, ApplyReferralCode ''0xbb'' ''ABCD1234''),
      (7, GetOrCreateWalletProfile ''0xcc'' ''evm''),
      (8, ApplyReferralCode ''0xcc'' ''ABCD1234'')]"

definition stale_db :: db where
  "stale_db =
     \<lparr>ci_collation = False,
      walletProfiles =
        [(newProfile ''0xaa'' ''evm'' 1)
           \<lparr>referralCode := Some ''ABCD1234'', referralCount := 7,
            referralPointsEarned := 350\<rparr>,
         (newProfile ''0xbb'' ''evm'' 2)\<lparr>referredBy := Some ''ABCD1234''\<rparr>],
      pointsHistory = [], taskCompletions = [],
      referrals =
        [\<lparr>r_id = 1, referrerWallet = ''0xaa'', referredWallet = ''0xbb'',
          r_referralCode = ''ABCD1234'', referrerPoints = 0, referredPoints = 0,
          referrerClaimed = False, referredClaimed = False, r_createdAt = 3,
          claimedAt = None\<rparr>],
      nextHistoryId = 1, nextTaskId = 1, nextReferralId = 2\<rparr>"

definition mock_referred_ops :: "(nat \<times> mock_op) list" where
  "mock_referred_ops =
     [(1, MockConnectXAccount ''0xAa'' ''alice'' ''t1''),
      (2, MockConnectDiscordAccount ''0xAa'' ''alice#1'' ''t2''),
      (3, MockVerifyDiscordServer ''0xAa'' ''abcd1234''),
      (4, MockApplyReferralCode ''0xBb'' ''abcd1234''),
      (5, MockApplyReferralCode ''0xCc'' ''abcd1234'')]"

text \<open>The balance of a wallet on the in-memory store: zero without a profile.\<close>

definition mock_balance :: "mockStore \<Rightarrow> string \<Rightarrow> int" where
  "mock_balance s w = (case mock_getWalletProfile s w of Some p \<Rightarrow> totalPoints p | None \<Rightarrow> 0)"

text \<open>
  The condition under which \<open>maybeClaimReferralBonus\<close> claims: the wallet was referred
  and its referral row is unclaimed.
\<close>

definition referralPending :: "db \<Rightarrow> string \<Rightarrow> bool" where
  "referralPending d w =
     (case getWalletProfile d w of
        None \<Rightarrow> False
      | Some p \<Rightarrow>
          truthy (referredBy p) \<and>
          (case findReferral d w of Some r \<Rightarrow> \<not> referrerClaimed r | None \<Rightarrow> False))"

text \<open>
  The store before wallet \<open>0xBb\<close> of \<open>scenario_ops\<close> connects X, and a store whose
  \<open>x_connect\<close> grant was 80 points.
\<close>

definition referred_ops :: "(nat \<times> op) list" where
  "referred_ops = take 6 scenario_ops"

definition legacy_x_db :: db where
  "legacy_x_db =
     \<lparr>ci_collation = False,
      walletProfiles =
        [(newProfile ''0xAa'' ''evm'' 1)
           \<lparr>totalPoints := 80, xConnected := True, xUsername := Some ''alice'',
            xConnectedAt := Some 2\<rparr>],
      pointsHistory =
        [\<lparr>h_id = 1, h_walletAddress = ''0xAa'', transactionType = ''x_connect'',
          pointsChange = 80, balanceAfter = 80, h_createdAt = 2\<rparr>],
      taskCompletions = [], referrals = [], nextHistoryId = 2, nextTaskId = 1,
      nextReferralId = 1\<rparr>"

text \<open>A store with one fresh profile.\<close>

definition fresh_ops :: "(nat \<times> op) list" where
  "fresh_ops = [(1, GetOrCreateWalletProfile ''0xAa'' ''evm'')]"

text \<open>A wallet that connects and verifies Discord on the relational store.\<close>

definition discord_ops :: "(nat \<times> op) list" where
  "discord_ops =
     [(1, GetOrCreateWalletProfile ''0xAa'' ''evm''),
      (2, ConnectDiscordAccount ''0xAa'' ''alice#1'' (Some ''42'') ''t1''),
      (3, VerifyDiscordServer ''0xAa'' True (Status 200) ''t2'')]"

section \<open>Facts about JavaScript numbers\<close>

lemma exponent_lower:
  "2 ^ 53 \<le> x \<Longrightarrow> 2 ^ 52 \<le> x div 2 ^ exponent x \<and> 0 < exponent x"
proof (induction x rule: exponent.induct)
  case (1 x)
  have e: "exponent x = Suc (exponent (x div 2))"
    using "1.prems" by (subst exponent.simps) simp
  show ?case
  proof (cases "x div 2 < 2 ^ 53")
    case True
    then have "exponent (x div 2) = 0" by (subst exponent.simps) simp
    then show ?thesis using e "1.prems" by simp
  next
    case False
    then have "2 ^ 52 \<le> (x div 2) div 2 ^ exponent (x div 2)"
      using "1.IH" "1.prems" by simp
    then show ?thesis using e by (simp add: zdiv_zmult2_eq)
  qed
qed

lemma roundTiesToEven_lower: "0 \<le> x \<Longrightarrow> (x div 2 ^ k) * 2 ^ k \<le> roundTiesToEven k x"
  by (simp add: roundTiesToEven_def Let_def)

lemma toDouble_small: "\<bar>x\<bar> < 2 ^ 53 \<Longrightarrow> toDouble x = x"
  by (simp add: toDouble_def)

text \<open>Rounding never takes a number of magnitude \<open>2^53\<close> or more below \<open>2^53\<close>.\<close>

lemma toDouble_big:
  assumes "2 ^ 53 \<le> \<bar>x\<bar>"
  shows "2 ^ 53 \<le> \<bar>toDouble x\<bar>"
proof -
  let ?k = "exponent \<bar>x\<bar>"
  from exponent_lower [OF assms] have q: "2 ^ 52 \<le> \<bar>x\<bar> div 2 ^ ?k" and k: "0 < ?k" by auto
  have "(2::int) ^ 53 = 2 ^ 52 * 2 ^ 1" by simp
  also have "\<dots> \<le> 2 ^ 52 * 2 ^ ?k"
    using k by (intro mult_left_mono power_increasing) auto
  also have "\<dots> \<le> (\<bar>x\<bar> div 2 ^ ?k) * 2 ^ ?k"
    using q by (intro mult_right_mono) auto
  also have "\<dots> \<le> roundTiesToEven ?k \<bar>x\<bar>"
    by (rule roundTiesToEven_lower) simp
  finally have r: "2 ^ 53 \<le> roundTiesToEven ?k \<bar>x\<bar>" .
  have "\<bar>toDouble x\<bar> = roundTiesToEven ?k \<bar>x\<bar>"
    using assms r by (simp add: toDouble_def abs_mult abs_sgn_eq)
  then show ?thesis using r by simp
qed

text \<open>An addition whose result is a safe integer is exact.\<close>

lemma js_add_safe: "isSafeInteger (js_add a b) \<Longrightarrow> js_add a b = a + b"
  using toDouble_big [of "a + b"] toDouble_small [of "a + b"]
  by (cases "\<bar>a + b\<bar> < 2 ^ 53") (auto simp: js_add_def isSafeInteger_def)

lemma js_add_exact: "\<bar>a + b\<bar> < 2 ^ 53 \<Longrightarrow> js_add a b = a + b"
  by (simp add: js_add_def toDouble_small)

section \<open>Basic facts about the relational store\<close>

lemma sql_eq_refl [simp]: "sql_eq ci a a"
  by (simp add: sql_eq_def)

lemma sql_eq_sym: "sql_eq ci a b = sql_eq ci b a"
  by (auto simp: sql_eq_def)

lemma sql_eq_trans: "sql_eq ci a b \<Longrightarrow> sql_eq ci b c \<Longrightarrow> sql_eq ci a c"
  by (auto simp: sql_eq_def split: if_splits)

lemma sql_eq_cong: "sql_eq ci a b \<Longrightarrow> sql_eq ci a c = sql_eq ci b c"
  by (auto simp: sql_eq_def split: if_splits)

lemma sql_eq_cong2: "sql_eq ci a b \<Longrightarrow> sql_eq ci c a = sql_eq ci c b"
  by (auto simp: sql_eq_def split: if_splits)

lemma find_map_upd:
  assumes "\<And>p. walletAddress (f p) = walletAddress p"
  shows "find (\<lambda>p. sql_eq ci (walletAddress p) w) (map (\<lambda>p. if Q p then f p else p) ps) =
         map_option (\<lambda>p. if Q p then f p else p) (find (\<lambda>p. sql_eq ci (walletAddress p) w) ps)"
  using assms by (induction ps) auto

lemma find_Some_P: "find P xs = Some x \<Longrightarrow> P x"
  by (induction xs) (auto split: if_splits)

lemma getWalletProfile_addr:
  "getWalletProfile d w = Some p \<Longrightarrow> sql_eq (ci_collation d) (walletAddress p) w"
  unfolding getWalletProfile_def by (drule find_Some_P) simp

lemma getWalletProfile_updateProfiles:
  assumes "\<And>p. walletAddress (f p) = walletAddress p"
  shows "getWalletProfile (updateProfiles w f now d) w' =
         (case getWalletProfile d w' of
            None \<Rightarrow> None
          | Some p \<Rightarrow> if sql_eq (ci_collation d) w' w then Some ((f p)\<lparr>updatedAt := now\<rparr>) else Some p)"
proof -
  have a: "\<And>p. walletAddress ((f p)\<lparr>updatedAt := now\<rparr>) = walletAddress p"
    using assms by simp
  show ?thesis
    unfolding getWalletProfile_def updateProfiles_def
    apply (simp add: find_map_upd [where f = "\<lambda>p. (f p)\<lparr>updatedAt := now\<rparr>", OF a])
    apply (auto split: option.splits dest!: find_Some_P)
    apply (metis sql_eq_cong)+
    done
qed

lemma getWalletProfile_cong:
  "sql_eq (ci_collation d) w w' \<Longrightarrow> getWalletProfile d w = getWalletProfile d w'"
  unfolding getWalletProfile_def
  by (rule arg_cong [where f = "\<lambda>P. find P (walletProfiles d)"]) (auto simp: fun_eq_iff sql_eq_cong2)

lemma sumHistory_updateProfiles [simp]: "sumHistory (updateProfiles w f now d) w' = sumHistory d w'"
  by (simp add: sumHistory_def updateProfiles_def)

lemma ci_updateProfiles [simp]: "ci_collation (updateProfiles w f now d) = ci_collation d"
  by (simp add: updateProfiles_def)

lemma ledger_updateProfiles:
  assumes "ledger_ok d" "\<And>p. walletAddress (f p) = walletAddress p" "\<And>p. totalPoints (f p) = totalPoints p"
  shows "ledger_ok (updateProfiles w f now d)"
  using assms unfolding ledger_ok_def
  by (auto simp: getWalletProfile_updateProfiles split: option.splits)

lemma gwp_history_upd [simp]:
  "getWalletProfile (d\<lparr>pointsHistory := x\<rparr>) w = getWalletProfile d w"
  "getWalletProfile (d\<lparr>nextHistoryId := y\<rparr>) w = getWalletProfile d w"
  "getWalletProfile (d\<lparr>taskCompletions := tc\<rparr>) w = getWalletProfile d w"
  "getWalletProfile (d\<lparr>nextTaskId := y\<rparr>) w = getWalletProfile d w"
  "getWalletProfile (d\<lparr>referrals := rf\<rparr>) w = getWalletProfile d w"
  "getWalletProfile (d\<lparr>nextReferralId := y\<rparr>) w = getWalletProfile d w"
  by (simp_all add: getWalletProfile_def)

lemma sumHistory_other_upd [simp]:
  "sumHistory (d\<lparr>nextHistoryId := y\<rparr>) w = sumHistory d w"
  "sumHistory (d\<lparr>taskCompletions := tc\<rparr>) w = sumHistory d w"
  "sumHistory (d\<lparr>nextTaskId := y\<rparr>) w = sumHistory d w"
  "sumHistory (d\<lparr>referrals := rf\<rparr>) w = sumHistory d w"
  "sumHistory (d\<lparr>nextReferralId := y\<rparr>) w = sumHistory d w"
  "sumHistory (d\<lparr>walletProfiles := ps\<rparr>) w = sumHistory d w"
  by (simp_all add: sumHistory_def)

lemma sumHistory_append:
  "sumHistory (d\<lparr>pointsHistory := pointsHistory d @ [h]\<rparr>) w =
     sumHistory d w + (if sql_eq (ci_collation d) (h_walletAddress h) w then pointsChange h else 0)"
  by (simp add: sumHistory_def)

lemma getWalletProfile_addPoints:
  "getWalletProfile (snd (addPoints w n t now d)) w' =
     (case getWalletProfile d w of
        None \<Rightarrow> getWalletProfile d w'
      | Some p \<Rightarrow>
         (case getWalletProfile d w' of
            None \<Rightarrow> None
          | Some q \<Rightarrow> if sql_eq (ci_collation d) w' w
                      then Some (q\<lparr>totalPoints := totalPoints p + n, updatedAt := now\<rparr>)
                      else Some q))"
  by (simp add: addPoints_def Let_def getWalletProfile_updateProfiles split: option.splits)

lemma sumHistory_addPoints:
  "sumHistory (snd (addPoints w n t now d)) w' =
     (case getWalletProfile d w of
        None \<Rightarrow> sumHistory d w'
      | Some p \<Rightarrow> sumHistory d w' + (if sql_eq (ci_collation d) w w' then n else 0))"
  by (simp add: addPoints_def Let_def sumHistory_append split: option.splits)

lemma ci_addPoints [simp]: "ci_collation (snd (addPoints w n t now d)) = ci_collation d"
  by (simp add: addPoints_def Let_def split: option.splits)

lemma ledger_addPoints:
  assumes "ledger_ok d"
  shows "ledger_ok (snd (addPoints w n t now d))"
  unfolding ledger_ok_def
proof
  fix w'
  have inv: "sumHistory d w' = (case getWalletProfile d w' of Some p \<Rightarrow> totalPoints p | None \<Rightarrow> 0)"
    using assms by (simp add: ledger_ok_def)
  show "sumHistory (snd (addPoints w n t now d)) w' =
      (case getWalletProfile (snd (addPoints w n t now d)) w' of Some p \<Rightarrow> totalPoints p | None \<Rightarrow> 0)"
  proof (cases "sql_eq (ci_collation d) w' w")
    case True
    then have "getWalletProfile d w' = getWalletProfile d w"
      by (rule getWalletProfile_cong)
    then show ?thesis using inv True
      by (simp add: getWalletProfile_addPoints sumHistory_addPoints sql_eq_sym [of _ w w'] split: option.splits)
  next
    case False
    then show ?thesis using inv
      by (simp add: getWalletProfile_addPoints sumHistory_addPoints sql_eq_sym [of _ w w'] split: option.splits)
  qed
qed

lemma ledger_other_upd [simp]:
  "ledger_ok (d\<lparr>nextHistoryId := y\<rparr>) = ledger_ok d"
  "ledger_ok (d\<lparr>taskCompletions := tc\<rparr>) = ledger_ok d"
  "ledger_ok (d\<lparr>nextTaskId := y\<rparr>) = ledger_ok d"
  "ledger_ok (d\<lparr>referrals := rf\<rparr>) = ledger_ok d"
  "ledger_ok (d\<lparr>nextReferralId := y\<rparr>) = ledger_ok d"
  by (simp_all add: ledger_ok_def)

lemma ledger_empty: "ledger_ok (empty_db ci)"
  by (simp add: ledger_ok_def empty_db_def sumHistory_def getWalletProfile_def)

lemma find_append_single:
  "find P (xs @ [x]) = (case find P xs of Some y \<Rightarrow> Some y | None \<Rightarrow> if P x then Some x else None)"
  by (induction xs) auto

lemma newProfile_simps [simp]:
  "walletAddress (newProfile w chain now) = w"
  "totalPoints (newProfile w chain now) = 0"
  by (simp_all add: newProfile_def)

lemma ledger_getOrCreate:
  assumes "ledger_ok d"
  shows "ledger_ok (snd (getOrCreateWalletProfile w chain now d))"
proof (cases "getWalletProfile d w")
  case (Some p)
  then show ?thesis using assms by (simp add: getOrCreateWalletProfile_def)
next
  case None
  have new: "\<And>w'. getWalletProfile (d\<lparr>walletProfiles := walletProfiles d @ [newProfile w chain now]\<rparr>) w' =
     (case getWalletProfile d w' of Some p \<Rightarrow> Some p
      | None \<Rightarrow> if sql_eq (ci_collation d) w w' then Some (newProfile w chain now) else None)"
    by (simp add: getWalletProfile_def find_append_single split: option.splits)
  show ?thesis using None assms
    by (auto simp: getOrCreateWalletProfile_def Let_def ledger_ok_def new
        split: option.splits)
qed

lemma ledger_completeTask [simp]: "ledger_ok (completeTask w tt a m c now d) = ledger_ok d"
  by (simp add: completeTask_def)

lemma ledger_claimConnectBonus:
  "ledger_ok d \<Longrightarrow> ledger_ok (snd (claimConnectBonus w now d))"
  unfolding claimConnectBonus_def
  by (auto simp: Let_def split: option.splits intro!: ledger_addPoints ledger_updateProfiles)

lemma ledger_claimReferralBonus:
  "ledger_ok d \<Longrightarrow> ledger_ok (snd (claimReferralBonus w now d))"
  unfolding claimReferralBonus_def
  by (auto simp: Let_def split: option.splits intro!: ledger_addPoints ledger_updateProfiles)

lemma ledger_maybeClaim:
  "ledger_ok d \<Longrightarrow> ledger_ok (maybeClaimReferralBonus w now d)"
  unfolding maybeClaimReferralBonus_def
  by (auto simp: Let_def split: option.splits intro!: ledger_claimReferralBonus)

lemma ledger_maybeGenerate:
  "ledger_ok d \<Longrightarrow> maybeGenerateReferralCode w token now d = Some d' \<Longrightarrow> ledger_ok d'"
  unfolding maybeGenerateReferralCode_def
  by (auto simp: Let_def split: option.splits if_splits intro!: ledger_updateProfiles)

lemma ledger_connectX:
  "ledger_ok d \<Longrightarrow> ledger_ok (snd (connectXAccount w u token now d))"
  unfolding connectXAccount_def
  by (auto simp: Let_def split: option.splits
      intro!: ledger_addPoints ledger_updateProfiles ledger_maybeClaim
      elim!: ledger_maybeGenerate [rotated])

lemma ledger_disconnectX:
  "ledger_ok d \<Longrightarrow> ledger_ok (snd (disconnectXAccount w now d))"
  unfolding disconnectXAccount_def
  by (auto simp: Let_def split: option.splits intro!: ledger_addPoints ledger_updateProfiles)

lemma ledger_connectDiscord:
  "ledger_ok d \<Longrightarrow> ledger_ok (snd (connectDiscordAccount w u i token now d))"
  unfolding connectDiscordAccount_def
  by (auto simp: Let_def split: option.splits
      intro!: ledger_addPoints ledger_updateProfiles ledger_maybeClaim
      elim!: ledger_maybeGenerate [rotated])

lemma ledger_disconnectDiscord:
  "ledger_ok d \<Longrightarrow> ledger_ok (snd (disconnectDiscordAccount w now d))"
  unfolding disconnectDiscordAccount_def
  by (auto simp: Let_def split: option.splits intro!: ledger_addPoints ledger_updateProfiles)

lemma ledger_verifyDiscord:
  "ledger_ok d \<Longrightarrow> ledger_ok (snd (verifyDiscordServer w c r token now d))"
  unfolding verifyDiscordServer_def
  by (auto simp: Let_def split: option.splits response.splits
      intro!: ledger_addPoints ledger_updateProfiles ledger_maybeClaim
      elim!: ledger_maybeGenerate [rotated])

lemma ledger_completeDailyPost:
  "ledger_ok d \<Longrightarrow> ledger_ok (snd (completeDailyPost w u today now d))"
  unfolding completeDailyPost_def
  by (auto simp: Let_def split: option.splits
      intro!: ledger_addPoints ledger_claimReferralBonus)

lemma ledger_getOrCreateReferralCode:
  "ledger_ok d \<Longrightarrow> ledger_ok (snd (getOrCreateReferralCode w token now d))"
  unfolding getOrCreateReferralCode_def
  by (auto simp: Let_def split: option.splits intro!: ledger_updateProfiles)

lemma ledger_applyReferralCode:
  "ledger_ok d \<Longrightarrow> ledger_ok (snd (applyReferralCode w code now d))"
  unfolding applyReferralCode_def
  by (auto simp: Let_def split: option.splits intro!: ledger_updateProfiles)

lemma ledger_adjustUserPoints:
  "ledger_ok d \<Longrightarrow> ledger_ok (snd (adjustUserPoints w n now d))"
  unfolding adjustUserPoints_def
  using ledger_addPoints [of d w n "''admin_adjustment''" now]
  by (auto simp: Let_def split: option.splits prod.splits)

lemma ledger_revokeTweetPoints:
  "ledger_ok d \<Longrightarrow> ledger_ok (snd (revokeTweetPoints i now d))"
  unfolding revokeTweetPoints_def
  by (auto simp: Let_def split: option.splits intro!: ledger_addPoints)

lemma ledger_checkUser:
  "ledger_ok d \<Longrightarrow> ledger_ok (snd (checkUserDiscordMembership w c r now d))"
  unfolding checkUserDiscordMembership_def
  by (auto simp: Let_def split: option.splits response.splits
      intro!: ledger_addPoints ledger_updateProfiles)

lemma ledger_membershipSweep:
  "ledger_ok d \<Longrightarrow> ledger_ok (snd (membershipSweep fetch i users now acc d))"
proof (induction users arbitrary: i acc d)
  case Nil
  then show ?case by simp
next
  case (Cons user users)
  obtain checked revoked errors where acc: "acc = (checked, revoked, errors)"
    by (cases acc) auto
  let ?d2 = "snd (addPoints (walletAddress user) (- 50) ''discord_verify_revoked'' now
                (updateProfiles (walletAddress user)
                   (\<lambda>p. p\<lparr>discordVerified := False, discordVerifiedAt := None\<rparr>) now d))"
  have d2: "ledger_ok ?d2"
    using Cons.prems by (intro ledger_addPoints ledger_updateProfiles) simp_all
  show ?case
    unfolding acc
    by (auto simp: Let_def Cons.IH Cons.prems d2 split: response.splits)
qed

lemma ledger_checkMemberships:
  "ledger_ok d \<Longrightarrow> ledger_ok (snd (checkDiscordServerMemberships c fetch now d))"
  unfolding checkDiscordServerMemberships_def
  by (simp add: ledger_membershipSweep)

lemma ledger_tweetSweep:
  "ledger_ok d \<Longrightarrow> ledger_ok (snd (tweetSweep fetch i cs now acc d))"
proof (induction fetch i cs now acc d rule: tweetSweep.induct)
  case (1 fetch i now acc d)
  then show ?case by simp
next
  case (2 fetch i completion rest now checked revoked revokedIds d)
  have r: "ledger_ok (snd (revokeTweetPoints (t_id completion) now d))"
    using "2.prems" by (rule ledger_revokeTweetPoints)
  show ?case
  proof (cases "\<not> truthy (metadata completion)")
    case True
    then show ?thesis using 2 by simp
  next
    case nt: False
    show ?thesis
    proof (cases "checkTweetExists (fetch i)")
      case True
      then show ?thesis using 2 nt by simp
    next
      case False
      obtain res d1 where rv: "revokeTweetPoints (t_id completion) now d = (res, d1)"
        by (cases "revokeTweetPoints (t_id completion) now d")
      then have "ledger_ok d1" using r by simp
      then show ?thesis using 2 nt False rv
        by (cases res) simp_all
    qed
  qed
qed

lemma ledger_checkAndRevoke:
  "ledger_ok d \<Longrightarrow> ledger_ok (snd (checkAndRevokeDeletedTweets w fetch now d))"
  unfolding checkAndRevokeDeletedTweets_def by (rule ledger_tweetSweep)

lemma ledger_cron:
  "ledger_ok d \<Longrightarrow> ledger_ok (snd (cronCheckAllTweets fetch now d))"
  unfolding cronCheckAllTweets_def
  using ledger_tweetSweep [of d fetch 0 "getActiveTweetCompletions None d" now "(0, 0, [])"]
  by (auto split: prod.splits)

lemma ledger_step: "ledger_ok d \<Longrightarrow> ledger_ok (step now a d)"
  by (cases a)
    (simp_all add: ledger_getOrCreate ledger_claimConnectBonus ledger_connectX
      ledger_disconnectX ledger_connectDiscord ledger_disconnectDiscord ledger_verifyDiscord
      ledger_completeDailyPost ledger_getOrCreateReferralCode ledger_applyReferralCode
      ledger_claimReferralBonus ledger_adjustUserPoints ledger_revokeTweetPoints
      ledger_checkUser ledger_checkMemberships ledger_checkAndRevoke ledger_cron)

lemma ledger_run: "ledger_ok d \<Longrightarrow> ledger_ok (run ops d)"
  by (induction ops d rule: run.induct) (simp_all add: ledger_step)

section \<open>Basic facts about the in-memory store\<close>

lemma map_of_modify:
  "map_of (map (\<lambda>(k, p). if k = key then (k, f p) else (k, p)) xs) k' =
     (if k' = key then map_option f (map_of xs k') else map_of xs k')"
  by (induction xs) auto

lemma mgwp_modifyProfile:
  "mock_getWalletProfile (modifyProfile key f s) w =
     (if normalizeAddress w = key then map_option f (mock_getWalletProfile s w)
      else mock_getWalletProfile s w)"
  by (simp add: mock_getWalletProfile_def modifyProfile_def map_of_modify)

lemma map_of_keys_ok:
  "list_all (\<lambda>(k, p). k = normalizeAddress (walletAddress p)) xs \<Longrightarrow> map_of xs k = Some p
     \<Longrightarrow> normalizeAddress (walletAddress p) = k"
  by (induction xs) (auto split: if_splits)

lemma mgwp_addr:
  "keys_ok s \<Longrightarrow> mock_getWalletProfile s w = Some p \<Longrightarrow> normalizeAddress (walletAddress p) = normalizeAddress w"
  unfolding keys_ok_def mock_getWalletProfile_def by (rule map_of_keys_ok)

lemma normalizeAddress_idem [simp]: "normalizeAddress (normalizeAddress w) = normalizeAddress w"
proof -
  have "toLowerCase_char (toLowerCase_char c) = toLowerCase_char c" for c
    by (auto simp: toLowerCase_char_def upper_letters_def lower_letters_def split: option.splits if_splits)
  then show ?thesis by (simp add: normalizeAddress_def toLowerCase_def)
qed

lemma keys_ok_modifyProfile:
  "keys_ok s \<Longrightarrow> (\<And>p. walletAddress (f p) = walletAddress p) \<Longrightarrow> keys_ok (modifyProfile key f s)"
  by (auto simp: keys_ok_def modifyProfile_def list_all_iff split: if_splits)

lemma keys_ok_ensure: "keys_ok s \<Longrightarrow> keys_ok (snd (ensureProfile w chain now s))"
  by (auto simp: keys_ok_def ensureProfile_def list_all_iff split: option.splits)

lemma map_of_snoc:
  "map_of (xs @ [(k, v)]) k' =
     (case map_of xs k' of Some p \<Rightarrow> Some p | None \<Rightarrow> if k' = k then Some v else None)"
  by (induction xs) auto

lemma mgwp_ensure:
  "mock_getWalletProfile (snd (ensureProfile w chain now s)) w' =
     (case mock_getWalletProfile s w' of
        Some p \<Rightarrow> Some p
      | None \<Rightarrow> if normalizeAddress w' = normalizeAddress w then Some (newProfile w chain now) else None)"
  by (auto simp: mock_getWalletProfile_def ensureProfile_def map_add_def split: option.splits)

lemma fst_ensure:
  "mock_getWalletProfile (snd (ensureProfile w chain now s)) w = Some (fst (ensureProfile w chain now s))"
  by (auto simp: mock_getWalletProfile_def ensureProfile_def map_add_def split: option.splits)

lemma msum_ensure [simp]: "mock_sumHistory (snd (ensureProfile w chain now s)) w' = mock_sumHistory s w'"
  by (simp add: mock_sumHistory_def ensureProfile_def split: option.splits)

lemma msum_modify [simp]: "mock_sumHistory (modifyProfile key f s) w' = mock_sumHistory s w'"
  by (simp add: mock_sumHistory_def modifyProfile_def)

lemma balances_safe_ensure [simp]:
  "balances_safe (snd (ensureProfile w chain now s)) w' = balances_safe s w'"
  by (simp add: balances_safe_def ensureProfile_def split: option.splits)

lemma balances_safe_modify [simp]:
  "balances_safe (modifyProfile key f s) w' = balances_safe s w'"
  by (simp add: balances_safe_def modifyProfile_def)

lemma balances_safe_other_upd [simp]:
  "balances_safe (s\<lparr>m_taskCompletions := tc\<rparr>) w' = balances_safe s w'"
  "balances_safe (s\<lparr>taskId := y\<rparr>) w' = balances_safe s w'"
  "balances_safe (s\<lparr>m_referrals := rf\<rparr>) w' = balances_safe s w'"
  "balances_safe (s\<lparr>referralId := y\<rparr>) w' = balances_safe s w'"
  "balances_safe (s\<lparr>pointsId := y\<rparr>) w' = balances_safe s w'"
  by (simp_all add: balances_safe_def)

lemma mock_inv_ensure: "mock_inv s \<Longrightarrow> mock_inv (snd (ensureProfile w chain now s))"
  unfolding mock_inv_def
  by (auto simp: keys_ok_ensure mock_ledger_ok_def mgwp_ensure split: option.splits)

lemma mock_inv_modify:
  assumes "mock_inv s" "\<And>p. walletAddress (f p) = walletAddress p" "\<And>p. totalPoints (f p) = totalPoints p"
  shows "mock_inv (modifyProfile key f s)"
  using assms unfolding mock_inv_def
  by (auto simp: keys_ok_modifyProfile mock_ledger_ok_def mgwp_modifyProfile split: option.splits)

lemma mock_inv_other_upd [simp]:
  "mock_inv (s\<lparr>m_taskCompletions := tc\<rparr>) = mock_inv s"
  "mock_inv (s\<lparr>taskId := y\<rparr>) = mock_inv s"
  "mock_inv (s\<lparr>m_referrals := rf\<rparr>) = mock_inv s"
  "mock_inv (s\<lparr>referralId := y\<rparr>) = mock_inv s"
  "mock_inv (s\<lparr>pointsId := y\<rparr>) = mock_inv s"
  by (simp_all add: mock_inv_def keys_ok_def mock_ledger_ok_def mock_sumHistory_def
      mock_getWalletProfile_def balances_safe_def)

lemma mock_inv_addPoints:
  assumes "mock_inv s"
  shows "mock_inv (snd (mock_addPoints w n t now s))"
proof -
  obtain profile s1 where e: "ensureProfile w ''evm'' now s = (profile, s1)"
    by (cases "ensureProfile w ''evm'' now s")
  have inv1: "mock_inv s1" using mock_inv_ensure [OF assms, of w "''evm''" now] e by simp
  have got: "mock_getWalletProfile s1 w = Some profile"
    using fst_ensure [of w "''evm''" now s] e by simp
  have addr: "normalizeAddress (walletAddress profile) = normalizeAddress w"
    using inv1 got by (auto simp: mock_inv_def dest: mgwp_addr)
  have same: "\<And>w'. normalizeAddress w' = normalizeAddress w \<Longrightarrow> mock_getWalletProfile s1 w' = Some profile"
    using got by (simp add: mock_getWalletProfile_def)
  have k1: "keys_ok s1" using inv1 by (simp add: mock_inv_def)
  have k2: "keys_ok (modifyProfile (normalizeAddress w)
              (\<lambda>p. p\<lparr>totalPoints := js_add (totalPoints profile) n, updatedAt := now\<rparr>) s1)"
    using k1 by (auto intro: keys_ok_modifyProfile)
  have k3: "keys_ok (snd (mock_addPoints w n t now s))"
    unfolding mock_addPoints_def e using k2
    by (simp add: Let_def keys_ok_def modifyProfile_def)
  have l3: "mock_sumHistory (snd (mock_addPoints w n t now s)) w' =
      (case mock_getWalletProfile (snd (mock_addPoints w n t now s)) w' of
         Some p \<Rightarrow> totalPoints p | None \<Rightarrow> 0)"
    if safe: "balances_safe (snd (mock_addPoints w n t now s)) w'" for w'
  proof (cases "normalizeAddress w' = normalizeAddress w")
    case True
    have safe1: "balances_safe s1 w'" and st: "isSafeInteger (js_add (totalPoints profile) n)"
      using safe True addr unfolding mock_addPoints_def e
      by (simp_all add: Let_def balances_safe_def modifyProfile_def)
    have exact: "js_add (totalPoints profile) n = totalPoints profile + n"
      using js_add_safe [OF st] .
    have l1: "mock_sumHistory s1 w' =
        (case mock_getWalletProfile s1 w' of Some p \<Rightarrow> totalPoints p | None \<Rightarrow> 0)"
      using inv1 safe1 by (simp add: mock_inv_def mock_ledger_ok_def)
    show ?thesis
      unfolding mock_addPoints_def e
      using l1 addr same [of w'] True
      by (auto simp: Let_def exact mock_sumHistory_def mock_getWalletProfile_def modifyProfile_def
          map_of_modify split: option.splits)
  next
    case False
    have safe1: "balances_safe s1 w'"
      using safe False addr unfolding mock_addPoints_def e
      by (simp add: Let_def balances_safe_def modifyProfile_def)
    have l1: "mock_sumHistory s1 w' =
        (case mock_getWalletProfile s1 w' of Some p \<Rightarrow> totalPoints p | None \<Rightarrow> 0)"
      using inv1 safe1 by (simp add: mock_inv_def mock_ledger_ok_def)
    show ?thesis
      unfolding mock_addPoints_def e
      using l1 addr False
      by (auto simp: Let_def mock_sumHistory_def mock_getWalletProfile_def modifyProfile_def
          map_of_modify split: option.splits)
  qed
  show ?thesis unfolding mock_inv_def mock_ledger_ok_def using k3 l3 by blast
qed

lemma mock_inv_ensureE:
  "ensureProfile w chain now s = (p, s0) \<Longrightarrow> mock_inv s \<Longrightarrow> mock_inv s0"
  using mock_inv_ensure [of s w chain now] by simp

lemma mock_inv_empty: "mock_inv empty_mock"
  by (simp add: mock_inv_def keys_ok_def mock_ledger_ok_def empty_mock_def mock_sumHistory_def
      mock_getWalletProfile_def)

lemma mock_inv_markClaimed [simp]: "mock_inv (markClaimed w s) = mock_inv s"
  by (simp add: markClaimed_def)

lemma mock_inv_maybeGenerate:
  "mock_inv s \<Longrightarrow> mock_inv (mock_maybeGenerateReferralCode key token now s)"
  unfolding mock_maybeGenerateReferralCode_def
  by (auto split: option.splits intro!: mock_inv_modify)

lemma mock_inv_updateReferralStats:
  "mock_inv s \<Longrightarrow> mock_inv (updateReferralStats r now s)"
  unfolding updateReferralStats_def
  by (auto simp: Let_def split: option.splits intro!: mock_inv_modify)

lemma mock_inv_maybeClaim:
  "mock_inv s \<Longrightarrow> mock_inv (mock_maybeClaimReferralBonus w now s)"
  unfolding mock_maybeClaimReferralBonus_def
  by (auto simp: Let_def split: option.splits prod.splits
      intro!: mock_inv_updateReferralStats mock_inv_addPoints elim: mock_inv_ensureE)

lemma mock_inv_claimConnectBonus:
  "mock_inv s \<Longrightarrow> mock_inv (snd (mock_claimConnectBonus w now s))"
  unfolding mock_claimConnectBonus_def
  by (auto simp: Let_def split: prod.splits
      intro!: mock_inv_maybeClaim mock_inv_addPoints mock_inv_modify elim: mock_inv_ensureE)

lemma mock_inv_connectX:
  "mock_inv s \<Longrightarrow> mock_inv (snd (mock_connectXAccount w u token now s))"
  unfolding mock_connectXAccount_def
  by (auto simp: Let_def split: prod.splits
      intro!: mock_inv_maybeClaim mock_inv_maybeGenerate mock_inv_addPoints mock_inv_modify
      elim: mock_inv_ensureE)

lemma mock_inv_disconnectX:
  "mock_inv s \<Longrightarrow> mock_inv (snd (mock_disconnectXAccount w now s))"
  unfolding mock_disconnectXAccount_def
  by (auto simp: Let_def split: prod.splits
      intro!: mock_inv_addPoints mock_inv_modify elim: mock_inv_ensureE)

lemma mock_inv_connectDiscord:
  "mock_inv s \<Longrightarrow> mock_inv (snd (mock_connectDiscordAccount w u token now s))"
  unfolding mock_connectDiscordAccount_def
  by (auto simp: Let_def split: prod.splits
      intro!: mock_inv_maybeClaim mock_inv_maybeGenerate mock_inv_addPoints mock_inv_modify
      elim: mock_inv_ensureE)

lemma mock_inv_disconnectDiscord:
  "mock_inv s \<Longrightarrow> mock_inv (snd (mock_disconnectDiscordAccount w now s))"
  unfolding mock_disconnectDiscordAccount_def
  by (auto simp: Let_def split: prod.splits
      intro!: mock_inv_addPoints mock_inv_modify elim: mock_inv_ensureE)

lemma mock_inv_verifyDiscord:
  "mock_inv s \<Longrightarrow> mock_inv (snd (mock_verifyDiscordServer w token now s))"
  unfolding mock_verifyDiscordServer_def
  by (auto simp: Let_def split: prod.splits
      intro!: mock_inv_maybeClaim mock_inv_maybeGenerate mock_inv_addPoints mock_inv_modify
      elim: mock_inv_ensureE)

lemma mock_inv_completeDailyPost:
  "mock_inv s \<Longrightarrow> mock_inv (snd (mock_completeDailyPost w u today now s))"
  unfolding mock_completeDailyPost_def
  by (auto simp: Let_def split: prod.splits
      intro!: mock_inv_maybeClaim mock_inv_addPoints elim: mock_inv_ensureE)

lemma mock_inv_revoke:
  "mock_inv s \<Longrightarrow> mock_inv (snd (mock_revokeTweetPoints i now s))"
  unfolding mock_revokeTweetPoints_def
  by (auto simp: Let_def split: option.splits intro!: mock_inv_addPoints)

lemma mock_inv_apply:
  "mock_inv s \<Longrightarrow> mock_inv (snd (mock_applyReferralCode w code now s))"
  unfolding mock_applyReferralCode_def
  by (auto simp: Let_def split: prod.splits option.splits
      intro!: mock_inv_updateReferralStats mock_inv_modify elim: mock_inv_ensureE)

lemma mock_inv_claim:
  "mock_inv s \<Longrightarrow> mock_inv (snd (mock_claimReferralBonus w now s))"
  unfolding mock_claimReferralBonus_def
  by (auto simp: Let_def split: option.splits
      intro!: mock_inv_updateReferralStats mock_inv_addPoints)

lemma mock_inv_adjust:
  "mock_inv s \<Longrightarrow> mock_inv (snd (mock_adjustUserPoints w n now s))"
  unfolding mock_adjustUserPoints_def
  by (auto simp: Let_def split: option.splits intro!: mock_inv_addPoints)

lemma mock_inv_step: "mock_inv s \<Longrightarrow> mock_inv (mock_step now a s)"
  by (cases a)
    (simp_all add: mock_getOrCreateWalletProfile_def mock_inv_ensure mock_inv_claimConnectBonus
      mock_inv_connectX mock_inv_disconnectX mock_inv_connectDiscord mock_inv_disconnectDiscord
      mock_inv_verifyDiscord mock_inv_completeDailyPost mock_inv_revoke mock_inv_apply
      mock_inv_claim mock_inv_adjust)

lemma mock_inv_run: "mock_inv s \<Longrightarrow> mock_inv (mock_run ops s)"
  by (induction ops s rule: mock_run.induct) (simp_all add: mock_inv_step)

section \<open>Facts about the verification adapters and sweeps\<close>

lemma checkTweetExists_false_iff:
  "(checkTweetExists resp = False) = (resp = Status 404 \<or> resp = Status 403)"
  by (auto simp: checkTweetExists_def response_ok_def split: response.splits)

lemma checkUser_not_404:
  "resp \<noteq> Status 404 \<Longrightarrow> checkUserDiscordMembership w c resp now d = ((True, False), d)"
  by (auto simp: checkUserDiscordMembership_def split: option.splits response.splits)

lemma membershipSweep_no_404:
  "(\<forall>j. fetch j \<noteq> Status 404) \<Longrightarrow>
     snd (membershipSweep fetch i users now acc d) = d \<and>
     fst (snd (fst (membershipSweep fetch i users now acc d))) = fst (snd acc)"
proof (induction users arbitrary: i acc)
  case Nil
  then show ?case by simp
next
  case (Cons user users)
  obtain c r e where acc: "acc = (c, r, e)" by (cases acc) auto
  show ?case using Cons.prems
    unfolding acc
    by (auto simp: Cons.IH [OF Cons.prems] split: response.splits)
qed

lemma tweetSweep_all_exist:
  "(\<forall>j. checkTweetExists (fetch j)) \<Longrightarrow>
     snd (tweetSweep fetch i cs now acc d) = d \<and>
     fst (snd (fst (tweetSweep fetch i cs now acc d))) = fst (snd acc)"
proof (induction cs arbitrary: i acc)
  case Nil
  then show ?case by simp
next
  case (Cons c cs)
  obtain a b e where acc: "acc = (a, b, e)" by (cases acc) auto
  show ?case using Cons.prems
    unfolding acc
    by (auto simp: Cons.IH [OF Cons.prems])
qed

lemma membershipSweep_step_not_404:
  "fetch i \<noteq> Status 404 \<Longrightarrow>
     \<exists>i' checked' errors'.
       membershipSweep fetch i (user # users) now (checked, revoked, errors) d =
       membershipSweep fetch i' users now (checked', revoked, errors') d"
  by (auto split: response.splits)

lemma tweetSweep_step_exists:
  "checkTweetExists (fetch i) \<Longrightarrow>
     \<exists>i' checked'.
       tweetSweep fetch i (c # cs) now (checked, revoked, ids) d =
       tweetSweep fetch i' cs now (checked', revoked, ids) d"
  by auto

text \<open>A sweep changes the store by revoking the completions confirmed deleted, and no other.\<close>

lemma tweetSweep_store:
  "snd (tweetSweep fetch i cs now acc d) =
     foldl (\<lambda>d c. snd (revokeTweetPoints (t_id c) now d)) d (confirmedDeleted fetch i cs)"
proof (induction cs arbitrary: i acc d)
  case Nil
  then show ?case by simp
next
  case (Cons c cs)
  obtain a b e where acc: "acc = (a, b, e)" by (cases acc) auto
  show ?case
    unfolding acc using checkTweetExists_false_iff [of "fetch i"]
    by (auto simp: Cons.IH split: prod.splits result.splits)
qed

lemma tweetSweep_revoked:
  "fst (snd (fst (tweetSweep fetch i cs now (checked, revoked, ids) d))) \<le>
     revoked + length (confirmedDeleted fetch i cs)"
proof (induction cs arbitrary: i checked revoked ids d)
  case Nil
  then show ?case by simp
next
  case (Cons c cs)
  show ?case
    using checkTweetExists_false_iff [of "fetch i"]
      Cons.IH [of i checked revoked ids d]
      Cons.IH [of "Suc i" "Suc checked" revoked ids]
      Cons.IH [of "Suc i" "Suc checked" "Suc revoked"]
    by (auto split: prod.splits result.splits intro: le_SucI)
qed

section \<open>Facts about addPoints\<close>

lemma mock_addPoints_new:
  assumes "mock_getWalletProfile s w = None"
  shows "mock_getWalletProfile (snd (mock_addPoints w n t now s)) w =
           Some ((newProfile w ''evm'' now)\<lparr>totalPoints := js_add 0 n\<rparr>)"
    and "m_pointsHistory (snd (mock_addPoints w n t now s)) =
           m_pointsHistory s @
           [\<lparr>h_id = pointsId s, h_walletAddress = w, transactionType = t, pointsChange = n,
             balanceAfter = js_add 0 n, h_createdAt = now\<rparr>]"
  using assms
  by (simp_all add: mock_addPoints_def ensureProfile_def mock_getWalletProfile_def Let_def
      modifyProfile_def map_of_modify map_add_def newProfile_def)

lemma addPoints_unknown:
  "getWalletProfile d w = None \<Longrightarrow> addPoints w n t now d = (None, d)"
  by (simp add: addPoints_def)

lemma addPoints_known:
  assumes "getWalletProfile d w = Some p"
  shows "fst (addPoints w n t now d) = Some (totalPoints p + n)"
    and "pointsHistory (snd (addPoints w n t now d)) =
           pointsHistory d @
           [\<lparr>h_id = nextHistoryId d, h_walletAddress = w, transactionType = t,
             pointsChange = n, balanceAfter = totalPoints p + n, h_createdAt = now\<rparr>]"
    and "getWalletProfile (snd (addPoints w n t now d)) w =
           Some (p\<lparr>totalPoints := totalPoints p + n, updatedAt := now\<rparr>)"
proof -
  show "fst (addPoints w n t now d) = Some (totalPoints p + n)"
    using assms by (simp add: addPoints_def Let_def)
  show "pointsHistory (snd (addPoints w n t now d)) =
           pointsHistory d @
           [\<lparr>h_id = nextHistoryId d, h_walletAddress = w, transactionType = t,
             pointsChange = n, balanceAfter = totalPoints p + n, h_createdAt = now\<rparr>]"
    using assms by (simp add: addPoints_def Let_def updateProfiles_def)
  show "getWalletProfile (snd (addPoints w n t now d)) w =
           Some (p\<lparr>totalPoints := totalPoints p + n, updatedAt := now\<rparr>)"
    using assms by (simp add: getWalletProfile_addPoints)
qed

section \<open>Task completions of reachable stores\<close>


lemma tasks_ok_other_upd [simp]:
  "tasks_ok (d\<lparr>nextHistoryId := y\<rparr>) = tasks_ok d"
  "tasks_ok (d\<lparr>pointsHistory := h\<rparr>) = tasks_ok d"
  "tasks_ok (d\<lparr>nextTaskId := y\<rparr>) = tasks_ok d"
  "tasks_ok (d\<lparr>referrals := rf\<rparr>) = tasks_ok d"
  "tasks_ok (d\<lparr>nextReferralId := y\<rparr>) = tasks_ok d"
  by (simp_all add: tasks_ok_def)

lemma taskCompletions_updateProfiles [simp]:
  "taskCompletions (updateProfiles w f now d) = taskCompletions d"
  by (simp add: updateProfiles_def)





























section \<open>Facts about revocation\<close>


lemma find_modifyFirst:
  "(\<And>x. Q x \<Longrightarrow> Q (f x)) \<Longrightarrow> find Q (modifyFirst Q f xs) = map_option f (find Q xs)"
  by (induction xs) auto


lemma mtasks_simps [simp]:
  "m_taskCompletions (snd (ensureProfile w chain now s)) = m_taskCompletions s"
  "m_taskCompletions (modifyProfile key f s) = m_taskCompletions s"
  "m_taskCompletions (markClaimed w s) = m_taskCompletions s"
  "m_taskCompletions (updateReferralStats r now s) = m_taskCompletions s"
  "m_taskCompletions (mock_maybeGenerateReferralCode key token now s) = m_taskCompletions s"
  by (simp_all add: ensureProfile_def modifyProfile_def markClaimed_def updateReferralStats_def
      mock_maybeGenerateReferralCode_def Let_def split: option.splits)

lemma mtasks_ensureE:
  "ensureProfile w chain now s = (p, s0) \<Longrightarrow> m_taskCompletions s0 = m_taskCompletions s"
  using mtasks_simps(1) [of w chain now s] by simp

lemma mtasks_addPoints [simp]:
  "m_taskCompletions (snd (mock_addPoints w n t now s)) = m_taskCompletions s"
  by (auto simp: mock_addPoints_def Let_def split: prod.splits dest: mtasks_ensureE)

lemma mtasks_maybeClaim [simp]:
  "m_taskCompletions (mock_maybeClaimReferralBonus w now s) = m_taskCompletions s"
  by (auto simp: mock_maybeClaimReferralBonus_def Let_def split: prod.splits option.splits
      dest: mtasks_ensureE)




lemma taskCompletions_addPoints [simp]:
  "taskCompletions (snd (addPoints w n t now d)) = taskCompletions d"
  by (simp add: addPoints_def Let_def split: option.splits)





section \<open>Facts about claiming the referral bonus\<close>

lemma find_map_preserve:
  "(\<And>x. P (g x) = P x) \<Longrightarrow> find P (map g xs) = map_option g (find P xs)"
  by (induction xs) auto

lemma referrals_simps [simp]:
  "referrals (updateProfiles w f now d) = referrals d"
  "referrals (snd (addPoints w n t now d)) = referrals d"
  by (simp_all add: updateProfiles_def addPoints_def Let_def split: option.splits)

lemma findReferral_simps [simp]:
  "findReferral (updateProfiles w f now d) w' = findReferral d w'"
  "findReferral (snd (addPoints w n t now d)) w' = findReferral d w'"
  by (simp_all add: findReferral_def)

lemma pointsHistory_updateProfiles [simp]:
  "pointsHistory (updateProfiles w f now d) = pointsHistory d"
  "nextHistoryId (updateProfiles w f now d) = nextHistoryId d"
  by (simp_all add: updateProfiles_def)

lemma nextHistoryId_addPoints:
  "getWalletProfile d w = Some p \<Longrightarrow> nextHistoryId (snd (addPoints w n t now d)) = Suc (nextHistoryId d)"
  by (simp add: addPoints_def Let_def)

lemma claimReferralBonus_effect:
  assumes r: "findReferral d w = Some r" and nc: "\<not> referrerClaimed r"
    and pr: "getWalletProfile d (referrerWallet r) = Some pr"
    and pw: "getWalletProfile d w = Some pw"
    and ne: "\<not> sql_eq (ci_collation d) (referrerWallet r) w"
  shows "fst (claimReferralBonus w now d) = Succeeded [50, 50]"
    and "getWalletProfile (snd (claimReferralBonus w now d)) (referrerWallet r) =
           Some (pr\<lparr>totalPoints := totalPoints pr + 50, referralCount := referralCount pr + 1,
                    referralPointsEarned := referralPointsEarned pr + 50, updatedAt := now\<rparr>)"
    and "getWalletProfile (snd (claimReferralBonus w now d)) w =
           Some (pw\<lparr>totalPoints := totalPoints pw + 50, updatedAt := now\<rparr>)"
    and "findReferral (snd (claimReferralBonus w now d)) w =
           Some (r\<lparr>referrerClaimed := True, referredClaimed := True, claimedAt := Some now,
                   referrerPoints := 50, referredPoints := 50\<rparr>)"
    and "pointsHistory (snd (claimReferralBonus w now d)) =
           pointsHistory d @
           [\<lparr>h_id = nextHistoryId d, h_walletAddress = referrerWallet r,
             transactionType = ''referral_bonus'', pointsChange = 50,
             balanceAfter = totalPoints pr + 50, h_createdAt = now\<rparr>,
            \<lparr>h_id = Suc (nextHistoryId d), h_walletAddress = w,
             transactionType = ''referral_bonus'', pointsChange = 50,
             balanceAfter = totalPoints pw + 50, h_createdAt = now\<rparr>]"
proof -
  let ?a = "referrerWallet r"
  let ?d1 = "snd (addPoints ?a 50 ''referral_bonus'' now d)"
  let ?d2 = "snd (addPoints w 50 ''referral_bonus'' now ?d1)"
  let ?pr2 = "pr\<lparr>totalPoints := totalPoints pr + 50, updatedAt := now\<rparr>"
  let ?d3 = "updateProfiles ?a (\<lambda>p. p\<lparr>referralCount := referralCount ?pr2 + 1,
                 referralPointsEarned := referralPointsEarned ?pr2 + 50\<rparr>) now ?d2"
  let ?mark = "\<lambda>x. if r_id x = r_id r
                    then x\<lparr>referrerClaimed := True, referredClaimed := True,
                           claimedAt := Some now, referrerPoints := 50, referredPoints := 50\<rparr>
                    else x"
  have ne': "\<not> sql_eq (ci_collation d) w ?a" using ne by (simp add: sql_eq_sym)
  have pr1: "getWalletProfile ?d1 ?a = Some ?pr2"
    using pr by (simp add: getWalletProfile_addPoints)
  have pw1: "getWalletProfile ?d1 w = Some pw"
    using pr pw ne' by (simp add: getWalletProfile_addPoints)
  have pr2: "getWalletProfile ?d2 ?a = Some ?pr2"
    using pr1 pw1 ne by (simp add: getWalletProfile_addPoints)
  have pw2: "getWalletProfile ?d2 w = Some (pw\<lparr>totalPoints := totalPoints pw + 50, updatedAt := now\<rparr>)"
    using pw1 by (simp add: getWalletProfile_addPoints)
  have res: "claimReferralBonus w now d =
      (Succeeded [50, 50], ?d3\<lparr>referrals := map ?mark (referrals ?d3)\<rparr>)"
    using r nc pr2 by (simp add: claimReferralBonus_def Let_def)
  show "fst (claimReferralBonus w now d) = Succeeded [50, 50]"
    using res by simp
  show "getWalletProfile (snd (claimReferralBonus w now d)) ?a =
           Some (pr\<lparr>totalPoints := totalPoints pr + 50, referralCount := referralCount pr + 1,
                    referralPointsEarned := referralPointsEarned pr + 50, updatedAt := now\<rparr>)"
    using res pr2 by (simp add: getWalletProfile_updateProfiles)
  show "getWalletProfile (snd (claimReferralBonus w now d)) w =
           Some (pw\<lparr>totalPoints := totalPoints pw + 50, updatedAt := now\<rparr>)"
    using res pw2 ne' by (simp add: getWalletProfile_updateProfiles)
  show "findReferral (snd (claimReferralBonus w now d)) w =
           Some (r\<lparr>referrerClaimed := True, referredClaimed := True, claimedAt := Some now,
                   referrerPoints := 50, referredPoints := 50\<rparr>)"
  proof -
    have "find (\<lambda>x. sql_eq (ci_collation d) (referredWallet x) w) (map ?mark (referrals d)) =
          map_option ?mark (find (\<lambda>x. sql_eq (ci_collation d) (referredWallet x) w) (referrals d))"
      by (rule find_map_preserve) simp
    then show ?thesis
      using res r by (simp add: findReferral_def)
  qed
  show "pointsHistory (snd (claimReferralBonus w now d)) =
           pointsHistory d @
           [\<lparr>h_id = nextHistoryId d, h_walletAddress = referrerWallet r,
             transactionType = ''referral_bonus'', pointsChange = 50,
             balanceAfter = totalPoints pr + 50, h_createdAt = now\<rparr>,
            \<lparr>h_id = Suc (nextHistoryId d), h_walletAddress = w,
             transactionType = ''referral_bonus'', pointsChange = 50,
             balanceAfter = totalPoints pw + 50, h_createdAt = now\<rparr>]"
    using res addPoints_known(2) [OF pr, of 50 "''referral_bonus''" now]
      addPoints_known(2) [OF pw1, of 50 "''referral_bonus''" now]
      nextHistoryId_addPoints [OF pr, of 50 "''referral_bonus''" now]
    by simp
qed

lemma mreferrals_simps [simp]:
  "m_referrals (snd (ensureProfile w chain now s)) = m_referrals s"
  "m_referrals (modifyProfile key f s) = m_referrals s"
  "m_referrals (updateReferralStats r now s) = m_referrals s"
  by (simp_all add: ensureProfile_def modifyProfile_def updateReferralStats_def Let_def
      split: option.splits)

lemma mreferrals_addPoints [simp]:
  "m_referrals (snd (mock_addPoints w n t now s)) = m_referrals s"
proof -
  obtain profile s1 where e: "ensureProfile w ''evm'' now s = (profile, s1)"
    by (cases "ensureProfile w ''evm'' now s")
  have "m_referrals s1 = m_referrals s"
    using mreferrals_simps(1) [of w "''evm''" now s] e by simp
  then show ?thesis by (simp add: mock_addPoints_def e Let_def)
qed

lemma mgwp_other_upd [simp]:
  "mock_getWalletProfile (s\<lparr>m_pointsHistory := h\<rparr>) w = mock_getWalletProfile s w"
  "mock_getWalletProfile (s\<lparr>pointsId := y\<rparr>) w = mock_getWalletProfile s w"
  "mock_getWalletProfile (s\<lparr>m_referrals := rf\<rparr>) w = mock_getWalletProfile s w"
  "mock_getWalletProfile (s\<lparr>m_taskCompletions := tc\<rparr>) w = mock_getWalletProfile s w"
  by (simp_all add: mock_getWalletProfile_def)

lemma mgwp_addPoints:
  "mock_getWalletProfile (snd (mock_addPoints w n t now s)) w' =
     (if normalizeAddress w' = normalizeAddress w
      then Some ((case mock_getWalletProfile s w of
                    Some p \<Rightarrow> p | None \<Rightarrow> newProfile w ''evm'' now)
                 \<lparr>totalPoints := js_add (mock_balance s w) n, updatedAt := now\<rparr>)
      else mock_getWalletProfile s w')"
proof -
  obtain profile s1 where e: "ensureProfile w ''evm'' now s = (profile, s1)"
    by (cases "ensureProfile w ''evm'' now s")
  have p: "profile = (case mock_getWalletProfile s w of
                    Some p \<Rightarrow> p | None \<Rightarrow> newProfile w ''evm'' now)"
    using e by (auto simp: ensureProfile_def mock_getWalletProfile_def split: option.splits)
  have g1: "mock_getWalletProfile s1 w' =
     (case mock_getWalletProfile s w' of
        Some p \<Rightarrow> Some p
      | None \<Rightarrow> if normalizeAddress w' = normalizeAddress w then Some (newProfile w ''evm'' now) else None)"
    using mgwp_ensure [of w "''evm''" now s w'] e by simp
  have same: "normalizeAddress w' = normalizeAddress w \<Longrightarrow>
      mock_getWalletProfile s w' = mock_getWalletProfile s w"
    by (simp add: mock_getWalletProfile_def)
  show ?thesis
    unfolding mock_addPoints_def e
    using same
    by (auto simp: Let_def mgwp_modifyProfile g1 p mock_balance_def split: option.splits)
qed

lemma mgwp_updateReferralStats:
  "mock_getWalletProfile (updateReferralStats r now s) w' =
     (if normalizeAddress w' = normalizeAddress r
      then map_option
             (\<lambda>p. p\<lparr>referralCount :=
                      int (length (filter (\<lambda>x. normalizeAddress (m_referrerWallet x) = normalizeAddress r)
                                     (m_referrals s))),
                    referralPointsEarned :=
                      sum_list (map m_referrerPoints
                        (filter (\<lambda>x. normalizeAddress (m_referrerWallet x) = normalizeAddress r)
                           (m_referrals s))),
                    updatedAt := now\<rparr>)
             (mock_getWalletProfile s w')
      else mock_getWalletProfile s w')"
proof (cases "map_of (profiles s) (normalizeAddress r)")
  case None
  then have "normalizeAddress w' = normalizeAddress r \<Longrightarrow> mock_getWalletProfile s w' = None"
    by (simp add: mock_getWalletProfile_def)
  then show ?thesis using None by (auto simp: updateReferralStats_def Let_def)
next
  case (Some p)
  then show ?thesis by (simp add: updateReferralStats_def Let_def mgwp_modifyProfile)
qed

lemma mock_findReferral_simps [simp]:
  "mock_findReferral (snd (mock_addPoints w n t now s)) w' = mock_findReferral s w'"
  "mock_findReferral (updateReferralStats r now s) w' = mock_findReferral s w'"
  by (simp_all add: mock_findReferral_def)

lemma mock_findReferral_markClaimed:
  "mock_findReferral (markClaimed w s) w =
     map_option (\<lambda>r. r\<lparr>m_referrerClaimed := True, m_referrerPoints := 50, m_referredPoints := 50\<rparr>)
       (mock_findReferral s w)"
  unfolding mock_findReferral_def markClaimed_def
  by (simp add: find_modifyFirst)

lemma mgwp_markClaimed [simp]:
  "mock_getWalletProfile (markClaimed w s) w' = mock_getWalletProfile s w'"
  by (simp add: markClaimed_def)

lemma mock_balance_markClaimed [simp]: "mock_balance (markClaimed w s) w' = mock_balance s w'"
  by (simp add: mock_balance_def)

lemma mock_claimReferralBonus_effect:
  assumes r: "mock_findReferral s w = Some r" and nc: "\<not> m_referrerClaimed r"
    and ne: "normalizeAddress (m_referrerWallet r) \<noteq> normalizeAddress w"
  shows "fst (mock_claimReferralBonus w now s) = Succeeded [50, 50]"
    and "mock_findReferral (snd (mock_claimReferralBonus w now s)) w =
           Some (r\<lparr>m_referrerClaimed := True, m_referrerPoints := 50, m_referredPoints := 50\<rparr>)"
    and "\<exists>p. mock_getWalletProfile (snd (mock_claimReferralBonus w now s)) (m_referrerWallet r) = Some p \<and>
           totalPoints p = js_add (mock_balance s (m_referrerWallet r)) 50 \<and>
           referralCount p =
             int (length (filter (\<lambda>x. normalizeAddress (m_referrerWallet x) =
                                       normalizeAddress (m_referrerWallet r))
                    (m_referrals (snd (mock_claimReferralBonus w now s))))) \<and>
           referralPointsEarned p =
             sum_list (map m_referrerPoints
               (filter (\<lambda>x. normalizeAddress (m_referrerWallet x) =
                             normalizeAddress (m_referrerWallet r))
                  (m_referrals (snd (mock_claimReferralBonus w now s)))))"
    and "\<exists>q. mock_getWalletProfile (snd (mock_claimReferralBonus w now s)) w = Some q \<and>
           totalPoints q = js_add (mock_balance s w) 50"
proof -
  let ?a = "m_referrerWallet r"
  let ?s1 = "markClaimed w s"
  let ?s2 = "snd (mock_addPoints ?a 50 ''referral_bonus'' now ?s1)"
  let ?s3 = "snd (mock_addPoints w 50 ''referral_bonus'' now ?s2)"
  have res: "mock_claimReferralBonus w now s =
      (Succeeded [50, 50], updateReferralStats ?a now ?s3)"
    using r nc by (simp add: mock_claimReferralBonus_def Let_def)
  have ne': "normalizeAddress w \<noteq> normalizeAddress ?a" using ne by simp
  have b2: "mock_balance ?s2 w = mock_balance s w"
    using ne' by (simp add: mock_balance_def mgwp_addPoints)
  show "fst (mock_claimReferralBonus w now s) = Succeeded [50, 50]"
    using res by simp
  show "mock_findReferral (snd (mock_claimReferralBonus w now s)) w =
           Some (r\<lparr>m_referrerClaimed := True, m_referrerPoints := 50, m_referredPoints := 50\<rparr>)"
    using res r by (simp add: mock_findReferral_markClaimed)
  show "\<exists>p. mock_getWalletProfile (snd (mock_claimReferralBonus w now s)) ?a = Some p \<and>
           totalPoints p = js_add (mock_balance s ?a) 50 \<and>
           referralCount p =
             int (length (filter (\<lambda>x. normalizeAddress (m_referrerWallet x) = normalizeAddress ?a)
                    (m_referrals (snd (mock_claimReferralBonus w now s))))) \<and>
           referralPointsEarned p =
             sum_list (map m_referrerPoints
               (filter (\<lambda>x. normalizeAddress (m_referrerWallet x) = normalizeAddress ?a)
                  (m_referrals (snd (mock_claimReferralBonus w now s)))))"
    using res ne by (simp add: mgwp_updateReferralStats mgwp_addPoints)
  show "\<exists>q. mock_getWalletProfile (snd (mock_claimReferralBonus w now s)) w = Some q \<and>
           totalPoints q = js_add (mock_balance s w) 50"
    using res ne' b2 by (simp add: mgwp_updateReferralStats mgwp_addPoints)
qed

section \<open>Facts about connecting and disconnecting X\<close>

lemma latest_snoc:
  "list_all (\<lambda>h. h_createdAt h \<le> h_createdAt r) xs \<Longrightarrow> latest (xs @ [r]) = Some r"
  by (induction xs) (auto split: option.splits)

lemma tag_neq [simp]: "\<not> sql_eq ci ''referral_bonus'' ''x_connect''"
  by (cases ci)
    (simp_all add: sql_eq_def toLowerCase_def toLowerCase_char_def upper_letters_def
      lower_letters_def)

lemma hist_addPoints:
  "\<exists>rows. pointsHistory (snd (addPoints w n t now d)) = pointsHistory d @ rows \<and>
          list_all (\<lambda>h. transactionType h = t) rows"
  by (cases "getWalletProfile d w") (simp_all add: addPoints_def Let_def)

lemma hist_claimReferralBonus:
  "\<exists>rows. pointsHistory (snd (claimReferralBonus w now d)) = pointsHistory d @ rows \<and>
          list_all (\<lambda>h. transactionType h = ''referral_bonus'') rows"
proof (cases "findReferral d w")
  case None
  then show ?thesis by (simp add: claimReferralBonus_def)
next
  case (Some r)
  let ?d1 = "snd (addPoints (referrerWallet r) 50 ''referral_bonus'' now d)"
  let ?d2 = "snd (addPoints w 50 ''referral_bonus'' now ?d1)"
  obtain rows1 where r1: "pointsHistory ?d1 = pointsHistory d @ rows1"
      "list_all (\<lambda>h. transactionType h = ''referral_bonus'') rows1"
    using hist_addPoints [of "referrerWallet r" 50 "''referral_bonus''" now d] by blast
  obtain rows2 where r2: "pointsHistory ?d2 = pointsHistory ?d1 @ rows2"
      "list_all (\<lambda>h. transactionType h = ''referral_bonus'') rows2"
    using hist_addPoints [of w 50 "''referral_bonus''" now ?d1] by blast
  have "pointsHistory ?d2 = pointsHistory d @ (rows1 @ rows2)"
    "list_all (\<lambda>h. transactionType h = ''referral_bonus'') (rows1 @ rows2)"
    using r1 r2 by simp_all
  then show ?thesis using Some
    by (auto simp: claimReferralBonus_def Let_def split: option.splits)
qed

lemma hist_maybeClaim:
  "\<exists>rows. pointsHistory (maybeClaimReferralBonus w now d) = pointsHistory d @ rows \<and>
          list_all (\<lambda>h. transactionType h = ''referral_bonus'') rows"
  using hist_claimReferralBonus [of w now d]
  by (auto simp: maybeClaimReferralBonus_def split: option.splits)

lemma xConnected_updateProfiles:
  assumes "\<And>p. walletAddress (f p) = walletAddress p" "\<And>p. xConnected (f p) = xConnected p"
  shows "map_option xConnected (getWalletProfile (updateProfiles w f now d) w') =
         map_option xConnected (getWalletProfile d w')"
  using assms by (simp add: getWalletProfile_updateProfiles split: option.splits)

lemma xConnected_addPoints:
  "map_option xConnected (getWalletProfile (snd (addPoints w n t now d)) w') =
   map_option xConnected (getWalletProfile d w')"
  by (simp add: getWalletProfile_addPoints split: option.splits)

lemma xConnected_claimReferralBonus:
  "map_option xConnected (getWalletProfile (snd (claimReferralBonus w now d)) w') =
   map_option xConnected (getWalletProfile d w')"
  by (simp add: claimReferralBonus_def Let_def xConnected_updateProfiles xConnected_addPoints
      split: option.splits)

lemma xConnected_maybeClaim:
  "map_option xConnected (getWalletProfile (maybeClaimReferralBonus w now d) w') =
   map_option xConnected (getWalletProfile d w')"
  by (simp add: maybeClaimReferralBonus_def xConnected_claimReferralBonus split: option.splits)

lemma ci_simps [simp]:
  "ci_collation (snd (claimReferralBonus w now d)) = ci_collation d"
  "ci_collation (maybeClaimReferralBonus w now d) = ci_collation d"
  by (simp_all add: claimReferralBonus_def maybeClaimReferralBonus_def Let_def split: option.splits)

lemma maybeGenerate_Some:
  assumes "maybeGenerateReferralCode w token now d = Some d'"
  shows "pointsHistory d' = pointsHistory d" and "ci_collation d' = ci_collation d"
    and "referrals d' = referrals d"
    and "map_option (\<lambda>p. (xConnected p, totalPoints p, referredBy p)) (getWalletProfile d' w') =
         map_option (\<lambda>p. (xConnected p, totalPoints p, referredBy p)) (getWalletProfile d w')"
  using assms
  by (auto simp: maybeGenerateReferralCode_def getWalletProfile_updateProfiles
      split: option.splits if_splits)

lemma disconnectX_effect:
  assumes "getWalletProfile d w = Some p" "xConnected p"
  shows "fst (disconnectXAccount w now d) = Succeeded [getOriginalBonusPoints d w ''x_connect'' 100]"
    and "map_option totalPoints (getWalletProfile (snd (disconnectXAccount w now d)) w) =
           Some (totalPoints p - getOriginalBonusPoints d w ''x_connect'' 100)"
proof -
  let ?d1 = "updateProfiles w (\<lambda>p. p\<lparr>xConnected := False, xUsername := None, xConnectedAt := None\<rparr>) now d"
  have g: "getOriginalBonusPoints ?d1 w ''x_connect'' 100 = getOriginalBonusPoints d w ''x_connect'' 100"
    by (simp add: getOriginalBonusPoints_def)
  have p1: "getWalletProfile ?d1 w =
      Some (p\<lparr>xConnected := False, xUsername := None, xConnectedAt := None, updatedAt := now\<rparr>)"
    using assms by (simp add: getWalletProfile_updateProfiles)
  show "fst (disconnectXAccount w now d) = Succeeded [getOriginalBonusPoints d w ''x_connect'' 100]"
    using assms by (simp add: disconnectXAccount_def Let_def g)
  show "map_option totalPoints (getWalletProfile (snd (disconnectXAccount w now d)) w) =
           Some (totalPoints p - getOriginalBonusPoints d w ''x_connect'' 100)"
    using assms p1 by (simp add: disconnectXAccount_def Let_def g getWalletProfile_addPoints)
qed

lemma maybeClaim_not_pending:
  "\<not> referralPending d w \<Longrightarrow> maybeClaimReferralBonus w now d = d"
  by (auto simp: referralPending_def maybeClaimReferralBonus_def split: option.splits)

lemma connectX_round_trip:
  assumes p: "getWalletProfile d w = Some p" and nx: "\<not> xConnected p"
    and clock: "list_all (\<lambda>h. h_createdAt h \<le> now) (pointsHistory d)"
    and ok: "fst (connectXAccount w u token now d) = Succeeded v"
  shows "v = [100]"
    and "fst (disconnectXAccount w now' (snd (connectXAccount w u token now d))) = Succeeded [100]"
    and "\<exists>p1. getWalletProfile (snd (connectXAccount w u token now d)) w = Some p1 \<and>
           map_option totalPoints (getWalletProfile
             (snd (disconnectXAccount w now' (snd (connectXAccount w u token now d)))) w) =
             Some (totalPoints p1 - 100)"
    and "\<not> referralPending d w \<Longrightarrow>
           map_option totalPoints (getWalletProfile
             (snd (disconnectXAccount w now' (snd (connectXAccount w u token now d)))) w) =
             Some (totalPoints p)"
proof -
  let ?d1 = "updateProfiles w (\<lambda>p. p\<lparr>xConnected := True, xUsername := Some u,
                xConnectedAt := Some now\<rparr>) now d"
  let ?d2 = "snd (addPoints w 100 ''x_connect'' now ?d1)"
  let ?xrow = "\<lparr>h_id = nextHistoryId d, h_walletAddress = w, transactionType = ''x_connect'',
                pointsChange = 100, balanceAfter = totalPoints p + 100, h_createdAt = now\<rparr>"
  let ?ci = "ci_collation d"
  have p1: "getWalletProfile ?d1 w =
      Some (p\<lparr>xConnected := True, xUsername := Some u, xConnectedAt := Some now, updatedAt := now\<rparr>)"
    using p by (simp add: getWalletProfile_updateProfiles)
  have h2: "pointsHistory ?d2 = pointsHistory d @ [?xrow]"
    using addPoints_known(2) [OF p1, of 100 "''x_connect''" now] by simp
  have p2: "map_option (\<lambda>p. (xConnected p, totalPoints p, referredBy p)) (getWalletProfile ?d2 w) =
      Some (True, totalPoints p + 100, referredBy p)"
    using addPoints_known(3) [OF p1, of 100 "''x_connect''" now] by simp
  obtain d3 where g: "maybeGenerateReferralCode w token now ?d2 = Some d3"
    using ok p nx by (cases "maybeGenerateReferralCode w token now ?d2")
      (simp_all add: connectXAccount_def Let_def)
  let ?d4 = "maybeClaimReferralBonus w now d3"
  have res: "connectXAccount w u token now d = (Succeeded [100], ?d4)"
    using p nx g by (simp add: connectXAccount_def Let_def)
  show "v = [100]" using ok res by simp
  note g3 = maybeGenerate_Some [OF g]
  have ci3: "ci_collation d3 = ?ci" using g3(2) by simp
  have p3: "map_option (\<lambda>p. (xConnected p, totalPoints p, referredBy p)) (getWalletProfile d3 w) =
      Some (True, totalPoints p + 100, referredBy p)"
    using g3(4) [of w] p2 by simp
  obtain rows where rows: "pointsHistory ?d4 = pointsHistory d3 @ rows"
      "list_all (\<lambda>h. transactionType h = ''referral_bonus'') rows"
    using hist_maybeClaim [of w now d3] by blast
  have h4: "pointsHistory ?d4 = pointsHistory d @ [?xrow] @ rows"
    using rows(1) g3(1) h2 by simp
  have x4: "map_option xConnected (getWalletProfile ?d4 w) = Some True"
    using xConnected_maybeClaim [of w now d3 w] p3 by (auto simp: map_option_case split: option.splits)
  then obtain p4 where p4: "getWalletProfile ?d4 w = Some p4" "xConnected p4"
    by auto
  have frows: "filter (\<lambda>h. sql_eq ?ci (h_walletAddress h) w \<and> sql_eq ?ci (transactionType h) ''x_connect'') rows = []"
    using rows(2) by (induction rows) auto
  have fl: "filter (\<lambda>h. sql_eq ?ci (h_walletAddress h) w \<and> sql_eq ?ci (transactionType h) ''x_connect'')
        (pointsHistory ?d4) =
      filter (\<lambda>h. sql_eq ?ci (h_walletAddress h) w \<and> sql_eq ?ci (transactionType h) ''x_connect'')
        (pointsHistory d) @ [?xrow]"
    using h4 frows by simp
  have cl: "list_all (\<lambda>h. h_createdAt h \<le> h_createdAt ?xrow)
      (filter (\<lambda>h. sql_eq ?ci (h_walletAddress h) w \<and> sql_eq ?ci (transactionType h) ''x_connect'')
        (pointsHistory d))"
    using clock by (auto simp: list_all_iff)
  have ob: "getOriginalBonusPoints ?d4 w ''x_connect'' 100 = 100"
    unfolding getOriginalBonusPoints_def
    using fl latest_snoc [OF cl] ci3 by simp
  note dx = disconnectX_effect [OF p4, of now', unfolded ob]
  show "fst (disconnectXAccount w now' (snd (connectXAccount w u token now d))) = Succeeded [100]"
    using dx(1) res by simp
  show "\<exists>p1. getWalletProfile (snd (connectXAccount w u token now d)) w = Some p1 \<and>
           map_option totalPoints (getWalletProfile
             (snd (disconnectXAccount w now' (snd (connectXAccount w u token now d)))) w) =
             Some (totalPoints p1 - 100)"
    using dx(2) res p4 by simp
  show "map_option totalPoints (getWalletProfile
             (snd (disconnectXAccount w now' (snd (connectXAccount w u token now d)))) w) =
             Some (totalPoints p)"
    if np: "\<not> referralPending d w"
  proof -
    have "findReferral d3 w = findReferral d w"
      using g3(3) ci3 by (simp add: findReferral_def updateProfiles_def)
    moreover have "map_option referredBy (getWalletProfile d3 w) = Some (referredBy p)"
      using p3 by (auto split: option.splits)
    ultimately have "\<not> referralPending d3 w"
      using np p by (auto simp: referralPending_def split: option.splits)
    then have "?d4 = d3" by (rule maybeClaim_not_pending)
    then have "totalPoints p4 = totalPoints p + 100"
      using p4 p3 by auto
    then show ?thesis using dx(2) res by simp
  qed
qed

section \<open>Facts about self-referral on the in-memory store\<close>

text \<open>
  The in-memory store's \<open>applyReferralCode\<close> refuses the owner of the code under every
  spelling of its address.
\<close>

lemma mock_applyReferralCode_self:
  assumes "mock_findReferrer (snd (ensureProfile w ''evm'' now s)) code = Some referrer"
    and "normalizeAddress (walletAddress referrer) = normalizeAddress w"
  shows "\<exists>m. fst (mock_applyReferralCode w code now s) = Failed m"
  using assms
  by (auto simp: mock_applyReferralCode_def split: prod.splits option.splits)

section \<open>Facts about disconnecting Discord on the relational store\<close>

lemma tag_neq_discord [simp]: "\<not> sql_eq ci ''discord_disconnect'' ''discord_verify''"
  by (cases ci)
    (simp_all add: sql_eq_def toLowerCase_def toLowerCase_char_def upper_letters_def
      lower_letters_def)

lemma getOriginalBonusPoints_updateProfiles [simp]:
  "getOriginalBonusPoints (updateProfiles w f now d) w' t fb = getOriginalBonusPoints d w' t fb"
  by (simp add: getOriginalBonusPoints_def)

lemma getOriginalBonusPoints_addPoints_other:
  "\<not> sql_eq (ci_collation d) t' t \<Longrightarrow>
     getOriginalBonusPoints (snd (addPoints w n t' now d)) w' t fb = getOriginalBonusPoints d w' t fb"
  by (cases "getWalletProfile d w")
    (simp_all add: getOriginalBonusPoints_def addPoints_def Let_def updateProfiles_def)

text \<open>
  The relational store's \<open>disconnectDiscordAccount\<close> on a verified wallet: every Discord
  field is reset and the call makes two deductions, the amount of the wallet's
  \<open>discord_connect\<close> grant and the amount of its \<open>discord_verify\<close> grant.
\<close>

lemma disconnectDiscord_verified:
  assumes p: "getWalletProfile d w = Some p" and c: "discordConnected p" and v: "discordVerified p"
  shows "fst (disconnectDiscordAccount w now d) =
           Succeeded [getOriginalBonusPoints d w ''discord_connect'' 50 +
                      getOriginalBonusPoints d w ''discord_verify'' 50]"
    and "getWalletProfile (snd (disconnectDiscordAccount w now d)) w =
           Some (p\<lparr>discordConnected := False, discordUsername := None, discordId := None,
                   discordConnectedAt := None, discordVerified := False,
                   discordVerifiedAt := None,
                   totalPoints := totalPoints p - getOriginalBonusPoints d w ''discord_connect'' 50
                                  - getOriginalBonusPoints d w ''discord_verify'' 50,
                   updatedAt := now\<rparr>)"
    and "map (\<lambda>h. (transactionType h, pointsChange h))
           (drop (length (pointsHistory d)) (pointsHistory (snd (disconnectDiscordAccount w now d)))) =
           [(''discord_disconnect'', - getOriginalBonusPoints d w ''discord_connect'' 50),
            (''discord_verify_revoked'', - getOriginalBonusPoints d w ''discord_verify'' 50)]"
proof -
  let ?cb = "getOriginalBonusPoints d w ''discord_connect'' 50"
  let ?vb = "getOriginalBonusPoints d w ''discord_verify'' 50"
  let ?d1 = "updateProfiles w
               (\<lambda>p. p\<lparr>discordConnected := False, discordUsername := None, discordId := None,
                      discordConnectedAt := None, discordVerified := False,
                      discordVerifiedAt := None\<rparr>) now d"
  let ?d2 = "snd (addPoints w (- ?cb) ''discord_disconnect'' now ?d1)"
  let ?d3 = "snd (addPoints w (- ?vb) ''discord_verify_revoked'' now ?d2)"
  let ?p1 = "p\<lparr>discordConnected := False, discordUsername := None, discordId := None,
                discordConnectedAt := None, discordVerified := False,
                discordVerifiedAt := None, updatedAt := now\<rparr>"
  have p1: "getWalletProfile ?d1 w = Some ?p1"
    using p by (simp add: getWalletProfile_updateProfiles)
  have vb: "getOriginalBonusPoints ?d2 w ''discord_verify'' 50 = ?vb"
    by (simp add: getOriginalBonusPoints_addPoints_other)
  have res: "disconnectDiscordAccount w now d = (Succeeded [?cb + ?vb], ?d3)"
    using p c v by (simp add: disconnectDiscordAccount_def Let_def vb)
  have p2: "getWalletProfile ?d2 w = Some (?p1\<lparr>totalPoints := totalPoints ?p1 + - ?cb, updatedAt := now\<rparr>)"
    by (rule addPoints_known(3) [OF p1])
  have h2: "pointsHistory ?d2 = pointsHistory d @
      [\<lparr>h_id = nextHistoryId d, h_walletAddress = w, transactionType = ''discord_disconnect'',
        pointsChange = - ?cb, balanceAfter = totalPoints ?p1 + - ?cb, h_createdAt = now\<rparr>]"
    using addPoints_known(2) [OF p1, of "- ?cb" "''discord_disconnect''" now] by simp
  show "fst (disconnectDiscordAccount w now d) = Succeeded [?cb + ?vb]"
    using res by simp
  show "getWalletProfile (snd (disconnectDiscordAccount w now d)) w =
           Some (p\<lparr>discordConnected := False, discordUsername := None, discordId := None,
                   discordConnectedAt := None, discordVerified := False,
                   discordVerifiedAt := None,
                   totalPoints := totalPoints p - ?cb - ?vb, updatedAt := now\<rparr>)"
    using res addPoints_known(3) [OF p2, of "- ?vb" "''discord_verify_revoked''" now] by simp
  show "map (\<lambda>h. (transactionType h, pointsChange h))
           (drop (length (pointsHistory d)) (pointsHistory (snd (disconnectDiscordAccount w now d)))) =
           [(''discord_disconnect'', - ?cb), (''discord_verify_revoked'', - ?vb)]"
    using res addPoints_known(2) [OF p2, of "- ?vb" "''discord_verify_revoked''" now] h2 by simp
qed

section \<open>Facts about applying a referral code on the relational store\<close>

text \<open>
  The relational store's \<open>applyReferralCode\<close>: a code whose owner is not eligible at
  the time of the call is refused and nothing is written; a successful call appends
  exactly one unclaimed referral row and sets \<open>referredBy\<close> on the caller's profile.
\<close>

lemma applyReferralCode_gate:
  assumes "findReferrer d code = Some referrer" "\<not> canGenerateCode referrer"
  shows "\<exists>m. applyReferralCode w code now d = (Failed m, d)"
  using assms
  by (auto simp: applyReferralCode_def canGenerateCode_def split: option.splits)

lemma applyReferralCode_success:
  assumes "applyReferralCode w code now d = (Succeeded v, d')"
  shows "\<exists>referrer p. findReferrer d code = Some referrer \<and> canGenerateCode referrer \<and>
           getWalletProfile d w = Some p \<and>
           referrals d' = referrals d @
             [\<lparr>r_id = nextReferralId d, referrerWallet = walletAddress referrer,
               referredWallet = w, r_referralCode = toUpperCase code, referrerPoints = 0,
               referredPoints = 0, referrerClaimed = False, referredClaimed = False,
               r_createdAt = now, claimedAt = None\<rparr>] \<and>
           getWalletProfile d' w = Some (p\<lparr>referredBy := Some (toUpperCase code), updatedAt := now\<rparr>)"
  using assms
  by (auto simp: applyReferralCode_def canGenerateCode_def Let_def getWalletProfile_updateProfiles
      split: option.splits if_splits)

section \<open>C1: the ledger identity\<close>

text \<open>
  C1, as stated, fails on the in-memory store: after the admin adjustments \<open>2^53\<close>, 1
  and \<open>-2^53\<close> of one wallet the balance is 0 and the history sums to 1. The second
  addition, \<open>2^53 + 1\<close>, leaves the balance at \<open>2^53\<close>.
\<close>

theorem ledger_identity_counterexample:
  "map (\<lambda>h. (pointsChange h, balanceAfter h)) (m_pointsHistory (mock_run unsafe_ops empty_mock)) =
     [(9007199254740992, 9007199254740992), (1, 9007199254740992), (- 9007199254740992, 0)] \<and>
   map_option totalPoints (mock_getWalletProfile (mock_run unsafe_ops empty_mock) ''0xAa'') =
     Some 0 \<and>
   mock_sumHistory (mock_run unsafe_ops empty_mock) ''0xAa'' = 1"
  by code_simp

text \<open>
  C1, amended. After any sequence of operations, started on the empty store and run one
  after another, each to its end, the \<open>totalPoints\<close> of every profile equals the sum of
  \<open>pointsChange\<close> over the history rows of its wallet, provided the amounts are integers
  and the run stays in the range in which the store computes exactly. On the in-memory
  store: every balance written for the wallet (the \<open>balanceAfter\<close> of every history row
  of the wallet) is a safe integer, of magnitude at most \<open>2^53 - 1\<close>. On the relational
  store, under either collation: every amount and every balance written (the
  \<open>pointsChange\<close> and the \<open>balanceAfter\<close> of every history row) is in the range of its
  \<open>INT\<close> column. Interleavings of concurrent requests and statements that the database
  refuses are outside this model.
\<close>

theorem ledger_identity_in_range:
  "(history_in_range (run ops (empty_db ci)) \<and>
    getWalletProfile (run ops (empty_db ci)) w = Some p \<longrightarrow>
      totalPoints p = sumHistory (run ops (empty_db ci)) w) \<and>
   (balances_safe (mock_run mops empty_mock) w' \<and>
    mock_getWalletProfile (mock_run mops empty_mock) w' = Some q \<longrightarrow>
      totalPoints q = mock_sumHistory (mock_run mops empty_mock) w')"
proof -
  have "ledger_ok (run ops (empty_db ci))"
    by (rule ledger_run) (rule ledger_empty)
  moreover have "mock_inv (mock_run mops empty_mock)"
    by (rule mock_inv_run) (rule mock_inv_empty)
  ultimately show ?thesis
    by (auto simp: ledger_ok_def mock_inv_def mock_ledger_ok_def split: option.splits)
qed

theorem ledger_identity_in_range_witness:
  "history_in_range (run scenario_ops (empty_db True)) \<and>
   (\<exists>p. getWalletProfile (run scenario_ops (empty_db True)) ''0xbb'' = Some p \<and>
        totalPoints p = 50 \<and>
        sumHistory (run scenario_ops (empty_db True)) ''0xbb'' = 50) \<and>
   balances_safe (mock_run mock_scenario_ops empty_mock) ''0xbB'' \<and>
   (\<exists>q. mock_getWalletProfile (mock_run mock_scenario_ops empty_mock) ''0xbB'' = Some q \<and>
        totalPoints q = 143 \<and>
        mock_sumHistory (mock_run mock_scenario_ops empty_mock) ''0xbB'' = 143)"
proof -
  have r1: "history_in_range (run scenario_ops (empty_db True))"
    by code_simp
  have r2: "balances_safe (mock_run mock_scenario_ops empty_mock) ''0xbB''"
    by code_simp
  have "map_option totalPoints
          (getWalletProfile (run scenario_ops (empty_db True)) ''0xbb'') = Some 50"
    by code_simp
  then obtain p where p: "getWalletProfile (run scenario_ops (empty_db True)) ''0xbb'' = Some p"
      "totalPoints p = 50"
    by auto
  have "map_option totalPoints
          (mock_getWalletProfile (mock_run mock_scenario_ops empty_mock) ''0xbB'') = Some 143"
    by code_simp
  then obtain q where q: "mock_getWalletProfile (mock_run mock_scenario_ops empty_mock) ''0xbB'' = Some q"
      "totalPoints q = 143"
    by auto
  from r1 r2 p q
    ledger_identity_in_range [of scenario_ops True "''0xbb''" p mock_scenario_ops "''0xbB''" q]
  show ?thesis by auto
qed

section \<open>C2: the refund round trip of X\<close>

text \<open>
  C2, as stated, fails: wallet \<open>0xBb\<close> has applied a referral code and has 0 points;
  its \<open>connectXAccount\<close> succeeds and claims the referral bonus on the way, the
  \<open>disconnectXAccount\<close> that follows succeeds and deducts the 100 points of the connect,
  and the wallet is left with 50 points.
\<close>

theorem connect_disconnect_counterexample:
  "map_option totalPoints (getWalletProfile (run referred_ops (empty_db True)) ''0xBb'') = Some 0 \<and>
   fst (connectXAccount ''0xBb'' ''bob'' ''t3'' 7 (run referred_ops (empty_db True))) =
     Succeeded [100] \<and>
   fst (disconnectXAccount ''0xBb'' 8
     (snd (connectXAccount ''0xBb'' ''bob'' ''t3'' 7 (run referred_ops (empty_db True))))) =
     Succeeded [100] \<and>
   map_option totalPoints (getWalletProfile
     (snd (disconnectXAccount ''0xBb'' 8
        (snd (connectXAccount ''0xBb'' ''bob'' ''t3'' 7 (run referred_ops (empty_db True))))))
     ''0xBb'') = Some 50"
  by code_simp

text \<open>
  C2, amended. \<open>disconnectXAccount\<close> deducts what \<open>getOriginalBonusPoints\<close> finds: the
  amount of the wallet's most recent \<open>x_connect\<close> history entry (when positive, else
  100), whatever that amount is. A successful \<open>connectXAccount\<close> at a time not earlier
  than the entries already in the history, followed at once by \<open>disconnectXAccount\<close>,
  grants 100 and deducts the same 100, so the balance after the pair is the balance
  right after the connect minus 100; it equals the balance before the connect whenever
  the connect did not claim a pending referral bonus for the wallet.
\<close>

theorem connect_disconnect_refund:
  "(getWalletProfile d w = Some p \<and> \<not> xConnected p \<and>
    list_all (\<lambda>h. h_createdAt h \<le> now) (pointsHistory d) \<and>
    fst (connectXAccount w u token now d) = Succeeded v \<longrightarrow>
      v = [100] \<and>
      fst (disconnectXAccount w now' (snd (connectXAccount w u token now d))) = Succeeded [100] \<and>
      (\<exists>p1. getWalletProfile (snd (connectXAccount w u token now d)) w = Some p1 \<and>
            map_option totalPoints (getWalletProfile
              (snd (disconnectXAccount w now' (snd (connectXAccount w u token now d)))) w) =
              Some (totalPoints p1 - 100)) \<and>
      (\<not> referralPending d w \<longrightarrow>
         map_option totalPoints (getWalletProfile
           (snd (disconnectXAccount w now' (snd (connectXAccount w u token now d)))) w) =
           Some (totalPoints p))) \<and>
   (getWalletProfile e a = Some q \<and> xConnected q \<longrightarrow>
      fst (disconnectXAccount a t e) = Succeeded [getOriginalBonusPoints e a ''x_connect'' 100] \<and>
      map_option totalPoints (getWalletProfile (snd (disconnectXAccount a t e)) a) =
        Some (totalPoints q - getOriginalBonusPoints e a ''x_connect'' 100))"
proof (rule conjI; rule impI; elim conjE)
  assume "getWalletProfile d w = Some p" "\<not> xConnected p"
    "list_all (\<lambda>h. h_createdAt h \<le> now) (pointsHistory d)"
    "fst (connectXAccount w u token now d) = Succeeded v"
  note r = connectX_round_trip [OF this]
  show "v = [100] \<and>
      fst (disconnectXAccount w now' (snd (connectXAccount w u token now d))) = Succeeded [100] \<and>
      (\<exists>p1. getWalletProfile (snd (connectXAccount w u token now d)) w = Some p1 \<and>
            map_option totalPoints (getWalletProfile
              (snd (disconnectXAccount w now' (snd (connectXAccount w u token now d)))) w) =
              Some (totalPoints p1 - 100)) \<and>
      (\<not> referralPending d w \<longrightarrow>
         map_option totalPoints (getWalletProfile
           (snd (disconnectXAccount w now' (snd (connectXAccount w u token now d)))) w) =
           Some (totalPoints p))"
    using r(1) r(2) r(3) r(4) by (intro conjI impI)
next
  assume "getWalletProfile e a = Some q" "xConnected q"
  note r = disconnectX_effect [OF this]
  show "fst (disconnectXAccount a t e) = Succeeded [getOriginalBonusPoints e a ''x_connect'' 100] \<and>
      map_option totalPoints (getWalletProfile (snd (disconnectXAccount a t e)) a) =
        Some (totalPoints q - getOriginalBonusPoints e a ''x_connect'' 100)"
    using r(1) r(2) by (intro conjI)
qed

theorem connect_disconnect_refund_witness:
  "map_option totalPoints (getWalletProfile (run fresh_ops (empty_db True)) ''0xAa'') = Some 0 \<and>
   fst (connectXAccount ''0xAa'' ''alice'' ''t1'' 2 (run fresh_ops (empty_db True))) =
     Succeeded [100] \<and>
   fst (disconnectXAccount ''0xAa'' 3
     (snd (connectXAccount ''0xAa'' ''alice'' ''t1'' 2 (run fresh_ops (empty_db True))))) =
     Succeeded [100] \<and>
   map_option totalPoints (getWalletProfile
     (snd (disconnectXAccount ''0xAa'' 3
        (snd (connectXAccount ''0xAa'' ''alice'' ''t1'' 2 (run fresh_ops (empty_db True))))))
     ''0xAa'') = Some 0 \<and>
   getOriginalBonusPoints legacy_x_db ''0xAa'' ''x_connect'' 100 = 80 \<and>
   fst (disconnectXAccount ''0xAa'' 3 legacy_x_db) = Succeeded [80] \<and>
   map_option totalPoints (getWalletProfile (snd (disconnectXAccount ''0xAa'' 3 legacy_x_db))
     ''0xAa'') = Some 0"
proof -
  let ?d = "run fresh_ops (empty_db True)"
  have "map_option (\<lambda>p. (xConnected p, totalPoints p)) (getWalletProfile ?d ''0xAa'') =
          Some (False, 0)"
    by code_simp
  then obtain p where p: "getWalletProfile ?d ''0xAa'' = Some p" "\<not> xConnected p"
      "totalPoints p = 0"
    by auto
  have clock: "list_all (\<lambda>h. h_createdAt h \<le> 2) (pointsHistory ?d)"
    by code_simp
  have ok: "fst (connectXAccount ''0xAa'' ''alice'' ''t1'' 2 ?d) = Succeeded [100]"
    by code_simp
  have np: "\<not> referralPending ?d ''0xAa''"
    by code_simp
  have "map_option (\<lambda>p. (xConnected p, totalPoints p)) (getWalletProfile legacy_x_db ''0xAa'') =
          Some (True, 80)"
    by code_simp
  then obtain q where q: "getWalletProfile legacy_x_db ''0xAa'' = Some q" "xConnected q"
      "totalPoints q = 80"
    by auto
  have g: "getOriginalBonusPoints legacy_x_db ''0xAa'' ''x_connect'' 100 = 80"
    by code_simp
  from connect_disconnect_refund
    [of ?d "''0xAa''" p 2 "''alice''" "''t1''" "[100]" 3 legacy_x_db "''0xAa''" q 3]
    p clock ok np q g
  show ?thesis by simp
qed

section \<open>C3: idempotent revocation\<close>



section \<open>C4: disconnecting a verified Discord account\<close>

text \<open>
  C4. On the in-memory store a wallet that connected (+50) and verified (+50) Discord
  keeps the verification bonus when it disconnects: one deduction of 50, balance 50.
  The relational store makes the two deductions on the same steps, balance 0.
\<close>

theorem mock_disconnect_keeps_verify_bonus:
  "map_option (\<lambda>p. (discordConnected p, discordVerified p, totalPoints p))
     (mock_getWalletProfile (mock_run mock_discord_ops empty_mock) ''0xAa'') =
     Some (True, True, 100) \<and>
   fst (mock_disconnectDiscordAccount ''0xAa'' 3 (mock_run mock_discord_ops empty_mock)) =
     Succeeded [50] \<and>
   map (\<lambda>h. (transactionType h, pointsChange h))
     (m_pointsHistory (snd (mock_disconnectDiscordAccount ''0xAa'' 3
        (mock_run mock_discord_ops empty_mock)))) =
     [(''discord_connect'', 50), (''discord_verify'', 50), (''discord_disconnect'', - 50)] \<and>
   map_option (\<lambda>p. (discordConnected p, discordVerified p, totalPoints p))
     (mock_getWalletProfile (snd (mock_disconnectDiscordAccount ''0xAa'' 3
        (mock_run mock_discord_ops empty_mock))) ''0xAa'') = Some (False, False, 50) \<and>
   fst (disconnectDiscordAccount ''0xAa'' 4 (run discord_ops (empty_db True))) = Succeeded [100] \<and>
   map (\<lambda>h. (transactionType h, pointsChange h))
     (pointsHistory (snd (disconnectDiscordAccount ''0xAa'' 4 (run discord_ops (empty_db True))))) =
     [(''discord_connect'', 50), (''discord_verify'', 50), (''discord_disconnect'', - 50),
      (''discord_verify_revoked'', - 50)] \<and>
   map_option totalPoints (getWalletProfile
     (snd (disconnectDiscordAccount ''0xAa'' 4 (run discord_ops (empty_db True)))) ''0xAa'') = Some 0"
  by code_simp

theorem mock_disconnect_keeps_verify_bonus_witness:
  "fst (mock_disconnectDiscordAccount ''0xAa'' 3 (mock_run mock_discord_ops empty_mock)) =
     Succeeded [50]"
  using mock_disconnect_keeps_verify_bonus by simp

section \<open>C5: claiming the referral bonus\<close>

text \<open>
  C5, as stated, fails on the relational store: after the claim the referrer's
  \<open>referralCount\<close> is the stored value plus one (1 with two referral rows; 8 and 400
  points on the drifted store), not the recomputation over its rows.
\<close>

theorem claim_recomputation_counterexample:
  "fst (claimReferralBonus ''0xbb'' 9 (run two_referred_ops (empty_db True))) = Succeeded [50, 50] \<and>
   map_option referralCount (getWalletProfile
     (snd (claimReferralBonus ''0xbb'' 9 (run two_referred_ops (empty_db True)))) ''0xaa'') = Some 1 \<and>
   recomputedReferralCount
     (snd (claimReferralBonus ''0xbb'' 9 (run two_referred_ops (empty_db True)))) ''0xaa'' = 2 \<and>
   map_option (\<lambda>p. (referralCount p, referralPointsEarned p)) (getWalletProfile
     (snd (claimReferralBonus ''0xbb'' 9 stale_db)) ''0xaa'') = Some (8, 400) \<and>
   recomputedReferralCount (snd (claimReferralBonus ''0xbb'' 9 stale_db)) ''0xaa'' = 1 \<and>
   recomputedReferralPoints (snd (claimReferralBonus ''0xbb'' 9 stale_db)) ''0xaa'' = 50"
  by code_simp

text \<open>
  C5, amended. For an unclaimed referral whose two wallets have profiles,
  \<open>claimReferralBonus\<close> on the relational store adds 50 points to the referrer and 50
  to the referred wallet (one \<open>referral_bonus\<close> history row each), sets both claimed
  flags, \<open>claimedAt\<close> and the two point fields of the referral row, and adds 1 to the
  referrer's stored \<open>referralCount\<close> and 50 to its stored \<open>referralPointsEarned\<close>. On the
  in-memory store it adds the same points (\<open>js_add\<close>, the addition of JavaScript
  numbers), sets \<open>referrerClaimed\<close> and the point fields, and sets the referrer's two
  aggregates to the count and the sum over all referral rows of that referrer.
\<close>

theorem claimReferralBonus_postcondition:
  "(findReferral d w = Some r \<and> \<not> referrerClaimed r \<and>
    getWalletProfile d (referrerWallet r) = Some pr \<and> getWalletProfile d w = Some pw \<and>
    \<not> sql_eq (ci_collation d) (referrerWallet r) w \<longrightarrow>
      fst (claimReferralBonus w now d) = Succeeded [50, 50] \<and>
      getWalletProfile (snd (claimReferralBonus w now d)) (referrerWallet r) =
        Some (pr\<lparr>totalPoints := totalPoints pr + 50, referralCount := referralCount pr + 1,
                 referralPointsEarned := referralPointsEarned pr + 50, updatedAt := now\<rparr>) \<and>
      getWalletProfile (snd (claimReferralBonus w now d)) w =
        Some (pw\<lparr>totalPoints := totalPoints pw + 50, updatedAt := now\<rparr>) \<and>
      findReferral (snd (claimReferralBonus w now d)) w =
        Some (r\<lparr>referrerClaimed := True, referredClaimed := True, claimedAt := Some now,
                referrerPoints := 50, referredPoints := 50\<rparr>) \<and>
      pointsHistory (snd (claimReferralBonus w now d)) =
        pointsHistory d @
        [\<lparr>h_id = nextHistoryId d, h_walletAddress = referrerWallet r,
          transactionType = ''referral_bonus'', pointsChange = 50,
          balanceAfter = totalPoints pr + 50, h_createdAt = now\<rparr>,
         \<lparr>h_id = Suc (nextHistoryId d), h_walletAddress = w,
          transactionType = ''referral_bonus'', pointsChange = 50,
          balanceAfter = totalPoints pw + 50, h_createdAt = now\<rparr>]) \<and>
   (mock_findReferral s v = Some mr \<and> \<not> m_referrerClaimed mr \<and>
    normalizeAddress (m_referrerWallet mr) \<noteq> normalizeAddress v \<longrightarrow>
      fst (mock_claimReferralBonus v now s) = Succeeded [50, 50] \<and>
      mock_findReferral (snd (mock_claimReferralBonus v now s)) v =
        Some (mr\<lparr>m_referrerClaimed := True, m_referrerPoints := 50, m_referredPoints := 50\<rparr>) \<and>
      (\<exists>p. mock_getWalletProfile (snd (mock_claimReferralBonus v now s)) (m_referrerWallet mr) =
              Some p \<and>
            totalPoints p = js_add (mock_balance s (m_referrerWallet mr)) 50 \<and>
            referralCount p =
              int (length (filter (\<lambda>x. normalizeAddress (m_referrerWallet x) =
                                        normalizeAddress (m_referrerWallet mr))
                     (m_referrals (snd (mock_claimReferralBonus v now s))))) \<and>
            referralPointsEarned p =
              sum_list (map m_referrerPoints
                (filter (\<lambda>x. normalizeAddress (m_referrerWallet x) =
                              normalizeAddress (m_referrerWallet mr))
                   (m_referrals (snd (mock_claimReferralBonus v now s)))))) \<and>
      (\<exists>q. mock_getWalletProfile (snd (mock_claimReferralBonus v now s)) v = Some q \<and>
            totalPoints q = js_add (mock_balance s v) 50))"
proof (rule conjI; rule impI; elim conjE)
  assume "findReferral d w = Some r" "\<not> referrerClaimed r"
    "getWalletProfile d (referrerWallet r) = Some pr" "getWalletProfile d w = Some pw"
    "\<not> sql_eq (ci_collation d) (referrerWallet r) w"
  from claimReferralBonus_effect [OF this, of now]
  show "fst (claimReferralBonus w now d) = Succeeded [50, 50] \<and>
      getWalletProfile (snd (claimReferralBonus w now d)) (referrerWallet r) =
        Some (pr\<lparr>totalPoints := totalPoints pr + 50, referralCount := referralCount pr + 1,
                 referralPointsEarned := referralPointsEarned pr + 50, updatedAt := now\<rparr>) \<and>
      getWalletProfile (snd (claimReferralBonus w now d)) w =
        Some (pw\<lparr>totalPoints := totalPoints pw + 50, updatedAt := now\<rparr>) \<and>
      findReferral (snd (claimReferralBonus w now d)) w =
        Some (r\<lparr>referrerClaimed := True, referredClaimed := True, claimedAt := Some now,
                referrerPoints := 50, referredPoints := 50\<rparr>) \<and>
      pointsHistory (snd (claimReferralBonus w now d)) =
        pointsHistory d @
        [\<lparr>h_id = nextHistoryId d, h_walletAddress = referrerWallet r,
          transactionType = ''referral_bonus'', pointsChange = 50,
          balanceAfter = totalPoints pr + 50, h_createdAt = now\<rparr>,
         \<lparr>h_id = Suc (nextHistoryId d), h_walletAddress = w,
          transactionType = ''referral_bonus'', pointsChange = 50,
          balanceAfter = totalPoints pw + 50, h_createdAt = now\<rparr>]"
    by (intro conjI)
next
  assume "mock_findReferral s v = Some mr" "\<not> m_referrerClaimed mr"
    "normalizeAddress (m_referrerWallet mr) \<noteq> normalizeAddress v"
  from mock_claimReferralBonus_effect [OF this, of now]
  show "fst (mock_claimReferralBonus v now s) = Succeeded [50, 50] \<and>
      mock_findReferral (snd (mock_claimReferralBonus v now s)) v =
        Some (mr\<lparr>m_referrerClaimed := True, m_referrerPoints := 50, m_referredPoints := 50\<rparr>) \<and>
      (\<exists>p. mock_getWalletProfile (snd (mock_claimReferralBonus v now s)) (m_referrerWallet mr) =
              Some p \<and>
            totalPoints p = js_add (mock_balance s (m_referrerWallet mr)) 50 \<and>
            referralCount p =
              int (length (filter (\<lambda>x. normalizeAddress (m_referrerWallet x) =
                                        normalizeAddress (m_referrerWallet mr))
                     (m_referrals (snd (mock_claimReferralBonus v now s))))) \<and>
            referralPointsEarned p =
              sum_list (map m_referrerPoints
                (filter (\<lambda>x. normalizeAddress (m_referrerWallet x) =
                              normalizeAddress (m_referrerWallet mr))
                   (m_referrals (snd (mock_claimReferralBonus v now s)))))) \<and>
      (\<exists>q. mock_getWalletProfile (snd (mock_claimReferralBonus v now s)) v = Some q \<and>
            totalPoints q = js_add (mock_balance s v) 50)"
    by (intro conjI)
qed

theorem claimReferralBonus_postcondition_witness:
  "fst (claimReferralBonus ''0xbb'' 9 (run two_referred_ops (empty_db True))) = Succeeded [50, 50] \<and>
   map_option (\<lambda>p. (totalPoints p, referralCount p, referralPointsEarned p))
     (getWalletProfile (snd (claimReferralBonus ''0xbb'' 9 (run two_referred_ops (empty_db True))))
        ''0xaa'') = Some (250, 1, 50) \<and>
   map_option (\<lambda>r. (referrerClaimed r, referredClaimed r, claimedAt r))
     (findReferral (snd (claimReferralBonus ''0xbb'' 9 (run two_referred_ops (empty_db True))))
        ''0xbb'') = Some (True, True, Some 9) \<and>
   fst (mock_claimReferralBonus ''0xBb'' 9 (mock_run mock_referred_ops empty_mock)) =
     Succeeded [50, 50] \<and>
   map_option (\<lambda>p. (totalPoints p, referralCount p, referralPointsEarned p))
     (mock_getWalletProfile (snd (mock_claimReferralBonus ''0xBb'' 9
        (mock_run mock_referred_ops empty_mock))) ''0xAa'') = Some (250, 2, 50)"
proof -
  let ?d = "run two_referred_ops (empty_db True)"
  let ?s = "mock_run mock_referred_ops empty_mock"
  have "map_option (\<lambda>r. (referrerClaimed r, referrerWallet r)) (findReferral ?d ''0xbb'') =
          Some (False, ''0xaa'')"
    by code_simp
  then obtain r where r: "findReferral ?d ''0xbb'' = Some r" "\<not> referrerClaimed r"
      "referrerWallet r = ''0xaa''"
    by auto
  have "map_option (\<lambda>p. (totalPoints p, referralCount p, referralPointsEarned p))
          (getWalletProfile ?d ''0xaa'') = Some (200, 0, 0)"
    by code_simp
  then obtain pr where pr: "getWalletProfile ?d ''0xaa'' = Some pr" "totalPoints pr = 200"
      "referralCount pr = 0" "referralPointsEarned pr = 0"
    by auto
  have "map_option totalPoints (getWalletProfile ?d ''0xbb'') = Some 0"
    by code_simp
  then obtain pw where pw: "getWalletProfile ?d ''0xbb'' = Some pw"
    by auto
  have ne: "\<not> sql_eq (ci_collation ?d) ''0xaa'' ''0xbb''"
    by code_simp
  have "map_option (\<lambda>r. (m_referrerClaimed r, m_referrerWallet r)) (mock_findReferral ?s ''0xBb'') =
          Some (False, ''0xAa'')"
    by code_simp
  then obtain mr where mr: "mock_findReferral ?s ''0xBb'' = Some mr" "\<not> m_referrerClaimed mr"
      "m_referrerWallet mr = ''0xAa''"
    by auto
  have mne: "normalizeAddress ''0xAa'' \<noteq> normalizeAddress ''0xBb''"
    by code_simp
  have m: "map_option (\<lambda>p. (totalPoints p, referralCount p, referralPointsEarned p))
     (mock_getWalletProfile (snd (mock_claimReferralBonus ''0xBb'' 9 ?s)) ''0xAa'') = Some (250, 2, 50)"
    by code_simp
  from claimReferralBonus_postcondition [of ?d "''0xbb''" r pr pw 9 ?s "''0xBb''" mr]
    r pr pw ne mr mne m
  show ?thesis by simp
qed

section \<open>C6: referral application gating\<close>

text \<open>
  C6. On the in-memory store the code of a referrer who has disconnected X is applied
  all the same; the relational store refuses it as inactive.
\<close>

theorem mock_apply_ignores_eligibility:
  "map_option canGenerateCode
     (mock_findReferrer (mock_run mock_inactive_ops empty_mock) ''abcd1234'') = Some False \<and>
   fst (mock_applyReferralCode ''0xBb'' ''abcd1234'' 5 (mock_run mock_inactive_ops empty_mock)) =
     Succeeded [] \<and>
   map (\<lambda>r. (m_referrerWallet r, m_referredWallet r, m_referrerClaimed r))
     (m_referrals (snd (mock_applyReferralCode ''0xBb'' ''abcd1234'' 5
        (mock_run mock_inactive_ops empty_mock)))) = [(''0xAa'', ''0xBb'', False)] \<and>
   fst (applyReferralCode ''0xBb'' ''abcd1234'' 7 (run inactive_ops (empty_db True))) =
     Failed ''This referral code is currently inactive''"
  by code_simp

theorem mock_apply_ignores_eligibility_witness:
  "fst (mock_applyReferralCode ''0xBb'' ''abcd1234'' 5 (mock_run mock_inactive_ops empty_mock)) =
     Succeeded []"
  using mock_apply_ignores_eligibility by simp

section \<open>C7: membership reconciliation and the historical grant\<close>

text \<open>
  C7. On a 404 the single-wallet check deducts the amount of the wallet's
  \<open>discord_verify\<close> history entry (75 in \<open>legacy_db\<close>, balance 0 afterwards); the batch
  sweep deducts the constant 50 (balance 25 afterwards).
\<close>

theorem membership_sweep_deducts_constant:
  "map_option totalPoints (getWalletProfile
      (snd (checkUserDiscordMembership ''0xAa'' True (Status 404) 9 legacy_db)) ''0xAa'') = Some 0 \<and>
   map pointsChange (pointsHistory
      (snd (checkUserDiscordMembership ''0xAa'' True (Status 404) 9 legacy_db))) = [75, - 75] \<and>
   map_option totalPoints (getWalletProfile
      (snd (checkDiscordServerMemberships True (\<lambda>i. Status 404) 9 legacy_db)) ''0xAa'') = Some 25 \<and>
   map pointsChange (pointsHistory
      (snd (checkDiscordServerMemberships True (\<lambda>i. Status 404) 9 legacy_db))) = [75, - 50]"
  by code_simp

theorem membership_sweep_deducts_constant_witness:
  "map pointsChange (pointsHistory
      (snd (checkDiscordServerMemberships True (\<lambda>i. Status 404) 9 legacy_db))) = [75, - 50]"
  using membership_sweep_deducts_constant by simp

section \<open>C8: fail-open verification\<close>

text \<open>
  C8. \<open>checkTweetExists\<close> returns false exactly on a 404 or 403 response, and true on
  success, on every other status and on a failed request. A membership check whose
  response is not a 404 leaves the store as it is: the single-wallet check returns
  \<open>(stillMember, revoked) = (true, false)\<close>, the iteration of the batch sweep for that
  user hands the same store and the same count of revocations to the rest of the loop,
  whatever happened before in the run, and a sweep without any 404 revokes nobody.
  Likewise an iteration of a tweet sweep whose lookup is answered neither 404 nor 403
  hands the same store, the same count and the same list of revoked ids to the rest of
  the loop. Over a whole run, with any mixture of responses, a tweet sweep changes the
  store by \<open>revokeTweetPoints\<close> on the completions whose own lookup was answered 404 or
  403, in order, and by nothing else; it counts no more revocations than there are such
  completions, and changes nothing when there is none.
\<close>

theorem fail_open_verification:
  "(checkTweetExists resp = False) = (resp = Status 404 \<or> resp = Status 403) \<and>
   (resp \<noteq> Status 404 \<longrightarrow>
      checkUserDiscordMembership w configured resp now d = ((True, False), d)) \<and>
   (fetch i \<noteq> Status 404 \<longrightarrow>
      (\<exists>i' checked' errors'.
         membershipSweep fetch i (user # users) now (checked, revoked, errors) d =
         membershipSweep fetch i' users now (checked', revoked, errors') d)) \<and>
   ((\<forall>j. fetch j \<noteq> Status 404) \<longrightarrow>
      snd (checkDiscordServerMemberships configured fetch now d) = d \<and>
      fst (snd (fst (checkDiscordServerMemberships configured fetch now d))) = 0) \<and>
   (fetch i \<noteq> Status 404 \<and> fetch i \<noteq> Status 403 \<longrightarrow>
      (\<exists>i' checked'.
         tweetSweep fetch i (c # cs) now (checked, revoked, ids) d =
         tweetSweep fetch i' cs now (checked', revoked, ids) d)) \<and>
   snd (tweetSweep fetch i cs now (checked, revoked, ids) d) =
     foldl (\<lambda>d c. snd (revokeTweetPoints (t_id c) now d)) d (confirmedDeleted fetch i cs) \<and>
   fst (snd (fst (tweetSweep fetch i cs now (checked, revoked, ids) d))) \<le>
     revoked + length (confirmedDeleted fetch i cs) \<and>
   snd (checkAndRevokeDeletedTweets w fetch now d) =
     foldl (\<lambda>d c. snd (revokeTweetPoints (t_id c) now d)) d
       (confirmedDeleted fetch 0 (getActiveTweetCompletions (Some w) d)) \<and>
   snd (cronCheckAllTweets fetch now d) =
     foldl (\<lambda>d c. snd (revokeTweetPoints (t_id c) now d)) d
       (confirmedDeleted fetch 0 (getActiveTweetCompletions None d)) \<and>
   ((\<forall>j. fetch j \<noteq> Status 404 \<and> fetch j \<noteq> Status 403) \<longrightarrow>
      snd (checkAndRevokeDeletedTweets w fetch now d) = d \<and>
      snd (cronCheckAllTweets fetch now d) = d)"
proof -
  have a: "(\<forall>j. fetch j \<noteq> Status 404 \<and> fetch j \<noteq> Status 403) \<Longrightarrow> \<forall>j. checkTweetExists (fetch j)"
    using checkTweetExists_false_iff by blast
  have sw: "(\<forall>j. fetch j \<noteq> Status 404 \<and> fetch j \<noteq> Status 403) \<Longrightarrow>
      snd (tweetSweep fetch 0 cs' now (0, 0, []) d) = d" for cs'
    using tweetSweep_all_exist [OF a] by blast
  have cron: "snd (cronCheckAllTweets fetch now d) =
      snd (tweetSweep fetch 0 (getActiveTweetCompletions None d) now (0, 0, []) d)"
    by (auto simp: cronCheckAllTweets_def split: prod.splits)
  have c1: "(checkTweetExists resp = False) = (resp = Status 404 \<or> resp = Status 403)"
    by (rule checkTweetExists_false_iff)
  have c2: "resp \<noteq> Status 404 \<longrightarrow>
      checkUserDiscordMembership w configured resp now d = ((True, False), d)"
    by (simp add: checkUser_not_404)
  have c3: "fetch i \<noteq> Status 404 \<longrightarrow>
      (\<exists>i' checked' errors'.
         membershipSweep fetch i (user # users) now (checked, revoked, errors) d =
         membershipSweep fetch i' users now (checked', revoked, errors') d)"
    using membershipSweep_step_not_404 [of fetch i user users now checked revoked errors d] by blast
  have c4: "(\<forall>j. fetch j \<noteq> Status 404) \<longrightarrow>
      snd (checkDiscordServerMemberships configured fetch now d) = d \<and>
      fst (snd (fst (checkDiscordServerMemberships configured fetch now d))) = 0"
    using membershipSweep_no_404 [of fetch 0 _ now "(0, 0, 0)" d]
    by (auto simp: checkDiscordServerMemberships_def)
  have c5: "fetch i \<noteq> Status 404 \<and> fetch i \<noteq> Status 403 \<longrightarrow>
      (\<exists>i' checked'.
         tweetSweep fetch i (c # cs) now (checked, revoked, ids) d =
         tweetSweep fetch i' cs now (checked', revoked, ids) d)"
    using tweetSweep_step_exists [of fetch i c cs now checked revoked ids d]
      checkTweetExists_false_iff [of "fetch i"]
    by blast
  have c6: "snd (tweetSweep fetch i cs now (checked, revoked, ids) d) =
     foldl (\<lambda>d c. snd (revokeTweetPoints (t_id c) now d)) d (confirmedDeleted fetch i cs)"
    by (rule tweetSweep_store)
  have c7: "fst (snd (fst (tweetSweep fetch i cs now (checked, revoked, ids) d))) \<le>
     revoked + length (confirmedDeleted fetch i cs)"
    by (rule tweetSweep_revoked)
  have c8: "snd (checkAndRevokeDeletedTweets w fetch now d) =
     foldl (\<lambda>d c. snd (revokeTweetPoints (t_id c) now d)) d
       (confirmedDeleted fetch 0 (getActiveTweetCompletions (Some w) d))"
    unfolding checkAndRevokeDeletedTweets_def by (rule tweetSweep_store)
  have c9: "snd (cronCheckAllTweets fetch now d) =
     foldl (\<lambda>d c. snd (revokeTweetPoints (t_id c) now d)) d
       (confirmedDeleted fetch 0 (getActiveTweetCompletions None d))"
    unfolding cron by (rule tweetSweep_store)
  have c10: "(\<forall>j. fetch j \<noteq> Status 404 \<and> fetch j \<noteq> Status 403) \<longrightarrow>
      snd (checkAndRevokeDeletedTweets w fetch now d) = d \<and>
      snd (cronCheckAllTweets fetch now d) = d"
    using sw cron by (simp add: checkAndRevokeDeletedTweets_def)
  from c1 c2 c3 c4 c5 c6 c7 c8 c9 c10 show ?thesis by (intro conjI)
qed

theorem fail_open_verification_witness:
  "checkTweetExists (Status 500) \<and> checkTweetExists FetchError \<and> checkTweetExists (Status 429) \<and>
   \<not> checkTweetExists (Status 404) \<and>
   Status 500 \<noteq> Status 404 \<and>
   checkUserDiscordMembership ''0xAa'' True (Status 500) 9 legacy_db = ((True, False), legacy_db) \<and>
   (\<forall>j. (\<lambda>i. Status 503) j \<noteq> Status 404) \<and>
   snd (checkDiscordServerMemberships True (\<lambda>i. Status 503) 9 legacy_db) = legacy_db \<and>
   fst (checkDiscordServerMemberships True (\<lambda>i. Status 503) 9 legacy_db) = (1, 0, 1) \<and>
   mixed_responses 0 = Status 404 \<and>
   mixed_responses 1 \<noteq> Status 404 \<and> mixed_responses 1 \<noteq> Status 403 \<and>
   map (\<lambda>t. (t_id t, status t)) (getActiveTweetCompletions None (run two_posts_ops (empty_db True))) =
     [(2, Active), (1, Active)] \<and>
   map t_id (confirmedDeleted mixed_responses 0
     (getActiveTweetCompletions None (run two_posts_ops (empty_db True)))) = [2] \<and>
   snd (cronCheckAllTweets mixed_responses 9 (run two_posts_ops (empty_db True))) =
     snd (revokeTweetPoints 2 9 (run two_posts_ops (empty_db True))) \<and>
   fst (cronCheckAllTweets mixed_responses 9 (run two_posts_ops (empty_db True))) = (2, 1, 0) \<and>
   map (\<lambda>t. (t_id t, status t))
     (taskCompletions (snd (cronCheckAllTweets mixed_responses 9 (run two_posts_ops (empty_db True))))) =
     [(1, Active), (2, Revoked)] \<and>
   map (\<lambda>h. (transactionType h, pointsChange h))
     (pointsHistory (snd (cronCheckAllTweets mixed_responses 9 (run two_posts_ops (empty_db True))))) =
     [(''x_connect'', 100), (''daily_post'', 100), (''daily_post'', 100), (''tweet_revoked'', - 100)] \<and>
   (\<forall>j. (\<lambda>i. FetchError) j \<noteq> Status 404 \<and> (\<lambda>i. FetchError) j \<noteq> Status 403) \<and>
   snd (checkAndRevokeDeletedTweets ''0xAa'' (\<lambda>i. FetchError) 9 (run two_posts_ops (empty_db True))) =
     run two_posts_ops (empty_db True)"
proof -
  let ?D = "run two_posts_ops (empty_db True)"
  have h1: "Status 500 \<noteq> Status 404" by simp
  have h2: "\<forall>j. (\<lambda>i. Status 503) j \<noteq> Status 404" by simp
  have h3: "\<forall>j. (\<lambda>i. FetchError) j \<noteq> Status 404 \<and> (\<lambda>i. FetchError) j \<noteq> Status 403" by simp
  have h4: "mixed_responses 0 = Status 404"
    "mixed_responses 1 \<noteq> Status 404 \<and> mixed_responses 1 \<noteq> Status 403"
    by (simp_all add: mixed_responses_def)
  have m: "fst (checkDiscordServerMemberships True (\<lambda>i. Status 503) 9 legacy_db) = (1, 0, 1)"
    by code_simp
  have t: "checkTweetExists (Status 500) \<and> checkTweetExists FetchError \<and> checkTweetExists (Status 429) \<and>
   \<not> checkTweetExists (Status 404)"
    by (simp add: checkTweetExists_def response_ok_def)
  have act: "map (\<lambda>t. (t_id t, status t)) (getActiveTweetCompletions None ?D) =
     [(2, Active), (1, Active)]"
    by code_simp
  have cd: "map t_id (confirmedDeleted mixed_responses 0 (getActiveTweetCompletions None ?D)) = [2]"
    by code_simp
  have cnt: "fst (cronCheckAllTweets mixed_responses 9 ?D) = (2, 1, 0)"
    by code_simp
  have tc: "map (\<lambda>t. (t_id t, status t))
     (taskCompletions (snd (cronCheckAllTweets mixed_responses 9 ?D))) =
     [(1, Active), (2, Revoked)]"
    by code_simp
  have ph: "map (\<lambda>h. (transactionType h, pointsChange h))
     (pointsHistory (snd (cronCheckAllTweets mixed_responses 9 ?D))) =
     [(''x_connect'', 100), (''daily_post'', 100), (''daily_post'', 100), (''tweet_revoked'', - 100)]"
    by code_simp
  have fm: "foldl (\<lambda>d c. snd (revokeTweetPoints (t_id c) 9 d)) d0 xs =
            foldl (\<lambda>d i. snd (revokeTweetPoints i 9 d)) d0 (map t_id xs)" for d0 xs
    by (simp add: foldl_map)
  have legacy:
    "checkUserDiscordMembership ''0xAa'' True (Status 500) 9 legacy_db = ((True, False), legacy_db)"
    "snd (checkDiscordServerMemberships True (\<lambda>i. Status 503) 9 legacy_db) = legacy_db"
    using fail_open_verification [where resp = "Status 500" and w = "''0xAa''" and configured = True
        and now = 9 and d = legacy_db and fetch = "\<lambda>i. Status 503", THEN conjunct2, THEN conjunct1]
      fail_open_verification [where configured = True
        and now = 9 and d = legacy_db and fetch = "\<lambda>i. Status 503", THEN conjunct2, THEN conjunct2,
        THEN conjunct2, THEN conjunct1] h1 h2
    by blast+
  have "snd (cronCheckAllTweets mixed_responses 9 ?D) =
     foldl (\<lambda>d c. snd (revokeTweetPoints (t_id c) 9 d)) ?D
       (confirmedDeleted mixed_responses 0 (getActiveTweetCompletions None ?D))"
    by (rule fail_open_verification [where fetch = mixed_responses and now = 9 and d = ?D,
          THEN conjunct2, THEN conjunct2, THEN conjunct2, THEN conjunct2, THEN conjunct2,
          THEN conjunct2, THEN conjunct2, THEN conjunct2, THEN conjunct1])
  then have mixed: "snd (cronCheckAllTweets mixed_responses 9 ?D) = snd (revokeTweetPoints 2 9 ?D)"
    by (simp add: fm cd)
  have quiet: "snd (checkAndRevokeDeletedTweets ''0xAa'' (\<lambda>i. FetchError) 9 ?D) = ?D"
    using fail_open_verification [where fetch = "\<lambda>i. FetchError" and now = 9 and d = ?D
        and w = "''0xAa''", THEN conjunct2, THEN conjunct2, THEN conjunct2, THEN conjunct2,
        THEN conjunct2, THEN conjunct2, THEN conjunct2, THEN conjunct2, THEN conjunct2] h3
    by blast
  from h1 h2 h3 h4 m t act cd cnt tc ph legacy mixed quiet show ?thesis
    by (elim conjE) (intro conjI; assumption)
qed

section \<open>C9: self-referral under another spelling of the address\<close>

text \<open>
  C9. On the relational store the owner of a code is refused under the stored spelling
  of its address only. Under the spelling \<open>0xAA\<close> wallet \<open>0xaa\<close> applies its own
  code: with a case-insensitive collation the lookup finds its own profile and a
  referral from \<open>0xaa\<close> to \<open>0xAA\<close> is recorded (the next daily post then pays both
  bonuses to the one profile, 400 points in all); with a binary collation the other
  spelling is a profile of its own and the application succeeds as well. The in-memory
  store refuses the other spelling.
\<close>

theorem self_referral_other_spelling:
  "fst (applyReferralCode ''0xaa'' ''ABCD1234'' 5 (run eligible_ops (empty_db True))) =
     Failed ''You cannot use your own referral code'' \<and>
   fst (applyReferralCode ''0xAA'' ''ABCD1234'' 5 (run eligible_ops (empty_db True))) =
     Succeeded [] \<and>
   map (\<lambda>r. (referrerWallet r, referredWallet r))
     (referrals (snd (applyReferralCode ''0xAA'' ''ABCD1234'' 5
        (run eligible_ops (empty_db True))))) = [(''0xaa'', ''0xAA'')] \<and>
   map_option totalPoints (getWalletProfile
     (snd (completeDailyPost ''0xAA'' None ''2026-01-01'' 6
        (snd (applyReferralCode ''0xAA'' ''ABCD1234'' 5 (run eligible_ops (empty_db True))))))
     ''0xaa'') = Some 400 \<and>
   fst (applyReferralCode ''0xAA'' ''ABCD1234'' 6
     (run (eligible_ops @ [(5, GetOrCreateWalletProfile ''0xAA'' ''evm'')]) (empty_db False))) =
     Succeeded [] \<and>
   fst (mock_applyReferralCode ''0XAA'' ''ABCD1234'' 5 (mock_run mock_inactive_ops empty_mock)) =
     Failed ''You cannot refer yourself''"
  by code_simp

theorem self_referral_other_spelling_witness:
  "fst (applyReferralCode ''0xAA'' ''ABCD1234'' 5 (run eligible_ops (empty_db True))) =
     Succeeded []"
  using self_referral_other_spelling by simp

section \<open>C10: addPoints and unknown wallets\<close>

text \<open>
  C10, as stated, fails on the relational store: \<open>addPoints\<close> for a wallet without a
  profile returns \<open>null\<close>, creates no profile and appends no history row.
\<close>

theorem addPoints_unknown_wallet_counterexample:
  "fst (addPoints ''0xabc'' 10 ''admin_adjustment'' 1 (empty_db False)) = None \<and>
   getWalletProfile (snd (addPoints ''0xabc'' 10 ''admin_adjustment'' 1 (empty_db False)))
     ''0xabc'' = None \<and>
   pointsHistory (snd (addPoints ''0xabc'' 10 ''admin_adjustment'' 1 (empty_db False))) = []"
  by code_simp

text \<open>
  C10, amended. On the relational store \<open>addPoints\<close> applies the delta and appends
  the history row for a wallet that has a profile, and returns \<open>null\<close> without writing
  for a wallet that has none; the zero-balance profile is created by
  \<open>getOrCreateWalletProfile\<close>. On the in-memory store \<open>addPoints\<close> creates the missing
  profile with zero balance, applies the delta (\<open>0 + n\<close> in JavaScript numbers) and
  appends the row.
\<close>

theorem addPoints_lookup_or_create:
  "(getWalletProfile d w = None \<longrightarrow> addPoints w n t now d = (None, d)) \<and>
   (getWalletProfile d w = Some p \<longrightarrow>
      fst (addPoints w n t now d) = Some (totalPoints p + n) \<and>
      pointsHistory (snd (addPoints w n t now d)) =
        pointsHistory d @
        [\<lparr>h_id = nextHistoryId d, h_walletAddress = w, transactionType = t,
          pointsChange = n, balanceAfter = totalPoints p + n, h_createdAt = now\<rparr>] \<and>
      getWalletProfile (snd (addPoints w n t now d)) w =
        Some (p\<lparr>totalPoints := totalPoints p + n, updatedAt := now\<rparr>)) \<and>
   (getWalletProfile d w = None \<longrightarrow>
      getWalletProfile (snd (getOrCreateWalletProfile w chain now d)) w =
        Some (newProfile w chain now)) \<and>
   (mock_getWalletProfile s w = None \<longrightarrow>
      mock_getWalletProfile (snd (mock_addPoints w n t now s)) w =
        Some ((newProfile w ''evm'' now)\<lparr>totalPoints := js_add 0 n\<rparr>) \<and>
      m_pointsHistory (snd (mock_addPoints w n t now s)) =
        m_pointsHistory s @
        [\<lparr>h_id = pointsId s, h_walletAddress = w, transactionType = t, pointsChange = n,
          balanceAfter = js_add 0 n, h_createdAt = now\<rparr>])"
proof -
  have c: "getWalletProfile d w = None \<Longrightarrow>
      getWalletProfile (snd (getOrCreateWalletProfile w chain now d)) w =
        Some (newProfile w chain now)"
    by (simp add: getOrCreateWalletProfile_def Let_def getWalletProfile_def find_append_single)
  show ?thesis
    using addPoints_unknown [of d w n t now] addPoints_known [of d w p n t now]
      mock_addPoints_new [of s w n t now] c
    by blast
qed

theorem addPoints_lookup_or_create_witness:
  "getWalletProfile (empty_db False) ''0xabc'' = None \<and>
   addPoints ''0xabc'' 10 ''admin_adjustment'' 1 (empty_db False) = (None, empty_db False) \<and>
   getWalletProfile (snd (getOrCreateWalletProfile ''0xabc'' ''evm'' 1 (empty_db False))) ''0xabc'' =
     Some (newProfile ''0xabc'' ''evm'' 1) \<and>
   mock_getWalletProfile empty_mock ''0xabc'' = None \<and>
   mock_getWalletProfile (snd (mock_addPoints ''0xabc'' 10 ''admin_adjustment'' 1 empty_mock)) ''0xabc'' =
     Some ((newProfile ''0xabc'' ''evm'' 1)\<lparr>totalPoints := 10\<rparr>) \<and>
   m_pointsHistory (snd (mock_addPoints ''0xabc'' 10 ''admin_adjustment'' 1 empty_mock)) =
     [\<lparr>h_id = 1, h_walletAddress = ''0xabc'', transactionType = ''admin_adjustment'',
       pointsChange = 10, balanceAfter = 10, h_createdAt = 1\<rparr>]"
proof -
  have h1: "getWalletProfile (empty_db False) ''0xabc'' = None"
    by (simp add: getWalletProfile_def empty_db_def)
  have h2: "mock_getWalletProfile empty_mock ''0xabc'' = None"
    by (simp add: mock_getWalletProfile_def empty_mock_def)
  from addPoints_lookup_or_create
    [of "empty_db False" "''0xabc''" 10 "''admin_adjustment''" 1 _ "''evm''" empty_mock] h1 h2
  show ?thesis by (simp add: empty_mock_def js_add_def toDouble_def)
qed

end
